(* ===== verification/Prelude.thy ===== *)
theory Prelude
  imports Complex_Main "HOL-Library.List_Lexorder" "HOL-Library.Char_ord" "HOL-Library.Sublist"
begin

text \<open>
  Shared vocabulary of the development: the result type used for every Python call
  that may raise (\<open>'e + 'a\<close>, \<open>Inl\<close> the exception), its sequencing combinator
  \<open>bind_res\<close> and list traversal \<open>map_res\<close> (a Python \<open>for\<close> loop whose body may raise:
  the first exception aborts the loop), the order-preserving de-duplication
  \<open>unique_first\<close> that pandas' \<open>unique\<close> performs, Python's \<open>str.join\<close>, and the
  generic list lemmas the component theories share. The collection \<open>res_simps\<close>
  gathers the evaluation rules of the result combinators.
\<close>

named_theorems res_simps "evaluation rules of the result combinators"

section \<open>Results: exceptions as values\<close>

definition bind_res :: "'e + 'a \<Rightarrow> ('a \<Rightarrow> 'e + 'b) \<Rightarrow> 'e + 'b" where
  "bind_res r f = (case r of Inl e \<Rightarrow> Inl e | Inr a \<Rightarrow> f a)"

lemma bind_res_Inl [simp, res_simps]: "bind_res (Inl e) f = Inl e"
  by (simp add: bind_res_def)

lemma bind_res_Inr [simp, res_simps]: "bind_res (Inr a) f = f a"
  by (simp add: bind_res_def)

lemma bind_res_eq_Inr [simp]:
  "bind_res r f = Inr b \<longleftrightarrow> (\<exists>a. r = Inr a \<and> f a = Inr b)"
  by (cases r) auto

lemma bind_res_eq_Inl:
  "bind_res r f = Inl e \<longleftrightarrow> r = Inl e \<or> (\<exists>a. r = Inr a \<and> f a = Inl e)"
  by (cases r) auto

text \<open>A loop whose body may raise: the first exception aborts it.\<close>

fun map_res :: "('a \<Rightarrow> 'e + 'b) \<Rightarrow> 'a list \<Rightarrow> 'e + 'b list" where
  "map_res f [] = Inr []"
| "map_res f (x # xs) = bind_res (f x) (\<lambda>y. bind_res (map_res f xs) (\<lambda>ys. Inr (y # ys)))"

lemma map_res_Inr_length [res_simps]:
  "map_res f xs = Inr ys \<Longrightarrow> length ys = length xs"
  by (induction xs arbitrary: ys) auto

lemma map_res_Inr_nth [res_simps]:
  "map_res f xs = Inr ys \<Longrightarrow> i < length xs \<Longrightarrow> f (xs ! i) = Inr (ys ! i)"
proof (induction xs arbitrary: ys i)
  case Nil
  then show ?case by simp
next
  case (Cons x xs)
  then show ?case by (cases i) auto
qed

lemma map_res_Inr_iff:
  "map_res f xs = Inr ys \<longleftrightarrow> length ys = length xs \<and> (\<forall>i < length xs. f (xs ! i) = Inr (ys ! i))"
proof (induction xs arbitrary: ys)
  case Nil
  then show ?case by auto
next
  case (Cons x xs)
  show ?case
  proof (cases ys)
    case Nil
    then show ?thesis by auto
  next
    case (Cons y ys')
    with Cons.IH show ?thesis by (auto simp: nth_Cons split: nat.splits)
  qed
qed

lemma map_res_all_Inr:
  "(\<And>x. x \<in> set xs \<Longrightarrow> f x = Inr (g x)) \<Longrightarrow> map_res f xs = Inr (map g xs)"
  by (induction xs) auto

section \<open>Order-preserving de-duplication\<close>

text \<open>
  \<open>remdups\<close> of the library keeps the last occurrence of each element; pandas'
  \<open>unique\<close> (and \<open>drop_duplicates\<close>) keep the first, in order of appearance. The
  implementation is a scan with the list of values seen so far, the way the hash-table
  algorithm of pandas runs; \<open>unique_first_ref\<close> is the reference definition.
\<close>

fun unique_scan :: "'a list \<Rightarrow> 'a list \<Rightarrow> 'a list" where
  "unique_scan seen [] = []"
| "unique_scan seen (x # xs) =
     (if x \<in> set seen then unique_scan seen xs else x # unique_scan (x # seen) xs)"

definition unique_first :: "'a list \<Rightarrow> 'a list" where
  "unique_first xs = unique_scan [] xs"

definition unique_first_ref :: "'a list \<Rightarrow> 'a list" where
  "unique_first_ref xs = rev (remdups (rev xs))"

lemma remdups_snoc:
  "remdups (zs @ [x]) = remdups (filter (\<lambda>y. y \<noteq> x) zs) @ [x]"
  by (induction zs) auto

lemma unique_first_ref_Cons:
  "unique_first_ref (x # ys) = x # unique_first_ref (filter (\<lambda>y. y \<noteq> x) ys)"
  by (simp add: unique_first_ref_def remdups_snoc rev_filter)

lemma unique_scan_filter:
  "unique_scan seen xs = unique_first_ref (filter (\<lambda>x. x \<notin> set seen) xs)"
proof (induction xs arbitrary: seen)
  case Nil
  then show ?case by (simp add: unique_first_ref_def)
next
  case (Cons x xs)
  show ?case
  proof (cases "x \<in> set seen")
    case True
    with Cons.IH show ?thesis by simp
  next
    case False
    have "filter (\<lambda>y. y \<notin> set (x # seen)) xs = filter (\<lambda>y. y \<noteq> x) (filter (\<lambda>y. y \<notin> set seen) xs)"
      by (simp add: filter_filter conj_commute)
    with False Cons.IH[of "x # seen"] show ?thesis
      by (simp add: unique_first_ref_Cons)
  qed
qed

lemma unique_first_eq_ref: "unique_first xs = unique_first_ref xs"
  by (simp add: unique_first_def unique_scan_filter)

lemma set_unique_first [simp]: "set (unique_first xs) = set xs"
  by (simp add: unique_first_eq_ref unique_first_ref_def)

lemma distinct_unique_first [simp]: "distinct (unique_first xs)"
  by (simp add: unique_first_eq_ref unique_first_ref_def)

lemma unique_first_distinct_id: "distinct xs \<Longrightarrow> unique_first xs = xs"
  by (simp add: unique_first_eq_ref unique_first_ref_def distinct_remdups_id)

lemma unique_first_Cons:
  "unique_first (x # xs) = x # unique_first (filter (\<lambda>y. y \<noteq> x) xs)"
proof -
  have "unique_scan [x] xs = unique_scan [] (filter (\<lambda>y. y \<noteq> x) xs)"
    by (simp add: unique_scan_filter)
  then show ?thesis by (simp add: unique_first_def)
qed

lemma unique_first_map_filter_length:
  "length (unique_first xs) = card (set xs)"
  by (metis distinct_card distinct_unique_first set_unique_first)

section \<open>Strings\<close>

text \<open>Python's \<open>sep.join(parts)\<close>.\<close>

fun join_str :: "string \<Rightarrow> string list \<Rightarrow> string" where
  "join_str sep [] = []"
| "join_str sep [s] = s"
| "join_str sep (s # ss) = s @ sep @ join_str sep ss"

lemma join_str_Cons_Cons [simp]:
  "join_str sep (s # t # ss) = s @ sep @ join_str sep (t # ss)"
  by simp

lemma sublist_join_str:
  "s \<in> set ss \<Longrightarrow> sublist s (join_str sep ss)"
proof (induction sep ss rule: join_str.induct)
  case (3 sep s v va)
  then show ?case
    by (auto intro: sublist_append_rightI sublist_order.order.trans[OF _ sublist_append_leftI])
qed auto

section \<open>Association lists\<close>

text \<open>Maps over the values of an association list keep its keys.\<close>

lemma fst_comp_pair [simp]: "fst \<circ> (\<lambda>(k, v). (k, f k v)) = fst"
  by (auto simp: fun_eq_iff)

lemma map_fst_pair_map [simp]: "map fst (map (\<lambda>(k, v). (k, f k v)) xs) = map fst xs"
  by (induction xs) auto

lemma map_of_pair_map [simp]:
  "map_of (map (\<lambda>(k, v). (k, f k v)) xs) c = map_option (f c) (map_of xs c)"
  by (induction xs) auto

lemma map_of_in_keys: "c \<in> fst ` set xs \<Longrightarrow> \<exists>v. map_of xs c = Some v"
  by (induction xs) auto

lemma map_of_Some_keys: "map_of xs c = Some v \<Longrightarrow> c \<in> fst ` set xs"
  by (induction xs) (auto split: if_splits)

text \<open>Positions of the first element satisfying a predicate.\<close>

fun find_idx :: "('a \<Rightarrow> bool) \<Rightarrow> 'a list \<Rightarrow> nat option" where
  "find_idx P [] = None"
| "find_idx P (x # xs) = (if P x then Some 0 else map_option Suc (find_idx P xs))"

lemma find_idx_Some:
  "find_idx P xs = Some i \<Longrightarrow> i < length xs \<and> P (xs ! i) \<and> (\<forall>j < i. \<not> P (xs ! j))"
proof (induction xs arbitrary: i)
  case Nil
  then show ?case by simp
next
  case (Cons x xs)
  then show ?case
    by (auto simp: nth_Cons split: if_splits nat.splits)
qed

lemma find_idx_None: "find_idx P xs = None \<longleftrightarrow> (\<forall>x \<in> set xs. \<not> P x)"
  by (induction xs) auto

lemma find_idx_eq_Some_iff:
  "find_idx P xs = Some i \<longleftrightarrow> i < length xs \<and> P (xs ! i) \<and> (\<forall>j < i. \<not> P (xs ! j))"
proof
  assume "find_idx P xs = Some i"
  then show "i < length xs \<and> P (xs ! i) \<and> (\<forall>j < i. \<not> P (xs ! j))" by (rule find_idx_Some)
next
  assume r: "i < length xs \<and> P (xs ! i) \<and> (\<forall>j < i. \<not> P (xs ! j))"
  then show "find_idx P xs = Some i"
  proof (induction xs arbitrary: i)
    case Nil
    then show ?case by simp
  next
    case (Cons x xs)
    then show ?case
      by (cases i) (auto simp: nth_Cons split: nat.splits)
  qed
qed

text \<open>The position of the first occurrence of a value (the length when there is none).\<close>

definition first_pos :: "'a list \<Rightarrow> 'a \<Rightarrow> nat" where
  "first_pos xs v = (case find_idx (\<lambda>x. x = v) xs of Some i \<Rightarrow> i | None \<Rightarrow> length xs)"

lemma first_pos_eq:
  "i < length xs \<Longrightarrow> xs ! i = v \<Longrightarrow> v \<notin> set (take i xs) \<Longrightarrow> first_pos xs v = i"
proof -
  assume a: "i < length xs" "xs ! i = v" "v \<notin> set (take i xs)"
  then have "\<forall>j < i. xs ! j \<noteq> v" by (auto simp: in_set_conv_nth)
  with a have "find_idx (\<lambda>x. x = v) xs = Some i" by (simp add: find_idx_eq_Some_iff)
  then show ?thesis by (simp add: first_pos_def)
qed

lemma first_pos_in:
  "v \<in> set xs \<Longrightarrow> first_pos xs v < length xs \<and> xs ! first_pos xs v = v"
proof -
  assume "v \<in> set xs"
  then obtain i where "find_idx (\<lambda>x. x = v) xs = Some i"
    by (cases "find_idx (\<lambda>x. x = v) xs") (auto simp: find_idx_None)
  then show ?thesis by (auto simp: first_pos_def dest: find_idx_Some)
qed

lemma first_pos_distinct:
  "distinct xs \<Longrightarrow> j < length xs \<Longrightarrow> first_pos xs (xs ! j) = j"
  by (rule first_pos_eq) (auto simp: in_set_conv_nth nth_eq_iff_index_eq)

text \<open>In a list without repetitions, exactly one position holds a value of the list.\<close>

lemma filter_upt_distinct:
  assumes "distinct xs" "v \<in> set xs"
  shows "filter (\<lambda>j. xs ! j = v) [0..<length xs] = [first_pos xs v]"
proof -
  let ?js = "filter (\<lambda>j. xs ! j = v) [0..<length xs]"
  have fp: "first_pos xs v < length xs" "xs ! first_pos xs v = v" using first_pos_in[OF assms(2)] by auto
  have "set ?js = {first_pos xs v}"
    using fp assms(1) by (auto simp: nth_eq_iff_index_eq)
  moreover have "distinct ?js" by simp
  ultimately have "length ?js = 1" by (metis distinct_card card_1_singleton_iff card.empty card_insert_disjoint empty_iff finite.emptyI One_nat_def)
  then obtain y where "?js = [y]" by (auto simp: length_Suc_conv)
  with \<open>set ?js = {first_pos xs v}\<close> show ?thesis by simp
qed

text \<open>The first position of a value: its prefix misses it, and extending the list keeps it.\<close>

lemma first_pos_take: "v \<notin> set (take (first_pos xs v) xs)"
proof (cases "v \<in> set xs")
  case True
  then obtain i where i: "find_idx (\<lambda>x. x = v) xs = Some i"
    by (cases "find_idx (\<lambda>x. x = v) xs") (auto simp: find_idx_None)
  then have "\<forall>j < i. xs ! j \<noteq> v" by (auto dest: find_idx_Some)
  with i show ?thesis by (auto simp: first_pos_def in_set_conv_nth)
next
  case False
  then show ?thesis by (auto dest: in_set_takeD)
qed

lemma first_pos_append: "v \<in> set xs \<Longrightarrow> first_pos (xs @ ys) v = first_pos xs v"
  using first_pos_in[of v xs] first_pos_take[of v xs]
  by (intro first_pos_eq) (auto simp: nth_append)

lemma first_pos_snoc_new: "v \<notin> set xs \<Longrightarrow> first_pos (xs @ [v]) v = length xs"
  by (intro first_pos_eq) auto

lemma map_fst_filter: "map fst (filter (\<lambda>(c, _). P c) xs) = filter P (map fst xs)"
  by (induction xs) auto

text \<open>A loop of fallible steps fails exactly when one of its steps fails.\<close>

lemma map_res_total:
  "\<forall>x \<in> set xs. \<exists>y. f x = Inr y \<Longrightarrow> \<exists>ys. map_res f xs = Inr ys"
  by (induction xs) auto

lemma map_res_Inl_ex: "map_res f xs = Inl e \<Longrightarrow> \<exists>x \<in> set xs. f x = Inl e"
  by (induction xs) (auto simp: bind_res_eq_Inl)

lemma map_res_Inl_intro: "x \<in> set xs \<Longrightarrow> f x = Inl e \<Longrightarrow> \<exists>e'. map_res f xs = Inl e'"
proof (induction xs)
  case (Cons y ys)
  then show ?case by (cases "f y") auto
qed simp

lemma zip_upt: "length vs = length ks \<Longrightarrow> zip ks vs = map (\<lambda>j. (ks ! j, vs ! j)) [0..<length ks]"
  by (rule nth_equalityI) auto

lemma concat_map_singleton: "\<forall>c \<in> set s. f c = [c] \<Longrightarrow> concat (map f s) = s"
  by (induction s) auto

lemma map_as_upt: "map f xs = map (\<lambda>i. f (xs ! i)) [0..<length xs]"
  by (rule nth_equalityI) auto

end
