(* ===== verification/PyValue.thy ===== *)
theory PyValue
  imports Prelude
begin

text \<open>
  The Python values that flow through \<open>src/src/utils.py\<close>: the cells of a pandas
  DataFrame (strings, ints, floats, NaN, None, the lists and dicts of the Places API's
  JSON, and the numpy object arrays that \<open>groupby(...).agg(['unique'])\<close> produces),
  the exceptions the code can raise, and the two renderings the code depends on:
  Python's \<open>repr\<close> and \<open>str\<close> (the latter applied to a numpy array in
  \<open>treat_data\<close>, line 198).

  A float is modelled by its decimal value \<open>Dec m e\<close> \<open>= m / 10^e\<close>, kept in normal
  form (no trailing zero digit after the point). For the floats of the Places API (at
  most 17 significant digits) Python's \<open>repr\<close> prints exactly these digits, which is
  what \<open>float_repr\<close> does, switching to exponent notation outside
  \<open>[1e-4, 1e16)\<close> as CPython does. Binary rounding is not modelled.
\<close>

section \<open>Values\<close>

datatype decimal = Dec int nat

definition dec_val :: "decimal \<Rightarrow> rat" where
  "dec_val d = (case d of Dec m e \<Rightarrow> of_int m / of_nat (10 ^ e))"

fun dec_normal :: "decimal \<Rightarrow> bool" where
  "dec_normal (Dec m e) = (e = 0 \<or> m mod 10 \<noteq> 0)"

text \<open>Normal form: trailing zero digits after the point removed.\<close>

fun dec_norm :: "int \<Rightarrow> nat \<Rightarrow> decimal" where
  "dec_norm m 0 = Dec m 0"
| "dec_norm m (Suc e) = (if m mod 10 \<noteq> 0 then Dec m (Suc e) else dec_norm (m div 10) e)"

datatype pyval =
    PNone
  | PBool bool
  | PInt int
  | PFloat decimal
  | PNaN
  | PStr string
  | PList "pyval list"
  | PDict "(string \<times> pyval) list"
  | PArray "pyval list"

text \<open>Exceptions the modelled code can raise (\<open>Unmodelled\<close> marks an input outside the model).\<close>

datatype py_exc =
    KeyError string
  | IndexError string
  | ValueError string
  | TypeError string
  | ConnectionError string
  | JSONDecodeError string
  | Unmodelled string

type_synonym 'a py = "py_exc + 'a"

text \<open>Hashable values (pandas' hash table refuses lists, dicts and arrays).\<close>

fun py_hashable :: "pyval \<Rightarrow> bool" where
  "py_hashable (PList _) = False"
| "py_hashable (PDict _) = False"
| "py_hashable (PArray _) = False"
| "py_hashable _ = True"

text \<open>Missing values, as pandas' \<open>isna\<close> sees them.\<close>

fun py_isna :: "pyval \<Rightarrow> bool" where
  "py_isna PNone = True"
| "py_isna PNaN = True"
| "py_isna _ = False"

section \<open>Digits\<close>

definition digit_char :: "nat \<Rightarrow> char" where
  "digit_char n = ''0123456789'' ! n"

definition is_digit :: "char \<Rightarrow> bool" where
  "is_digit c \<longleftrightarrow> CHR ''0'' \<le> c \<and> c \<le> CHR ''9''"

definition digit_val :: "char \<Rightarrow> nat" where
  "digit_val c = of_char c - 48"

fun nat_str :: "nat \<Rightarrow> string" where
  "nat_str n = (if n < 10 then [digit_char n] else nat_str (n div 10) @ [digit_char (n mod 10)])"

declare nat_str.simps [simp del]

definition int_str :: "int \<Rightarrow> string" where
  "int_str i = (if i < 0 then CHR ''-'' # nat_str (nat (- i)) else nat_str (nat i))"

fun digits_val :: "string \<Rightarrow> nat" where
  "digits_val [] = 0"
| "digits_val (c # cs) = digit_val c * 10 ^ length cs + digits_val cs"

lemma ten_cases: "n < 10 \<Longrightarrow> n \<in> {0, 1, 2, 3, 4, 5, 6, 7, 8, 9::nat}"
  by auto

lemma is_digit_digit_char [simp]: "n < 10 \<Longrightarrow> is_digit (digit_char n)"
  by (drule ten_cases) (auto simp: is_digit_def digit_char_def less_eq_char_def)

lemma digit_val_digit_char [simp]: "n < 10 \<Longrightarrow> digit_val (digit_char n) = n"
  by (drule ten_cases) (auto simp: digit_val_def digit_char_def)

lemma nat_str_nonempty [simp]: "nat_str n \<noteq> []"
  by (subst nat_str.simps) simp

lemma nat_str_digits: "c \<in> set (nat_str n) \<Longrightarrow> is_digit c"
proof (induction n rule: nat_str.induct)
  case (1 n)
  then show ?case
    by (subst (asm) nat_str.simps) (auto split: if_splits)
qed

lemma digits_val_snoc: "digits_val (cs @ [c]) = digits_val cs * 10 + digit_val c"
  by (induction cs) (simp_all add: algebra_simps)

lemma digits_val_nat_str [simp]: "digits_val (nat_str n) = n"
proof (induction n rule: nat_str.induct)
  case (1 n)
  then show ?case
    by (subst nat_str.simps) (simp add: digits_val_snoc)
qed

section \<open>Python's repr and str\<close>

text \<open>\<open>repr(float)\<close>, for a float in normal form.\<close>

definition pad2 :: "string \<Rightarrow> string" where
  "pad2 s = (if length s < 2 then CHR ''0'' # s else s)"

definition float_repr :: "decimal \<Rightarrow> string" where
  "float_repr d = (case d of Dec m e \<Rightarrow>
     let sgn = (if m < 0 then ''-'' else []);
         ds = nat_str (nat \<bar>m\<bar>);
         x = int (length ds) - 1 - int e
     in if m = 0 then ''0.0''
        else if -4 \<le> x \<and> x < 16 then
          (if e = 0 then sgn @ ds @ ''.0''
           else if e < length ds then sgn @ take (length ds - e) ds @ ''.'' @ drop (length ds - e) ds
           else sgn @ ''0.'' @ replicate (e - length ds) CHR ''0'' @ ds)
        else
          (let sig = rev (dropWhile (\<lambda>c. c = CHR ''0'') (rev ds))
           in sgn @ (case sig of [] \<Rightarrow> ''0'' | [c] \<Rightarrow> [c] | c # cs \<Rightarrow> c # CHR ''.'' # cs)
              @ ''e'' @ (if x < 0 then ''-'' else ''+'') @ pad2 (nat_str (nat \<bar>x\<bar>))))"

text \<open>\<open>repr(str)\<close>: quotes chosen as CPython does, backslash and control characters escaped.\<close>

definition hex_digit :: "nat \<Rightarrow> char" where
  "hex_digit n = ''0123456789abcdef'' ! n"

fun str_repr_char :: "char \<Rightarrow> char \<Rightarrow> string" where
  "str_repr_char q c =
     (if c = q \<or> c = CHR 0x5C then [CHR 0x5C, c]
      else if c = CHR 0x09 then [CHR 0x5C, CHR ''t'']
      else if c = CHR 0x0A then [CHR 0x5C, CHR ''n'']
      else if c = CHR 0x0D then [CHR 0x5C, CHR ''r'']
      else if of_char c < (32::nat) \<or> of_char c = (127::nat)
        then [CHR 0x5C, CHR ''x'', hex_digit (of_char c div 16), hex_digit (of_char c mod 16)]
      else [c])"

definition str_repr :: "string \<Rightarrow> string" where
  "str_repr s =
     (let q = (if CHR 0x27 \<in> set s \<and> CHR 0x22 \<notin> set s then CHR 0x22 else CHR 0x27)
      in q # concat (map (str_repr_char q) s) @ [q])"

text \<open>\<open>repr\<close> of a value; a numpy array prints as \<open>array([...], dtype=object)\<close>.\<close>

fun py_repr :: "pyval \<Rightarrow> string" where
  "py_repr PNone = ''None''"
| "py_repr (PBool b) = (if b then ''True'' else ''False'')"
| "py_repr (PInt i) = int_str i"
| "py_repr (PFloat d) = float_repr d"
| "py_repr PNaN = ''nan''"
| "py_repr (PStr s) = str_repr s"
| "py_repr (PList xs) = ''['' @ join_str '', '' (map py_repr xs) @ '']''"
| "py_repr (PDict kvs) =
     ''{'' @ join_str '', '' (map (\<lambda>(k, v). str_repr k @ '': '' @ py_repr v) kvs) @ ''}''"
| "py_repr (PArray xs) = ''array(['' @ join_str '', '' (map py_repr xs) @ ''], dtype=object)''"

text \<open>
  \<open>str\<close> of a numpy object array: the elements' \<open>repr\<close> separated by blanks, a list
  element written \<open>list([...])\<close> (numpy's \<open>_object_format\<close>). Numpy wraps long output
  by turning a separating blank into a line break and a blank; no digit, sign or point
  is inserted or removed by that, so the numbers found in the text are the same.
\<close>

fun np_elem_str :: "pyval \<Rightarrow> string" where
  "np_elem_str (PList xs) = ''list('' @ py_repr (PList xs) @ '')''"
| "np_elem_str v = py_repr v"

definition np_array_str :: "pyval list \<Rightarrow> string" where
  "np_array_str xs = ''['' @ join_str '' '' (map np_elem_str xs) @ '']''"

fun py_str :: "pyval \<Rightarrow> string" where
  "py_str (PStr s) = s"
| "py_str (PArray xs) = np_array_str xs"
| "py_str v = py_repr v"

text \<open>\<open>repr\<close> leaves digits, signs and points as they are.\<close>

lemma str_repr_char_digit: "is_digit c \<Longrightarrow> str_repr_char (CHR 0x27) c = [c]"
  by (auto simp: is_digit_def less_eq_char_def)

lemma str_repr_char_numeral:
  "is_digit c \<or> c = CHR ''-'' \<or> c = CHR ''.'' \<Longrightarrow> str_repr_char (CHR 0x27) c = [c]"
proof (elim disjE)
  assume "is_digit c"
  then show ?thesis by (rule str_repr_char_digit)
qed simp_all

end
