(* ===== verification/Frame.thy ===== *)
theory Frame
  imports PyValue
begin

text \<open>
  The pandas \<open>DataFrame\<close> operations that \<open>src/src/utils.py\<close> calls, on a column-store
  model: a frame is its row index (a list of labels) and its columns in order, each a
  name and a list of cells. \<open>wf_frame\<close> is the invariant pandas keeps: every column is
  as long as the index, and column names are distinct (the operations used here never
  create duplicates). Each operation returns \<open>py_exc + frame\<close>: the exceptions are the
  ones pandas raises on the same inputs (\<open>KeyError\<close> for a missing label,
  \<open>ValueError\<close> for a length mismatch, \<open>TypeError\<close> for unhashable values).
\<close>

record frame =
  fr_index :: "pyval list"
  fr_cols :: "(string \<times> pyval list) list"

definition nrows :: "frame \<Rightarrow> nat" where
  "nrows df = length (fr_index df)"

definition col_names :: "frame \<Rightarrow> string list" where
  "col_names df = map fst (fr_cols df)"

definition wf_frame :: "frame \<Rightarrow> bool" where
  "wf_frame df \<longleftrightarrow> (\<forall>(c, vs) \<in> set (fr_cols df). length vs = nrows df) \<and> distinct (col_names df)"

text \<open>\<open>pd.DataFrame()\<close> and a \<open>RangeIndex\<close>.\<close>

definition empty_frame :: frame where
  "empty_frame = \<lparr>fr_index = [], fr_cols = []\<rparr>"

definition range_index :: "nat \<Rightarrow> pyval list" where
  "range_index n = map (\<lambda>i. PInt (int i)) [0..<n]"

section \<open>Columns\<close>

text \<open>\<open>df[c]\<close>: a missing label raises \<open>KeyError\<close>.\<close>

definition get_column :: "frame \<Rightarrow> string \<Rightarrow> pyval list py" where
  "get_column df c =
     (case map_of (fr_cols df) c of None \<Rightarrow> Inl (KeyError c) | Some vs \<Rightarrow> Inr vs)"

text \<open>
  \<open>df[c] = vs\<close> with a list \<open>vs\<close>. A frame without rows takes its index from the
  list first (its existing columns are reindexed, hence filled with NaN); the list must
  then be as long as the index; an existing column is replaced in place, a new one is
  appended.
\<close>

definition set_column :: "frame \<Rightarrow> string \<Rightarrow> pyval list \<Rightarrow> frame py" where
  "set_column df c vs =
     (let df' = (if fr_index df = [] \<and> vs \<noteq> []
                 then \<lparr>fr_index = range_index (length vs),
                       fr_cols = map (\<lambda>(k, _). (k, replicate (length vs) PNaN)) (fr_cols df)\<rparr>
                 else df)
      in if length vs \<noteq> length (fr_index df')
         then Inl (ValueError ''Length of values does not match length of index'')
         else if c \<in> set (col_names df')
         then Inr (df'\<lparr>fr_cols := map (\<lambda>(k, ws). (k, if k = c then vs else ws)) (fr_cols df')\<rparr>)
         else Inr (df'\<lparr>fr_cols := fr_cols df' @ [(c, vs)]\<rparr>))"

text \<open>\<open>df.drop(columns=cs)\<close>: every label must exist.\<close>

definition drop_columns :: "frame \<Rightarrow> string list \<Rightarrow> frame py" where
  "drop_columns df cs =
     (let missing = filter (\<lambda>c. c \<notin> set (col_names df)) cs
      in if missing \<noteq> []
         then Inl (KeyError (py_repr (PList (map PStr missing)) @ '' not found in axis''))
         else Inr (df\<lparr>fr_cols := filter (\<lambda>(k, _). k \<notin> set cs) (fr_cols df)\<rparr>))"

text \<open>\<open>df.columns = names\<close>: the new labels must be as many as the columns.\<close>

definition set_col_names :: "frame \<Rightarrow> string list \<Rightarrow> frame py" where
  "set_col_names df names =
     (if length names \<noteq> length (fr_cols df)
      then Inl (ValueError ''Length mismatch'')
      else Inr (df\<lparr>fr_cols := map2 (\<lambda>n (_, vs). (n, vs)) names (fr_cols df)\<rparr>))"

text \<open>\<open>df.rename(columns=m)\<close>: labels absent from the frame are ignored.\<close>

definition rename_columns :: "frame \<Rightarrow> (string \<times> string) list \<Rightarrow> frame" where
  "rename_columns df m =
     df\<lparr>fr_cols := map (\<lambda>(k, vs). (case map_of m k of Some k' \<Rightarrow> k' | None \<Rightarrow> k, vs)) (fr_cols df)\<rparr>"

text \<open>\<open>df.reset_index()\<close> for an index named \<open>nm\<close>: the index becomes the first column.\<close>

definition reset_index :: "string \<Rightarrow> frame \<Rightarrow> frame py" where
  "reset_index nm df =
     (if nm \<in> set (col_names df)
      then Inl (ValueError (''cannot insert '' @ nm @ '', already exists''))
      else Inr \<lparr>fr_index = range_index (nrows df), fr_cols = (nm, fr_index df) # fr_cols df\<rparr>)"

section \<open>Rows\<close>

text \<open>The cells of one row, in column order.\<close>

definition frame_row :: "frame \<Rightarrow> nat \<Rightarrow> pyval list" where
  "frame_row df i = map (\<lambda>(c, vs). vs ! i) (fr_cols df)"


text \<open>Selecting rows by position, index labels kept.\<close>

definition take_rows :: "frame \<Rightarrow> nat list \<Rightarrow> frame" where
  "take_rows df is =
     \<lparr>fr_index = map (\<lambda>i. fr_index df ! i) is,
      fr_cols = map (\<lambda>(c, vs). (c, map (\<lambda>i. vs ! i) is)) (fr_cols df)\<rparr>"

text \<open>Positions of the first occurrence of each value.\<close>

definition first_rows :: "pyval list \<Rightarrow> nat list" where
  "first_rows ks = filter (\<lambda>i. ks ! i \<notin> set (take i ks)) [0..<length ks]"

text \<open>\<open>df.drop_duplicates(subset=c)\<close>: the first row of each value of column \<open>c\<close>.\<close>

definition drop_duplicates :: "frame \<Rightarrow> string \<Rightarrow> frame py" where
  "drop_duplicates df c = bind_res (get_column df c) (\<lambda>ks. Inr (take_rows df (first_rows ks)))"


section \<open>Lemmas\<close>

named_theorems frame_defs "definitions of the frame operations"
declare get_column_def [frame_defs] set_column_def [frame_defs] drop_columns_def [frame_defs]
  take_rows_def [frame_defs] nrows_def [frame_defs] col_names_def [frame_defs]

lemma wf_empty_frame [simp]: "wf_frame empty_frame"
  by (simp add: wf_frame_def empty_frame_def nrows_def col_names_def)

lemma length_range_index [simp]: "length (range_index n) = n"
  by (simp add: range_index_def)

lemma range_index_eq_Nil [simp]: "range_index n = [] \<longleftrightarrow> n = 0"
  by (simp add: range_index_def)

lemma get_column_Inr:
  "get_column df c = Inr vs \<longleftrightarrow> map_of (fr_cols df) c = Some vs"
  by (simp add: get_column_def split: option.splits)

lemma get_column_Inl:
  "get_column df c = Inl e \<longleftrightarrow> c \<notin> set (col_names df) \<and> e = KeyError c"
proof (cases "map_of (fr_cols df) c")
  case None
  then have "c \<notin> set (col_names df)" by (auto simp: col_names_def map_of_eq_None_iff)
  with None show ?thesis by (auto simp: get_column_def)
next
  case (Some vs)
  then show ?thesis using map_of_Some_keys[OF Some] by (auto simp: get_column_def col_names_def)
qed

lemma get_column_wf:
  "wf_frame df \<Longrightarrow> get_column df c = Inr vs \<Longrightarrow> length vs = nrows df"
  by (auto simp: get_column_Inr wf_frame_def dest: map_of_SomeD)

lemma get_column_exists:
  "c \<in> set (col_names df) \<Longrightarrow> \<exists>vs. get_column df c = Inr vs"
  using map_of_in_keys[of c "fr_cols df"] by (auto simp: get_column_def col_names_def)

text \<open>\<open>df[c] = vs\<close> fails exactly when the frame has rows and the list has another length.\<close>

lemma set_column_Inl:
  "(\<exists>e. set_column df c vs = Inl e) \<longleftrightarrow> fr_index df \<noteq> [] \<and> length vs \<noteq> nrows df"
  by (auto simp: set_column_def nrows_def Let_def)

lemma set_column_Inr:
  assumes "wf_frame df" "set_column df c vs = Inr df'"
  shows "wf_frame df' \<and> nrows df' = length vs \<and> get_column df' c = Inr vs \<and>
         col_names df' = (if c \<in> set (col_names df) then col_names df else col_names df @ [c])"
proof -
  define df0 where "df0 = (if fr_index df = [] \<and> vs \<noteq> []
             then \<lparr>fr_index = range_index (length vs),
                   fr_cols = map (\<lambda>(k, _). (k, replicate (length vs) PNaN)) (fr_cols df)\<rparr>
             else df)"
  have len: "length (fr_index df0) = length vs"
    using assms(2) by (auto simp: set_column_def df0_def Let_def split: if_splits)
  have names: "col_names df0 = col_names df"
    by (simp add: df0_def col_names_def)
  have wf: "wf_frame df0"
    using assms(1) by (auto simp: df0_def wf_frame_def nrows_def col_names_def)
  show ?thesis
  proof (cases "c \<in> set (col_names df)")
    case True
    with assms(2) len names have df': "df' = df0\<lparr>fr_cols := map (\<lambda>(k, ws). (k, if k = c then vs else ws)) (fr_cols df0)\<rparr>"
      by (simp add: set_column_def df0_def Let_def)
    from True names have "c \<in> set (col_names df0)" by simp
    then have "c \<in> set (map fst (fr_cols df0))" by (simp only: col_names_def)
    then have "c \<in> fst ` set (fr_cols df0)" by simp
    then have "\<exists>ws. map_of (fr_cols df0) c = Some ws" by (rule map_of_in_keys)
    then obtain ws where "map_of (fr_cols df0) c = Some ws" ..
    with df' wf len names True show ?thesis
      by (auto simp: wf_frame_def nrows_def col_names_def get_column_Inr)
  next
    case False
    with assms(2) len names have df': "df' = df0\<lparr>fr_cols := fr_cols df0 @ [(c, vs)]\<rparr>"
      by (simp add: set_column_def df0_def Let_def)
    from False names have "c \<notin> set (col_names df0)" by simp
    then have "c \<notin> set (map fst (fr_cols df0))" by (simp add: col_names_def)
    then have "map_of (fr_cols df0) c = None" by (metis map_of_eq_None_iff set_map)
    with df' wf len names False show ?thesis
      by (auto simp: wf_frame_def nrows_def col_names_def get_column_Inr map_add_def)
  qed
qed

text \<open>\<open>drop(columns=cs)\<close> succeeds exactly when every label exists.\<close>

lemma drop_columns_Inl:
  "(\<exists>e. drop_columns df cs = Inl e) \<longleftrightarrow> (\<exists>c \<in> set cs. c \<notin> set (col_names df))"
  by (auto simp: drop_columns_def Let_def filter_empty_conv)

lemma drop_columns_Inr:
  assumes "wf_frame df" "drop_columns df cs = Inr df'"
  shows "wf_frame df' \<and> nrows df' = nrows df \<and> col_names df' = filter (\<lambda>k. k \<notin> set cs) (col_names df)
    \<and> (\<forall>c. c \<notin> set cs \<longrightarrow> get_column df' c = get_column df c)"
proof -
  from assms(2) have df': "df' = df\<lparr>fr_cols := filter (\<lambda>(k, _). k \<notin> set cs) (fr_cols df)\<rparr>"
    by (simp add: drop_columns_def Let_def split: if_splits)
  have names: "map fst (filter (\<lambda>(k, _). k \<notin> set cs) xs) = filter (\<lambda>k. k \<notin> set cs) (map fst xs)"
    for xs :: "(string \<times> pyval list) list"
    by (induction xs) auto
  have look: "map_of (filter (\<lambda>(k, _). k \<notin> set cs) xs) c = map_of xs c" if "c \<notin> set cs"
    for xs :: "(string \<times> pyval list) list" and c
    using that by (induction xs) auto
  from assms(1) have "distinct (filter (\<lambda>k. k \<notin> set cs) (col_names df))"
    by (simp add: wf_frame_def)
  with assms(1) df' names look show ?thesis
    by (auto simp: wf_frame_def nrows_def col_names_def get_column_def)
qed

lemma take_rows_wf:
  assumes "wf_frame df" "\<forall>i \<in> set is. i < nrows df"
  shows "wf_frame (take_rows df is) \<and> nrows (take_rows df is) = length is \<and>
         col_names (take_rows df is) = col_names df"
proof -
  from assms show ?thesis
    by (auto simp: wf_frame_def take_rows_def nrows_def col_names_def)
qed

lemma get_column_take_rows:
  "get_column df c = Inr vs \<Longrightarrow> get_column (take_rows df is) c = Inr (map (\<lambda>i. vs ! i) is)"
proof -
  show "get_column df c = Inr vs \<Longrightarrow> get_column (take_rows df is) c = Inr (map (\<lambda>i. vs ! i) is)"
    by (simp add: get_column_Inr take_rows_def)
qed

text \<open>The first-occurrence positions select exactly \<open>unique_first\<close> of the column.\<close>

lemma first_rows_snoc:
  "first_rows (ks @ [k]) = first_rows ks @ (if k \<in> set ks then [] else [length ks])"
proof -
  have "filter (\<lambda>i. (ks @ [k]) ! i \<notin> set (take i (ks @ [k]))) [0..<length ks] = first_rows ks"
    by (auto simp: first_rows_def nth_append intro!: filter_cong)
  then show ?thesis by (simp add: first_rows_def)
qed

lemma unique_first_snoc:
  "unique_first (ks @ [k]) = unique_first ks @ (if k \<in> set ks then [] else [k])"
  by (simp add: unique_first_eq_ref unique_first_ref_def)

lemma first_rows_bound: "i \<in> set (first_rows ks) \<Longrightarrow> i < length ks"
  by (simp add: first_rows_def)

lemma map_first_rows: "map (\<lambda>i. ks ! i) (first_rows ks) = unique_first ks"
proof (induction ks rule: rev_induct)
  case Nil
  then show ?case by (simp add: first_rows_def unique_first_def)
next
  case (snoc k ks)
  have "map (\<lambda>i. (ks @ [k]) ! i) (first_rows ks) = map (\<lambda>i. ks ! i) (first_rows ks)"
    by (auto simp: nth_append dest: first_rows_bound)
  with snoc show ?case by (simp add: first_rows_snoc unique_first_snoc)
qed

text \<open>\<open>drop_duplicates(subset=c)\<close>: the key column becomes \<open>unique_first\<close> of itself.\<close>

lemma drop_duplicates_Inr:
  assumes "wf_frame df" "get_column df c = Inr ks" "drop_duplicates df c = Inr df'"
  shows "wf_frame df' \<and> get_column df' c = Inr (unique_first ks) \<and> col_names df' = col_names df
         \<and> nrows df' = length (unique_first ks)"
proof -
  from assms have df': "df' = take_rows df (first_rows ks)" by (simp add: drop_duplicates_def)
  from assms(1,2) have "length ks = nrows df" by (rule get_column_wf)
  then have "\<forall>i \<in> set (first_rows ks). i < nrows df"
    by (auto dest: first_rows_bound)
  with assms(1) df' have "wf_frame df' \<and> nrows df' = length (first_rows ks) \<and> col_names df' = col_names df"
    by (simp add: take_rows_wf)
  moreover have "length (first_rows ks) = length (unique_first ks)"
    by (metis length_map map_first_rows)
  ultimately show ?thesis using df' get_column_take_rows[OF assms(2)] by (simp add: map_first_rows)
qed

lemma set_column_new:
  assumes "c \<notin> set (col_names df)" "length vs = nrows df"
  shows "set_column df c vs = Inr (df\<lparr>fr_cols := fr_cols df @ [(c, vs)]\<rparr>)"
  using assms by (auto simp: set_column_def Let_def nrows_def)

lemma get_column_in: "get_column df c = Inr vs \<Longrightarrow> c \<in> set (col_names df)"
  by (force simp: get_column_Inr col_names_def dest: map_of_SomeD)

text \<open>The row that \<open>drop_duplicates\<close> keeps for a value is the value's first row.\<close>

lemma length_first_rows: "length (first_rows ks) = length (unique_first ks)"
  by (metis length_map map_first_rows)

lemma first_rows_first_pos:
  "v \<in> set ks \<Longrightarrow> first_rows ks ! first_pos (unique_first ks) v = first_pos ks v"
proof (induction ks rule: rev_induct)
  case Nil
  then show ?case by simp
next
  case (snoc k ks)
  show ?case
  proof (cases "v \<in> set ks")
    case True
    have lt: "first_pos (unique_first ks) v < length (first_rows ks)"
      using first_pos_in[of v "unique_first ks"] True by (simp add: length_first_rows)
    with True snoc.IH show ?thesis
      by (simp add: first_rows_snoc unique_first_snoc first_pos_append nth_append)
  next
    case False
    with snoc.prems have "v = k" by simp
    with False show ?thesis
      by (simp add: first_rows_snoc unique_first_snoc first_pos_snoc_new flip: length_first_rows)
  qed
qed

lemma first_rows_value:
  "v \<in> set ks \<Longrightarrow> map (\<lambda>i. vs ! i) (first_rows ks) ! first_pos (unique_first ks) v = vs ! first_pos ks v"
  using first_pos_in[of v "unique_first ks"] first_rows_first_pos[of v ks]
  by (simp add: length_first_rows)

text \<open>The column names after \<open>columns = ...\<close>, \<open>reset_index\<close> and \<open>rename\<close>.\<close>

lemma map_fst_map2: "length ns = length xs \<Longrightarrow> map fst (map2 (\<lambda>n (_, vs). (n, vs)) ns xs) = ns"
  by (induction ns xs rule: list_induct2) auto

lemma set_col_names_names: "set_col_names df ns = Inr df' \<Longrightarrow> col_names df' = ns"
proof -
  assume a: "set_col_names df ns = Inr df'"
  then have "df' = df\<lparr>fr_cols := map2 (\<lambda>n (_, vs). (n, vs)) ns (fr_cols df)\<rparr>" "length ns = length (fr_cols df)"
    by (simp_all add: set_col_names_def split: if_splits)
  then show ?thesis using map_fst_map2 by (simp add: col_names_def)
qed

lemma reset_index_names: "reset_index nm df = Inr df' \<Longrightarrow> col_names df' = nm # col_names df"
  by (auto simp: reset_index_def col_names_def split: if_splits)

lemma rename_columns_names:
  "col_names (rename_columns df m) = map (\<lambda>k. case map_of m k of Some k' \<Rightarrow> k' | None \<Rightarrow> k) (col_names df)"
  by (simp add: rename_columns_def col_names_def case_prod_beta comp_def)

end
