(* ===== verification/GroupMerge.thy ===== *)
theory GroupMerge
  imports Frame
begin

text \<open>
  The two pandas operations that carry the reshaping of \<open>treat_data\<close>
  (\<open>src/src/utils.py\<close>, lines 193 and 210):
  \<^item> \<open>df.groupby(key)[cols].agg(['unique'])\<close>: one row per group key, rows with a
    missing key dropped, keys in sorted order (pandas' default \<open>sort=True\<close>,
    \<open>dropna=True\<close>), and for each selected column the numpy array of its distinct values
    in the group, in order of first appearance. Grouping hashes the keys and
    \<open>unique\<close> hashes the values, so a list or dict among them raises \<open>TypeError\<close>.
    Keys are compared as strings (the Places API's \<open>place_id\<close>); a key of another
    type is outside the model.
  \<^item> \<open>left.merge(right, on=key, how='left')\<close>: every left row, joined to each right
    row with an equal key in order, or to a row of NaN when there is none; the key column
    taken from the left; other columns that both sides have get the suffixes
    \<open>_x\<close>/\<open>_y\<close>; the index is a fresh \<open>RangeIndex\<close>.
\<close>

section \<open>groupby(...).agg(['unique'])\<close>

fun str_keys :: "pyval list \<Rightarrow> string list" where
  "str_keys [] = []"
| "str_keys (PStr s # ks) = s # str_keys ks"
| "str_keys (_ # ks) = str_keys ks"

fun is_pstr :: "pyval \<Rightarrow> bool" where
  "is_pstr (PStr _) = True"
| "is_pstr _ = False"

text \<open>The group keys: the non-missing keys, de-duplicated and sorted.\<close>

definition group_keys :: "pyval list \<Rightarrow> string list py" where
  "group_keys ks =
     (let ks' = filter (\<lambda>k. \<not> py_isna k) ks
      in if \<not> list_all py_hashable ks' then Inl (TypeError ''unhashable type'')
         else if \<not> list_all is_pstr ks' then Inl (Unmodelled ''group keys that are not strings'')
         else Inr (sort (remdups (str_keys ks'))))"

text \<open>The values of a column in the rows of one group, in row order.\<close>

definition group_vals :: "pyval list \<Rightarrow> pyval list \<Rightarrow> string \<Rightarrow> pyval list" where
  "group_vals ks vs g = map snd (filter (\<lambda>(k, v). k = PStr g) (zip ks vs))"

definition keyed_vals :: "pyval list \<Rightarrow> pyval list \<Rightarrow> pyval list" where
  "keyed_vals ks vs = map snd (filter (\<lambda>(k, v). \<not> py_isna k) (zip ks vs))"

definition groupby_unique :: "frame \<Rightarrow> string \<Rightarrow> string list \<Rightarrow> frame py" where
  "groupby_unique df key cols =
     bind_res (get_column df key) (\<lambda>ks.
     bind_res (map_res (get_column df) cols) (\<lambda>cvs.
     bind_res (group_keys ks) (\<lambda>gs.
       if list_all (\<lambda>vs. list_all py_hashable (keyed_vals ks vs)) cvs
       then Inr \<lparr>fr_index = map PStr gs,
                 fr_cols = zip cols (map (\<lambda>vs. map (\<lambda>g. PArray (unique_first (group_vals ks vs g))) gs) cvs)\<rparr>
       else Inl (TypeError ''unhashable type''))))"

text \<open>The group keys in the order of the result, and the arrays of unique values per group.\<close>

definition place_keys :: "pyval list \<Rightarrow> string list" where
  "place_keys ks = sort (remdups (str_keys (filter (\<lambda>k. \<not> py_isna k) ks)))"

definition unique_per_place :: "pyval list \<Rightarrow> pyval list \<Rightarrow> pyval list" where
  "unique_per_place ks vs = map (\<lambda>g. PArray (unique_first (group_vals ks vs g))) (place_keys ks)"

section \<open>merge(how='left')\<close>

text \<open>Keys match when equal; missing keys match each other, as in pandas.\<close>

definition key_match :: "pyval \<Rightarrow> pyval \<Rightarrow> bool" where
  "key_match a b \<longleftrightarrow> a = b \<or> (py_isna a \<and> py_isna b)"

text \<open>The rows of the result: a left position and the matching right position, if any.\<close>

definition merge_pairs :: "pyval list \<Rightarrow> pyval list \<Rightarrow> (nat \<times> nat option) list" where
  "merge_pairs lk rk =
     concat (map (\<lambda>i. let js = filter (\<lambda>j. key_match (lk ! i) (rk ! j)) [0..<length rk]
                      in if js = [] then [(i, None)] else map (\<lambda>j. (i, Some j)) js)
             [0..<length lk])"

definition suffix_name :: "string list \<Rightarrow> string \<Rightarrow> string \<Rightarrow> string" where
  "suffix_name ov sfx c = (if c \<in> set ov then c @ sfx else c)"

definition merge_left :: "frame \<Rightarrow> frame \<Rightarrow> string \<Rightarrow> frame py" where
  "merge_left l r key =
     bind_res (get_column l key) (\<lambda>lk.
     bind_res (get_column r key) (\<lambda>rk.
       let ps = merge_pairs lk rk;
           ov = filter (\<lambda>c. c \<noteq> key \<and> c \<in> set (col_names r)) (col_names l);
           lcols = map (\<lambda>(c, vs). (suffix_name ov ''_x'' c, map (\<lambda>(i, _). vs ! i) ps)) (fr_cols l);
           rcols = map (\<lambda>(c, vs). (suffix_name ov ''_y'' c,
                                   map (\<lambda>(_, jo). case jo of None \<Rightarrow> PNaN | Some j \<Rightarrow> vs ! j) ps))
                       (filter (\<lambda>(c, _). c \<noteq> key) (fr_cols r));
           res = \<lparr>fr_index = range_index (length ps), fr_cols = lcols @ rcols\<rparr>
       in if distinct (col_names res) then Inr res
          else Inl (ValueError ''Passing suffixes which cause duplicate columns'')))"

section \<open>Lemmas\<close>

lemma is_pstr_hashable: "is_pstr k \<Longrightarrow> py_hashable k"
  by (cases k) auto

lemma group_keys_ok:
  "\<forall>k \<in> set ks. py_isna k \<or> is_pstr k \<Longrightarrow> group_keys ks = Inr (place_keys ks)"
  by (auto simp: group_keys_def place_keys_def list_all_iff Let_def is_pstr_hashable)

lemma groupby_unique_ok:
  assumes "get_column df key = Inr ks" "map_res (get_column df) cols = Inr cvs"
    "\<forall>k \<in> set ks. py_isna k \<or> is_pstr k" "\<forall>vs \<in> set cvs. list_all py_hashable (keyed_vals ks vs)"
  shows "groupby_unique df key cols =
     Inr \<lparr>fr_index = map PStr (place_keys ks),
          fr_cols = zip cols (map (\<lambda>vs. map (\<lambda>g. PArray (unique_first (group_vals ks vs g))) (place_keys ks)) cvs)\<rparr>"
  using assms by (simp add: groupby_unique_def group_keys_ok list_all_iff)

text \<open>Every group key is one of the keys of the column.\<close>

lemma PStr_str_keys: "s \<in> set (str_keys ks) \<longleftrightarrow> PStr s \<in> set ks"
  by (induction ks rule: str_keys.induct) auto

lemma place_keys_in: "g \<in> set (place_keys ks) \<Longrightarrow> PStr g \<in> set ks"
  by (auto simp: place_keys_def PStr_str_keys)

lemma place_keys_set: "set (place_keys ks) = {s. PStr s \<in> set ks}"
  by (auto simp: place_keys_def PStr_str_keys)

lemma place_keys_distinct_sorted: "distinct (place_keys ks) \<and> sorted (place_keys ks)"
  by (simp add: place_keys_def)

text \<open>A left merge with a right key column without repetitions, holding every left key:
  one row per left row, the right columns read at the key's position.\<close>

lemma merge_pairs_unique:
  assumes "distinct rk" "\<forall>k \<in> set lk. \<not> py_isna k \<and> k \<in> set rk"
  shows "merge_pairs lk rk = map (\<lambda>i. (i, Some (first_pos rk (lk ! i)))) [0..<length lk]"
proof -
  have "(let js = filter (\<lambda>j. key_match (lk ! i) (rk ! j)) [0..<length rk]
         in if js = [] then [(i, None)] else map (\<lambda>j. (i, Some j)) js) = [(i, Some (first_pos rk (lk ! i)))]"
    if "i < length lk" for i
  proof -
    from that assms(2) have na: "\<not> py_isna (lk ! i)" and inr: "lk ! i \<in> set rk" by auto
    from na have "(\<lambda>j. key_match (lk ! i) (rk ! j)) = (\<lambda>j. rk ! j = lk ! i)"
      by (auto simp: key_match_def)
    with filter_upt_distinct[OF assms(1) inr] show ?thesis by simp
  qed
  then have "merge_pairs lk rk = concat (map (\<lambda>i. [(i, Some (first_pos rk (lk ! i)))]) [0..<length lk])"
    unfolding merge_pairs_def by (intro arg_cong[where f = concat] map_cong) auto
  then show ?thesis by simp
qed

lemma merge_left_unique:
  assumes l: "wf_frame l" "get_column l key = Inr lk"
    and r: "get_column r key = Inr rk" "distinct rk" "distinct (col_names r)"
    and keys: "\<forall>k \<in> set lk. \<not> py_isna k \<and> k \<in> set rk"
    and fresh: "\<forall>c \<in> set (col_names l). c \<noteq> key \<longrightarrow> c \<notin> set (col_names r)"
  shows "merge_left l r key = Inr \<lparr>fr_index = range_index (length lk),
           fr_cols = fr_cols l @ map (\<lambda>(c, vs). (c, map (\<lambda>k. vs ! first_pos rk k) lk))
                                    (filter (\<lambda>(c, _). c \<noteq> key) (fr_cols r))\<rparr>"
proof -
  let ?ps = "map (\<lambda>i. (i, Some (first_pos rk (lk ! i)))) [0..<length lk]"
  have ps: "merge_pairs lk rk = ?ps" using merge_pairs_unique[OF r(2) keys] .
  have ov: "filter (\<lambda>c. c \<noteq> key \<and> c \<in> set (col_names r)) (col_names l) = []"
    using fresh by (auto simp: filter_empty_conv)
  have len: "length vs = length lk" if "(c, vs) \<in> set (fr_cols l)" for c vs
    using l that get_column_wf[OF l] by (auto simp: wf_frame_def)
  have lcols: "map (\<lambda>(c, vs). (suffix_name [] ''_x'' c, map (\<lambda>(i, _). vs ! i) ?ps)) (fr_cols l) = fr_cols l"
  proof (rule map_idI)
    fix x assume "x \<in> set (fr_cols l)"
    moreover obtain c vs where "x = (c, vs)" by fastforce
    ultimately show "(case x of (c, vs) \<Rightarrow> (suffix_name [] ''_x'' c, map (\<lambda>(i, _). vs ! i) ?ps)) = x"
      using len[of c vs, symmetric] by (simp add: suffix_name_def comp_def map_nth)
  qed
  have rcols: "map (\<lambda>(c, vs). (suffix_name [] ''_y'' c,
                   map (\<lambda>(_, jo). case jo of None \<Rightarrow> PNaN | Some j \<Rightarrow> vs ! j) ?ps)) xs =
               map (\<lambda>(c, vs). (c, map (\<lambda>k. vs ! first_pos rk k) lk)) xs" for xs :: "(string \<times> pyval list) list"
    by (auto simp: suffix_name_def comp_def intro!: map_cong nth_equalityI)
  have dist_l: "distinct (col_names l)" using l(1) by (simp add: wf_frame_def)
  have names: "distinct (map fst (fr_cols l) @ map fst (filter (\<lambda>(c, _). c \<noteq> key) (fr_cols r)))"
  proof -
    have "distinct (map fst (filter (\<lambda>(c, _). c \<noteq> key) (fr_cols r)))"
      using r(3) by (simp add: col_names_def distinct_map_filter)
    moreover have "set (map fst (fr_cols l)) \<inter> set (map fst (filter (\<lambda>(c, _). c \<noteq> key) (fr_cols r))) = {}"
      using fresh by (force simp: col_names_def)
    ultimately show ?thesis using dist_l by (simp add: col_names_def)
  qed
  show ?thesis
    unfolding merge_left_def l(2) r(1) bind_res_Inr ps ov Let_def lcols rcols
    using names by (simp add: col_names_def)
qed

text \<open>The rows of a group, by position.\<close>

lemma group_vals_nth:
  "length vs = length ks \<Longrightarrow> group_vals ks vs g = map (\<lambda>j. vs ! j) (filter (\<lambda>j. ks ! j = PStr g) [0..<length ks])"
  by (simp add: group_vals_def zip_upt filter_map comp_def)

lemma keyed_vals_nth:
  "length vs = length ks \<Longrightarrow> j < length ks \<Longrightarrow> \<not> py_isna (ks ! j) \<Longrightarrow> vs ! j \<in> set (keyed_vals ks vs)"
  by (force simp: keyed_vals_def zip_upt)

lemma suffix_name_cases: "suffix_name ov s c = c \<or> suffix_name ov s c = c @ s"
  by (simp add: suffix_name_def)

text \<open>Every column of a merge comes from one side, possibly with a suffix.\<close>

lemma merge_left_names:
  assumes "merge_left l r key = Inr res" "c \<in> set (col_names res)"
  shows "\<exists>c' \<in> set (col_names l) \<union> set (col_names r). c = c' \<or> c = c' @ ''_x'' \<or> c = c' @ ''_y''"
proof -
  define ov where "ov = filter (\<lambda>c. c \<noteq> key \<and> c \<in> set (col_names r)) (col_names l)"
  from assms(1) have
    "col_names res = map (suffix_name ov ''_x'') (col_names l) @ map (suffix_name ov ''_y'') (filter (\<lambda>c. c \<noteq> key) (col_names r))"
    unfolding ov_def
    by (auto simp: merge_left_def Let_def col_names_def comp_def split_def filter_map split: if_splits)
  with assms(2) suffix_name_cases show ?thesis by auto
qed

end
