(* ===== verification/NumScan.thy ===== *)
theory NumScan
  imports PyValue
begin

text \<open>
  The coordinate extraction of \<open>treat_data\<close> (\<open>src/src/utils.py\<close>, line 198):
  \<^verbatim>\<open>[float(s) for s in re.findall(r'-?\d+\.?\d*', str(coordinates))]\<close>.
  \<open>match_num\<close> is the regular expression matched at one position (all its quantifiers
  are greedy and none needs backtracking: \<open>-?\<close> is taken only when a digit follows),
  \<open>findall_num\<close> is \<open>re.findall\<close>: leftmost matches, scanned left to right, never
  overlapping. \<open>float_of_token\<close> is \<open>float\<close> on the decimal strings it is applied to.
  The lemmas show that every token is a match of the expression and a piece of the
  text, that text without digits is skipped, that a float printed by \<open>repr\<close> in
  positional notation is read back as itself, and how the scanner splits a float that
  \<open>repr\<close> prints in exponent notation: the mantissa, then the exponent as a number of its own.
\<close>

section \<open>One match of the regular expression\<close>

text \<open>\<open>\d+\.?\d*\<close> at a position holding a digit: the token and the rest of the text.\<close>

definition num_body :: "string \<Rightarrow> string \<times> string" where
  "num_body s =
     (let ip = takeWhile is_digit s; r = dropWhile is_digit s
      in case r of
           c # r' \<Rightarrow> if c = CHR ''.'' then (ip @ c # takeWhile is_digit r', dropWhile is_digit r')
                    else (ip, r)
         | [] \<Rightarrow> (ip, []))"

fun match_num :: "string \<Rightarrow> (string \<times> string) option" where
  "match_num [] = None"
| "match_num (c # cs) =
     (if is_digit c then Some (num_body (c # cs))
      else if c = CHR ''-'' \<and> cs \<noteq> [] \<and> is_digit (hd cs)
        then Some (case num_body cs of (t, r) \<Rightarrow> (c # t, r))
      else None)"

lemma num_body_append: "num_body s = (t, r) \<Longrightarrow> t @ r = s"
proof -
  assume nb: "num_body s = (t, r)"
  have split: "takeWhile is_digit s @ dropWhile is_digit s = s" by simp
  show ?thesis
  proof (cases "dropWhile is_digit s")
    case Nil
    with nb split show ?thesis by (simp add: num_body_def)
  next
    case (Cons c r')
    with nb split show ?thesis by (auto simp: num_body_def Let_def split: if_splits)
  qed
qed

lemma num_body_nonempty:
  "num_body (c # cs) = (t, r) \<Longrightarrow> is_digit c \<Longrightarrow> t \<noteq> [] \<and> length r < Suc (length cs)"
proof -
  assume nb: "num_body (c # cs) = (t, r)" and d: "is_digit c"
  from nb have app: "t @ r = c # cs" by (rule num_body_append)
  from nb d have "t \<noteq> []" by (auto simp: num_body_def Let_def split: list.splits if_splits)
  with app show ?thesis by (metis length_append length_Cons less_add_same_cancel2 length_greater_0_conv)
qed

lemma match_num_append: "match_num s = Some (t, r) \<Longrightarrow> t @ r = s"
  by (cases s) (auto split: if_splits prod.splits dest: num_body_append)

lemma match_num_shorter: "match_num s = Some (t, r) \<Longrightarrow> length r < length s"
proof (cases s)
  case Nil
  moreover assume "match_num s = Some (t, r)"
  ultimately show ?thesis by simp
next
  case (Cons c cs)
  assume m: "match_num s = Some (t, r)"
  show ?thesis
  proof (cases "is_digit c")
    case True
    with m Cons show ?thesis by (auto dest: num_body_nonempty)
  next
    case False
    with m Cons obtain d ds t' where cs: "cs = d # ds" "is_digit d" "num_body cs = (t', r)"
      by (cases cs) (auto split: if_splits prod.splits)
    with Cons show ?thesis by (auto dest: num_body_nonempty)
  qed
qed

lemma match_num_Cons_shorter: "match_num (c # cs) = Some (t, r) \<Longrightarrow> length r < Suc (length cs)"
  using match_num_shorter by fastforce

section \<open>re.findall\<close>

function findall_num :: "string \<Rightarrow> string list" where
  "findall_num [] = []"
| "findall_num (c # cs) =
     (case match_num (c # cs) of
        Some (t, r) \<Rightarrow> t # findall_num r
      | None \<Rightarrow> findall_num cs)"
  by pat_completeness auto
termination
  by (relation "measure length") (auto dest: match_num_Cons_shorter simp del: match_num.simps)

text \<open>The token language of the expression \<open>-?\d+\.?\d*\<close>.\<close>

definition is_unsigned :: "string \<Rightarrow> bool" where
  "is_unsigned u =
     (let ip = takeWhile is_digit u; r = dropWhile is_digit u
      in ip \<noteq> [] \<and> (r = [] \<or> (hd r = CHR ''.'' \<and> list_all is_digit (tl r))))"

fun is_num_token :: "string \<Rightarrow> bool" where
  "is_num_token [] = False"
| "is_num_token (c # cs) = (if c = CHR ''-'' then is_unsigned cs else is_unsigned (c # cs))"

section \<open>float() on a token\<close>

text \<open>
  \<open>float(s)\<close> on the decimal strings \<open>-?\d+(\.\d*)?\<close>, the only strings line 198
  passes to it; the value is returned in normal form. Other strings, which Python's
  \<open>float\<close> parses by a larger grammar, are outside the model.
\<close>

definition float_of_token :: "string \<Rightarrow> decimal py" where
  "float_of_token t =
     (let neg = (t \<noteq> [] \<and> hd t = CHR ''-'');
          u = (if neg then tl t else t);
          ip = takeWhile is_digit u; r = dropWhile is_digit u;
          fp = (case r of c # r' \<Rightarrow> r' | [] \<Rightarrow> [])
      in if ip \<noteq> [] \<and> (r = [] \<or> (hd r = CHR ''.'' \<and> list_all is_digit (tl r)))
         then Inr (dec_norm ((if neg then -1 else 1) * int (digits_val (ip @ fp))) (length fp))
         else Inl (Unmodelled ''float() of a string that is not a decimal numeral''))"

text \<open>Floats that \<open>repr\<close> prints in positional notation (exponent in \<open>[-4, 16)\<close>).\<close>

definition float_positional :: "decimal \<Rightarrow> bool" where
  "float_positional d = (case d of Dec m e \<Rightarrow>
     m = 0 \<or> (let x = int (length (nat_str (nat \<bar>m\<bar>))) - 1 - int e in -4 \<le> x \<and> x < 16))"

text \<open>The decimal exponent that \<open>repr\<close> prints in exponent notation.\<close>

definition dec_exp :: "decimal \<Rightarrow> int" where
  "dec_exp d = (case d of Dec m e \<Rightarrow> int (length (nat_str (nat \<bar>m\<bar>))) - 1 - int e)"

section \<open>Lemmas\<close>

lemma not_digit_dot [simp]: "\<not> is_digit CHR ''.''"
  and not_digit_minus [simp]: "\<not> is_digit CHR ''-''"
  by (simp_all add: is_digit_def less_eq_char_def)

lemma is_unsigned_intro:
  assumes "ip \<noteq> []" "list_all is_digit ip" "rest = [] \<or> (hd rest = CHR ''.'' \<and> list_all is_digit (tl rest))"
  shows "is_unsigned (ip @ rest)"
proof -
  have "takeWhile is_digit rest = [] \<and> dropWhile is_digit rest = rest"
    using assms(3) by (cases rest) auto
  with assms show ?thesis
    by (simp add: is_unsigned_def takeWhile_append2 dropWhile_append2 list_all_iff)
qed

lemma num_body_token:
  assumes nb: "num_body s = (t, r)" and "s \<noteq> []" and "is_digit (hd s)"
  shows "is_unsigned t"
proof -
  let ?ip = "takeWhile is_digit s"
  have ip1: "?ip \<noteq> []" using assms(2,3) by (cases s) auto
  have "list_all is_digit ?ip" by (auto simp: list_all_iff dest: set_takeWhileD)
  note ip = ip1 this
  show ?thesis
  proof (cases "dropWhile is_digit s")
    case Nil
    with nb have "t = ?ip @ []" by (simp add: num_body_def)
    with ip show ?thesis by (metis is_unsigned_intro)
  next
    case (Cons c r')
    show ?thesis
    proof (cases "c = CHR ''.''")
      case True
      with nb Cons have "t = ?ip @ CHR ''.'' # takeWhile is_digit r'" by (simp add: num_body_def)
      with ip show ?thesis
        by (metis is_unsigned_intro list.sel(1,3) list_all_iff set_takeWhileD)
    next
      case False
      with nb Cons have "t = ?ip @ []" by (simp add: num_body_def)
      with ip show ?thesis by (metis is_unsigned_intro)
    qed
  qed
qed

lemma match_num_token: "match_num s = Some (t, r) \<Longrightarrow> is_num_token t"
proof (cases s)
  case (Cons c cs)
  assume m: "match_num s = Some (t, r)"
  show ?thesis
  proof (cases "is_digit c")
    case True
    with m Cons have nb: "num_body (c # cs) = (t, r)" by simp
    then have "is_unsigned t" by (rule num_body_token) (simp_all add: True)
    moreover from nb True have "t \<noteq> [] \<and> hd t = c" using num_body_append[OF nb]
      by (metis num_body_nonempty hd_append2 list.sel(1))
    moreover from True have "c \<noteq> CHR ''-''" by auto
    ultimately show ?thesis by (cases t) auto
  next
    case False
    with m Cons obtain t' where "cs \<noteq> []" "is_digit (hd cs)" "num_body cs = (t', r)"
      "c = CHR ''-''" "t = c # t'"
      by (auto split: if_splits prod.splits)
    moreover from this have "is_unsigned t'" by (auto intro: num_body_token)
    ultimately show ?thesis by simp
  qed
qed simp

text \<open>Every token is a match of the expression and a piece of the scanned text.\<close>

text \<open>Every string \<open>re.findall\<close> returns is a match of \<open>-?\d+\.?\d*\<close> and a substring
  of the scanned text.\<close>

lemma findall_num_tokens:
  "t \<in> set (findall_num s) \<Longrightarrow> is_num_token t \<and> sublist t s"
proof (induction s rule: findall_num.induct)
  case (2 c cs)
  show ?case
  proof (cases "match_num (c # cs)")
    case None
    with 2 show ?thesis by (auto intro: sublist_Cons_right[THEN iffD2])
  next
    case (Some a)
    obtain t' r where a: "a = (t', r)" by fastforce
    from Some have m: "match_num (c # cs) = Some (t', r)" unfolding a .
    note app = match_num_append[OF m]
    note tok = match_num_token[OF m]
    from 2 Some a consider "t = t'" | "t \<in> set (findall_num r)" by auto
    then show ?thesis
    proof cases
      case 1
      with tok app show ?thesis by (metis sublist_append_rightI)
    next
      case 2
      with "2.IH"(2)[OF Some a[symmetric]] have "is_num_token t \<and> sublist t r" by simp
      with app show ?thesis by (metis sublist_append_leftI sublist_order.order.trans)
    qed
  qed
qed simp

lemma dec_val_dec_norm: "dec_val (dec_norm m e) = of_int m / of_nat (10 ^ e)"
proof (induction e arbitrary: m)
  case 0
  then show ?case by (simp add: dec_val_def)
next
  case (Suc e)
  show ?case
  proof (cases "m mod 10 = 0")
    case True
    then obtain k where "m = 10 * k" by (metis dvd_def mod_0_imp_dvd)
    with Suc.IH show ?thesis by simp
  next
    case False
    then show ?thesis by (simp add: dec_val_def)
  qed
qed

lemma dec_normal_dec_norm: "dec_normal (dec_norm m e)"
  by (induction e arbitrary: m) auto

text \<open>\<open>float\<close> never fails on a token of the expression.\<close>

text \<open>\<open>float\<close> never raises on a string the scanner returns, and gives a float in normal form.\<close>

lemma float_of_token_total:
  "is_num_token t \<Longrightarrow> \<exists>d. float_of_token t = Inr d \<and> dec_normal d"
proof (cases t)
  case (Cons c cs)
  moreover assume "is_num_token t"
  ultimately show ?thesis
    by (cases "c = CHR ''-''") (auto simp: float_of_token_def is_unsigned_def Let_def dec_normal_dec_norm)
qed simp

lemma findall_num_skip:
  "\<forall>c \<in> set g. \<not> is_digit c \<Longrightarrow> g = [] \<or> last g \<noteq> CHR ''-'' \<Longrightarrow> findall_num (g @ s) = findall_num s"
proof (induction g)
  case Nil
  then show ?case by simp
next
  case (Cons c g)
  have "g = [] \<or> last g \<noteq> CHR ''-''" using Cons.prems(2) by (cases g) auto
  with Cons.prems(1) have IH: "findall_num (g @ s) = findall_num s" by (intro Cons.IH) auto
  have "match_num (c # g @ s) = None"
  proof (cases g)
    case Nil
    with Cons.prems show ?thesis by auto
  next
    case (Cons d g')
    with Cons.prems show ?thesis by auto
  qed
  with IH show ?case by simp
qed

lemma num_body_decimal:
  assumes "ip \<noteq> []" "list_all is_digit ip" "list_all is_digit fp" "r = [] \<or> \<not> is_digit (hd r)"
  shows "num_body (ip @ CHR ''.'' # fp @ r) = (ip @ CHR ''.'' # fp, r)"
proof -
  have "takeWhile is_digit (fp @ r) = fp" "dropWhile is_digit (fp @ r) = r"
    using assms(3,4) by (auto simp: takeWhile_append2 dropWhile_append2 list_all_iff
        takeWhile_eq_Nil_iff dropWhile_eq_self_iff)
  with assms(2) show ?thesis
    by (simp add: num_body_def takeWhile_append2 dropWhile_append2 list_all_iff)
qed

lemma findall_num_decimal:
  assumes "sg = [] \<or> sg = ''-''" "ip \<noteq> []" "list_all is_digit ip" "list_all is_digit fp"
    "r = [] \<or> \<not> is_digit (hd r)"
  shows "findall_num (sg @ ip @ CHR ''.'' # fp @ r) = (sg @ ip @ CHR ''.'' # fp) # findall_num r"
proof -
  obtain d ip' where ip: "ip = d # ip'" using assms(2) by (cases ip) auto
  with assms(3) have d: "is_digit d" by simp
  from num_body_decimal[OF assms(2-5)] assms(1) ip d show ?thesis by auto
qed

lemma float_of_token_decimal:
  assumes "sg = [] \<or> sg = ''-''" "ip \<noteq> []" "list_all is_digit ip" "list_all is_digit fp"
  shows "float_of_token (sg @ ip @ CHR ''.'' # fp) =
           Inr (dec_norm ((if sg = ''-'' then -1 else 1) * int (digits_val (ip @ fp))) (length fp))"
proof -
  obtain d ip' where ip: "ip = d # ip'" using assms(2) by (cases ip) auto
  with assms(3) have d: "is_digit d" by simp
  then have nm: "d \<noteq> CHR ''-''" by auto
  have tw: "takeWhile is_digit (ip @ CHR ''.'' # fp) = ip" "dropWhile is_digit (ip @ CHR ''.'' # fp) = CHR ''.'' # fp"
    using assms(3) by (simp_all add: takeWhile_append2 dropWhile_append2 list_all_iff)
  from assms(1) show ?thesis
  proof
    assume "sg = []"
    with tw ip nm assms(2,4) show ?thesis by (simp add: float_of_token_def Let_def)
  next
    assume "sg = ''-''"
    with tw ip nm assms(2,4) show ?thesis by (simp add: float_of_token_def Let_def)
  qed
qed

lemma digits_val_append: "digits_val (xs @ ys) = digits_val xs * 10 ^ length ys + digits_val ys"
  by (induction xs) (simp_all add: algebra_simps power_add)

lemma digit_val_zero [simp]: "digit_val CHR ''0'' = 0"
  by (simp add: digit_val_def)

lemma digits_val_zeros: "digits_val (replicate k CHR ''0'' @ s) = digits_val s"
  by (induction k) simp_all

lemma nat_str_all_digits: "list_all is_digit (nat_str n)"
  by (simp add: list_all_iff nat_str_digits)

lemma is_digit_zero [simp]: "is_digit CHR ''0''"
  by (simp add: is_digit_def)

lemma float_repr_decimal:
  assumes "dec_normal d" "float_positional d"
  obtains sg ip fp where "float_repr d = sg @ ip @ CHR ''.'' # fp" "sg = [] \<or> sg = ''-''" "ip \<noteq> []"
    "list_all is_digit ip" "list_all is_digit fp"
    "dec_norm ((if sg = ''-'' then -1 else 1) * int (digits_val (ip @ fp))) (length fp) = d"
proof (cases d)
  case (Dec m e)
  define sg where "sg = (if m < 0 then ''-'' else [])"
  define ds where "ds = nat_str (nat \<bar>m\<bar>)"
  have ds: "ds \<noteq> []" "list_all is_digit ds" "digits_val ds = nat \<bar>m\<bar>"
    by (simp_all add: ds_def nat_str_all_digits)
  have sg: "sg = [] \<or> sg = ''-''" by (simp add: sg_def)
  have sign: "(if sg = ''-'' then -1 else 1) * int (nat \<bar>m\<bar>) = m" by (simp add: sg_def)
  show ?thesis
  proof (cases "m = 0")
    case True
    with assms Dec have "e = 0" by simp
    with True Dec show ?thesis using that[of "[]" "''0''" "''0''"] by (simp add: float_repr_def)
  next
    case False
    let ?x = "int (length ds) - 1 - int e"
    from False assms(2) Dec have pos: "-4 \<le> ?x \<and> ?x < 16"
      by (simp add: float_positional_def ds_def Let_def)
    have repr: "float_repr d = (if e = 0 then sg @ ds @ ''.0''
           else if e < length ds then sg @ take (length ds - e) ds @ ''.'' @ drop (length ds - e) ds
           else sg @ ''0.'' @ replicate (e - length ds) CHR ''0'' @ ds)"
      using Dec False pos by (simp add: float_repr_def sg_def ds_def Let_def)
    consider "e = 0" | "0 < e" "e < length ds" | "0 < e" "length ds \<le> e" by linarith
    then show ?thesis
    proof cases
      case 1
      have "digits_val (ds @ ''0'') = 10 * nat \<bar>m\<bar>" by (simp add: digits_val_append ds)
      then have "dec_norm ((if sg = ''-'' then -1 else 1) * int (digits_val (ds @ ''0''))) (length ''0'') = d"
        using sign Dec 1 by (auto simp: sg_def)
      with 1 repr ds sg show ?thesis using that[of sg ds "''0''"] by simp
    next
      case 2
      let ?k = "length ds - e"
      have ip: "take ?k ds \<noteq> []" "list_all is_digit (take ?k ds)" "list_all is_digit (drop ?k ds)"
        using 2 ds by (auto simp: list_all_iff dest: in_set_takeD in_set_dropD)
      have "digits_val (take ?k ds @ drop ?k ds) = nat \<bar>m\<bar>" by (simp add: ds)
      moreover have "length (drop ?k ds) = e" using 2 by simp
      moreover obtain e' where "e = Suc e'" using 2 by (cases e) auto
      ultimately have "dec_norm ((if sg = ''-'' then -1 else 1) * int (digits_val (take ?k ds @ drop ?k ds)))
          (length (drop ?k ds)) = d"
        using sign Dec 2 assms(1) by simp
      with 2 repr ip sg show ?thesis using that[of sg "take ?k ds" "drop ?k ds"] by simp
    next
      case 3
      let ?fp = "replicate (e - length ds) CHR ''0'' @ ds"
      have "digits_val (''0'' @ ?fp) = nat \<bar>m\<bar>"
        using digits_val_zeros[of "Suc (e - length ds)" ds] ds by simp
      moreover have "length ?fp = e" using 3 by simp
      moreover obtain e' where "e = Suc e'" using 3 by (cases e) auto
      ultimately have "dec_norm ((if sg = ''-'' then -1 else 1) * int (digits_val (''0'' @ ?fp))) (length ?fp) = d"
        using sign Dec 3 assms(1) by simp
      moreover have "list_all is_digit ?fp" using ds by (auto simp: list_all_iff)
      ultimately show ?thesis using 3 repr sg that[of sg "''0''" ?fp] by simp
    qed
  qed
qed

text \<open>A float printed by \<open>repr\<close> in positional notation is read back as itself.\<close>

text \<open>A float that \<open>repr\<close> prints in positional notation is read back by \<open>float\<close> as itself.\<close>

lemma float_repr_roundtrip:
  assumes "dec_normal d" "float_positional d"
  shows "float_of_token (float_repr d) = Inr d"
proof -
  obtain sg ip fp where d: "float_repr d = sg @ ip @ CHR ''.'' # fp" "sg = [] \<or> sg = ''-''" "ip \<noteq> []"
    "list_all is_digit ip" "list_all is_digit fp"
    "dec_norm ((if sg = ''-'' then -1 else 1) * int (digits_val (ip @ fp))) (length fp) = d"
    using float_repr_decimal[OF assms] by blast
  then show ?thesis by (simp add: float_of_token_decimal)
qed

lemma findall_num_float_repr:
  assumes "dec_normal d" "float_positional d" "r = [] \<or> \<not> is_digit (hd r)"
  shows "findall_num (float_repr d @ r) = float_repr d # findall_num r"
proof -
  obtain sg ip fp where d: "float_repr d = sg @ ip @ CHR ''.'' # fp" "sg = [] \<or> sg = ''-''" "ip \<noteq> []"
    "list_all is_digit ip" "list_all is_digit fp"
    using float_repr_decimal[OF assms(1,2)] by blast
  with findall_num_decimal[OF d(2-5) assms(3)] show ?thesis by simp
qed

lemma findall_num_float: "t \<in> set (findall_num s) \<Longrightarrow> \<exists>d. float_of_token t = Inr d"
  using findall_num_tokens float_of_token_total by blast

text \<open>The characters of a positional float: digits, a sign and a point.\<close>

lemma float_repr_chars:
  assumes "dec_normal d" "float_positional d"
  shows "\<forall>c \<in> set (float_repr d). is_digit c \<or> c = CHR ''-'' \<or> c = CHR ''.''"
proof -
  obtain sg ip fp where "float_repr d = sg @ ip @ CHR ''.'' # fp" "sg = [] \<or> sg = ''-''"
    "list_all is_digit ip" "list_all is_digit fp"
    using float_repr_decimal[OF assms] by metis
  then show ?thesis by (auto simp: list_all_iff)
qed

lemma str_repr_float_repr:
  assumes "dec_normal d" "float_positional d"
  shows "concat (map (str_repr_char (CHR 0x27)) (float_repr d)) = float_repr d"
proof (rule concat_map_singleton)
  show "\<forall>c \<in> set (float_repr d). str_repr_char (CHR 0x27) c = [c]"
    using float_repr_chars[OF assms] str_repr_char_numeral by blast
qed

lemma float_repr_no_quote:
  assumes "dec_normal d" "float_positional d"
  shows "CHR 0x27 \<notin> set (float_repr d)"
  using float_repr_chars[OF assms] by (auto simp: is_digit_def less_eq_char_def)

lemma findall_float_normal:
  assumes "t \<in> set (findall_num s)" "float_of_token t = Inr d"
  shows "dec_normal d"
proof -
  from findall_num_tokens[OF assms(1)] have "is_num_token t" by simp
  from float_of_token_total[OF this] assms(2) show ?thesis by auto
qed


section \<open>Floats in exponent notation\<close>

text \<open>\<open>\d+\<close> followed by neither a digit nor a point is one whole match.\<close>

lemma num_body_integer:
  assumes "list_all is_digit ip" "r = [] \<or> \<not> is_digit (hd r) \<and> hd r \<noteq> CHR ''.''"
  shows "num_body (ip @ r) = (ip, r)"
proof -
  have "takeWhile is_digit (ip @ r) = ip" "dropWhile is_digit (ip @ r) = r"
    using assms by (auto simp: takeWhile_append2 dropWhile_append2 list_all_iff
        takeWhile_eq_Nil_iff dropWhile_eq_self_iff)
  with assms(2) show ?thesis by (auto simp: num_body_def split: list.splits)
qed

lemma findall_num_integer:
  assumes "sg = [] \<or> sg = ''-''" "ip \<noteq> []" "list_all is_digit ip"
    "r = [] \<or> \<not> is_digit (hd r) \<and> hd r \<noteq> CHR ''.''"
  shows "findall_num (sg @ ip @ r) = (sg @ ip) # findall_num r"
proof -
  obtain d ip' where ip: "ip = d # ip'" using assms(2) by (cases ip) auto
  with assms(3) have d: "is_digit d" by simp
  from num_body_integer[OF assms(3,4)] assms(1) ip d show ?thesis by auto
qed

lemma float_of_token_integer:
  assumes "sg = [] \<or> sg = ''-''" "ip \<noteq> []" "list_all is_digit ip"
  shows "float_of_token (sg @ ip) = Inr (Dec ((if sg = ''-'' then -1 else 1) * int (digits_val ip)) 0)"
proof -
  obtain d ip' where ip: "ip = d # ip'" using assms(2) by (cases ip) auto
  with assms(3) have h: "hd ip \<noteq> CHR ''-''" by auto
  have tw: "takeWhile is_digit ip = ip" "dropWhile is_digit ip = []"
    using assms(3) by (simp_all add: list_all_iff)
  from assms(1) show ?thesis
  proof
    assume "sg = []"
    then show ?thesis using h assms(2,3) by (simp add: float_of_token_def Let_def tw list_all_iff)
  next
    assume "sg = ''-''"
    then show ?thesis using assms(2,3) by (simp add: float_of_token_def Let_def tw list_all_iff)
  qed
qed

lemma pad2_digits:
  assumes "list_all is_digit s" "s \<noteq> []"
  shows "list_all is_digit (pad2 s)" "pad2 s \<noteq> []" "digits_val (pad2 s) = digits_val s"
  using assms digits_val_zeros[of 1 s] by (simp_all add: pad2_def)

text \<open>\<open>repr\<close> in exponent notation: a sign, a mantissa \<open>d\<close> or \<open>d.ddd\<close>, \<open>e\<close>, the sign of
  the exponent and at least two of its digits.\<close>

lemma float_repr_exponent:
  assumes "\<not> float_positional d"
  obtains sg mt where
    "float_repr d = sg @ mt @ CHR ''e'' # (if dec_exp d < 0 then ''-'' else ''+'') @ pad2 (nat_str (nat \<bar>dec_exp d\<bar>))"
    "sg = [] \<or> sg = ''-''" "mt \<noteq> []"
    "list_all is_digit mt \<or> (\<exists>c cs. mt = c # CHR ''.'' # cs \<and> is_digit c \<and> list_all is_digit cs)"
proof (cases d)
  case (Dec m e)
  define ds where "ds = nat_str (nat \<bar>m\<bar>)"
  define sig where "sig = rev (dropWhile (\<lambda>c. c = CHR ''0'') (rev ds))"
  define mt where "mt = (case sig of [] \<Rightarrow> ''0'' | [c] \<Rightarrow> [c] | c # cs \<Rightarrow> c # CHR ''.'' # cs)"
  define x where "x = int (length ds) - 1 - int e"
  have dx: "dec_exp d = x" by (simp add: Dec dec_exp_def x_def ds_def)
  have x: "m \<noteq> 0" "\<not> (-4 \<le> x \<and> x < 16)"
    using assms Dec by (auto simp: float_positional_def x_def ds_def Let_def)
  have "float_repr d = (if m < 0 then ''-'' else []) @ mt @ CHR ''e'' #
      (if x < 0 then ''-'' else ''+'') @ pad2 (nat_str (nat \<bar>x\<bar>))"
    unfolding float_repr_def Dec decimal.case Let_def ds_def[symmetric] x_def[symmetric]
      if_not_P[OF x(1)] if_not_P[OF x(2)]
    by (simp add: sig_def[symmetric] mt_def)
  then have repr: "float_repr d = (if m < 0 then ''-'' else []) @ mt @ CHR ''e'' #
      (if dec_exp d < 0 then ''-'' else ''+'') @ pad2 (nat_str (nat \<bar>dec_exp d\<bar>))"
    by (simp only: dx)
  have "set sig \<subseteq> set ds" by (auto simp: sig_def dest: set_dropWhileD)
  then have sd: "list_all is_digit sig" using nat_str_all_digits[of "nat \<bar>m\<bar>"] by (auto simp: list_all_iff ds_def)
  have "mt \<noteq> [] \<and> (list_all is_digit mt \<or> (\<exists>c cs. mt = c # CHR ''.'' # cs \<and> is_digit c \<and> list_all is_digit cs))"
    using sd by (cases sig rule: list.exhaust; cases "tl sig") (auto simp: mt_def)
  then show ?thesis using that[OF repr] by simp
qed

text \<open>The scanner splits such a float into the mantissa and the exponent, a number of its own.\<close>

lemma findall_num_exponent:
  assumes "\<not> float_positional d" "r = [] \<or> \<not> is_digit (hd r) \<and> hd r \<noteq> CHR ''.''"
  shows "\<exists>t. findall_num (float_repr d @ r) =
           t # ((if dec_exp d < 0 then ''-'' else []) @ pad2 (nat_str (nat \<bar>dec_exp d\<bar>))) # findall_num r"
proof -
  obtain sg mt where f:
    "float_repr d = sg @ mt @ CHR ''e'' # (if dec_exp d < 0 then ''-'' else ''+'') @ pad2 (nat_str (nat \<bar>dec_exp d\<bar>))"
    "sg = [] \<or> sg = ''-''" "mt \<noteq> []"
    "list_all is_digit mt \<or> (\<exists>c cs. mt = c # CHR ''.'' # cs \<and> is_digit c \<and> list_all is_digit cs)"
    using float_repr_exponent[OF assms(1)] by blast
  let ?p = "pad2 (nat_str (nat \<bar>dec_exp d\<bar>))"
  have p: "list_all is_digit ?p" "?p \<noteq> []" using pad2_digits nat_str_all_digits by auto
  have ne: "\<not> is_digit CHR ''e''" "\<not> is_digit CHR ''+''" by (simp_all add: is_digit_def less_eq_char_def)
  have exp: "findall_num (CHR ''e'' # (if dec_exp d < 0 then ''-'' else ''+'') @ ?p @ r) =
      ((if dec_exp d < 0 then ''-'' else []) @ ?p) # findall_num r"
  proof (cases "dec_exp d < 0")
    case True
    then show ?thesis
      using findall_num_skip[of "''e''" "''-'' @ ?p @ r"] findall_num_integer[of "''-''" ?p r] p assms(2) ne by simp
  next
    case False
    then show ?thesis
      using findall_num_skip[of "''e+''" "?p @ r"] findall_num_integer[of "[]" ?p r] p assms(2) ne by simp
  qed
  let ?rest = "CHR ''e'' # (if dec_exp d < 0 then ''-'' else ''+'') @ ?p @ r"
  have "findall_num (sg @ mt @ ?rest) = (sg @ mt) # findall_num ?rest"
    using f(4)
  proof
    assume "list_all is_digit mt"
    then show ?thesis using findall_num_integer[OF f(2,3), of ?rest] ne by simp
  next
    assume "\<exists>c cs. mt = c # CHR ''.'' # cs \<and> is_digit c \<and> list_all is_digit cs"
    then obtain c cs where "mt = c # CHR ''.'' # cs" "is_digit c" "list_all is_digit cs" by blast
    then show ?thesis using findall_num_decimal[OF f(2), of "[c]" cs ?rest] ne by simp
  qed
  then show ?thesis using f(1) exp by simp
qed

text \<open>The exponent token is read as the exponent.\<close>

lemma float_of_token_exponent:
  "float_of_token ((if x < 0 then ''-'' else []) @ pad2 (nat_str (nat \<bar>x\<bar>))) = Inr (Dec x 0)"
proof -
  have "list_all is_digit (pad2 (nat_str (nat \<bar>x\<bar>)))" "pad2 (nat_str (nat \<bar>x\<bar>)) \<noteq> []"
    "digits_val (pad2 (nat_str (nat \<bar>x\<bar>))) = nat \<bar>x\<bar>"
    using pad2_digits nat_str_all_digits by auto
  then show ?thesis using float_of_token_integer[of "if x < 0 then ''-'' else []" "pad2 (nat_str (nat \<bar>x\<bar>))"]
    by auto
qed

text \<open>Every character \<open>repr\<close> prints for a float: digits, signs, the point and \<open>e\<close>.\<close>

lemma float_repr_chars_all:
  "\<forall>c \<in> set (float_repr d). is_digit c \<or> c \<in> {CHR ''-'', CHR ''.'', CHR ''e'', CHR ''+''}"
proof (cases "float_positional d")
  case False
  then obtain sg mt where f:
    "float_repr d = sg @ mt @ CHR ''e'' # (if dec_exp d < 0 then ''-'' else ''+'') @ pad2 (nat_str (nat \<bar>dec_exp d\<bar>))"
    "sg = [] \<or> sg = ''-''"
    "list_all is_digit mt \<or> (\<exists>c cs. mt = c # CHR ''.'' # cs \<and> is_digit c \<and> list_all is_digit cs)"
    by (rule float_repr_exponent) blast
  have "list_all is_digit (pad2 (nat_str (nat \<bar>dec_exp d\<bar>)))" using pad2_digits nat_str_all_digits by auto
  with f show ?thesis by (auto simp: list_all_iff)
next
  case True
  obtain m e where d: "d = Dec m e" by (cases d)
  have ds: "list_all is_digit (nat_str (nat \<bar>m\<bar>))" by (rule nat_str_all_digits)
  show ?thesis
    using True ds by (auto simp: d float_repr_def float_positional_def Let_def list_all_iff
        dest: in_set_takeD in_set_dropD split: if_splits)
qed

end
