(* ===== verification/Features.thy ===== *)
theory Features
  imports Frame
begin

text \<open>
  The field accumulator and the table assembler of \<open>src/src/utils.py\<close>:
  \<open>initialize_variables\<close> (lines 41-88) returns eleven empty lists and the eleven field
  names; the caller (not in the repository; modelled from the spec, section 4.3) appends
  one value per field for every place the API returns; \<open>create_dataframe\<close>
  (lines 145-171) turns the lists into a DataFrame column by column. The eleven lists
  are distinct objects (a generator creates them), so the model treats them as values.
  \<open>aligned\<close> is the alignment invariant of section 4.3: eleven lists of one length.
\<close>

section \<open>The schema and the accumulator\<close>

definition establishments_features_labels :: "string list" where
  "establishments_features_labels =
     [''business_status'', ''geometry'', ''name'', ''opening_hours'', ''place_id'',
      ''price_level'', ''rating'', ''types'', ''user_ratings_total'', ''vicinity'', ''category'']"

definition initialize_variables :: "pyval list list \<times> string list" where
  "initialize_variables = (replicate 11 [], establishments_features_labels)"

text \<open>One result of the Places API with the category it was searched for.\<close>

record observation =
  ob_business_status :: pyval
  ob_geometry :: pyval
  ob_name :: pyval
  ob_opening_hours :: pyval
  ob_place_id :: pyval
  ob_price_level :: pyval
  ob_rating :: pyval
  ob_types :: pyval
  ob_user_ratings_total :: pyval
  ob_vicinity :: pyval
  ob_category :: pyval

definition obs_values :: "observation \<Rightarrow> pyval list" where
  "obs_values ob =
     [ob_business_status ob, ob_geometry ob, ob_name ob, ob_opening_hours ob, ob_place_id ob,
      ob_price_level ob, ob_rating ob, ob_types ob, ob_user_ratings_total ob, ob_vicinity ob,
      ob_category ob]"

text \<open>The caller's step: append each field of one observation to its list.\<close>

definition append_observation :: "pyval list list \<Rightarrow> observation \<Rightarrow> pyval list list" where
  "append_observation data ob = map2 (\<lambda>col v. col @ [v]) data (obs_values ob)"

definition accumulate :: "observation list \<Rightarrow> pyval list list" where
  "accumulate obs = foldl append_observation (fst initialize_variables) obs"

definition aligned :: "pyval list list \<Rightarrow> bool" where
  "aligned data \<longleftrightarrow> length data = 11 \<and> (\<forall>col \<in> set data. length col = length (hd data))"

section \<open>create_dataframe\<close>

text \<open>Python's \<open>xs[i]\<close> for \<open>0 \<le> i\<close>.\<close>

definition py_index :: "'a list \<Rightarrow> nat \<Rightarrow> 'a py" where
  "py_index xs i = (if i < length xs then Inr (xs ! i) else Inl (IndexError ''list index out of range''))"

text \<open>The loop \<open>for feature_index in range(len(data)): df[labels[i]] = data[i]\<close>.\<close>

fun create_dataframe_loop :: "string list \<Rightarrow> pyval list list \<Rightarrow> nat list \<Rightarrow> frame \<Rightarrow> frame py" where
  "create_dataframe_loop labels data [] df = Inr df"
| "create_dataframe_loop labels data (i # is) df =
     bind_res (py_index labels i) (\<lambda>l.
     bind_res (set_column df l (data ! i)) (\<lambda>df'.
       create_dataframe_loop labels data is df'))"

definition create_dataframe :: "string list \<Rightarrow> pyval list list \<Rightarrow> frame py" where
  "create_dataframe labels data = create_dataframe_loop labels data [0..<length data] empty_frame"

text \<open>One observation, as the API returns it for a bakery searched with the keyword \<open>bakery\<close>.\<close>

definition example_obs :: observation where
  "example_obs =
     \<lparr>ob_business_status = PStr ''OPERATIONAL'',
      ob_geometry = PStr ''{'location': {'lat': 37.4224, 'lng': -122.0841}}'',
      ob_name = PStr ''Bakery'', ob_opening_hours = PNaN, ob_place_id = PStr ''p1'',
      ob_price_level = PInt 2, ob_rating = PFloat (Dec 45 1), ob_types = PList [PStr ''bakery''],
      ob_user_ratings_total = PInt 10, ob_vicinity = PStr ''Main St'', ob_category = PStr ''bakery''\<rparr>"

text \<open>The frame after the first \<open>k\<close> columns of lists that all have length \<open>n\<close>.\<close>

definition cd_state :: "string list \<Rightarrow> pyval list list \<Rightarrow> nat \<Rightarrow> nat \<Rightarrow> frame" where
  "cd_state labels data n k =
     \<lparr>fr_index = (if k = 0 \<or> n = 0 then [] else range_index n),
      fr_cols = zip (take k labels) (take k data)\<rparr>"

section \<open>Lemmas\<close>

lemma create_dataframe_loop_append:
  "create_dataframe_loop labels data (ixs @ jxs) df =
     bind_res (create_dataframe_loop labels data ixs df) (create_dataframe_loop labels data jxs)"
  by (induction labels data ixs df rule: create_dataframe_loop.induct) (auto simp: bind_res_def split: sum.splits)

lemma create_dataframe_loop_upt:
  assumes "k \<le> m" "m \<le> length labels"
    and "\<And>j. k \<le> j \<Longrightarrow> j < m \<Longrightarrow> set_column (st j) (labels ! j) (data ! j) = Inr (st (Suc j))"
  shows "create_dataframe_loop labels data [k..<m] (st k) = Inr (st m)"
  using assms
proof (induction "m - k" arbitrary: k)
  case 0
  then show ?case by simp
next
  case (Suc d)
  then have km: "k < m" by simp
  then have "[k..<m] = k # [Suc k..<m]" by (simp add: upt_conv_Cons)
  moreover have "py_index labels k = Inr (labels ! k)"
    using km Suc.prems(2) by (simp add: py_index_def)
  moreover have "create_dataframe_loop labels data [Suc k..<m] (st (Suc k)) = Inr (st m)"
    using Suc.hyps(1)[of "Suc k"] Suc.hyps(2) Suc.prems by simp
  ultimately show ?case using Suc.prems(3)[of k] km by simp
qed

lemma cd_state_step:
  assumes "distinct labels" "k < length data" "length data \<le> length labels"
    "length (data ! k) = n"
  shows "set_column (cd_state labels data n k) (labels ! k) (data ! k) = Inr (cd_state labels data n (Suc k))"
proof -
  note len = assms(4)
  have kl: "k < length labels" using assms(2,3) by simp
  have notin: "labels ! k \<notin> set (take k labels)"
    using assms(1) kl by (simp add: in_set_conv_nth nth_eq_iff_index_eq)
  have names: "col_names (cd_state labels data n k) = take k labels"
    using assms(2,3) by (simp add: cd_state_def col_names_def)
  have zip: "zip (take (Suc k) labels) (take (Suc k) data) = zip (take k labels) (take k data) @ [(labels ! k, data ! k)]"
    using kl assms(2) by (simp add: take_Suc_conv_app_nth)
  let ?st = "cd_state labels data n k"
  have idx: "fr_index ?st = [] \<and> data ! k \<noteq> [] \<longleftrightarrow> k = 0 \<and> n \<noteq> 0"
    using len by (auto simp: cd_state_def)
  show ?thesis
  proof (cases "k = 0 \<and> n \<noteq> 0")
    case True
    then have k0: "k = 0" and n0: "n \<noteq> 0" by auto
    have st0: "?st = \<lparr>fr_index = [], fr_cols = []\<rparr>" using k0 by (simp add: cd_state_def)
    have ne: "data ! k \<noteq> []" using len n0 by auto
    have "set_column \<lparr>fr_index = [], fr_cols = []\<rparr> (labels ! k) (data ! k) =
        Inr \<lparr>fr_index = range_index n, fr_cols = [(labels ! k, data ! k)]\<rparr>"
      using ne len by (simp add: set_column_def Let_def col_names_def)
    moreover have "cd_state labels data n (Suc k) = \<lparr>fr_index = range_index n, fr_cols = [(labels ! k, data ! k)]\<rparr>"
      using k0 n0 kl assms(2) by (simp add: cd_state_def take_Suc_conv_app_nth)
    ultimately show ?thesis using st0 by simp
  next
    case False
    then have nochg: "\<not> (fr_index ?st = [] \<and> data ! k \<noteq> [])" using idx by blast
    from False have len': "length (data ! k) = length (fr_index ?st)" using len by (auto simp: cd_state_def)
    have "set_column ?st (labels ! k) (data ! k) = Inr (?st\<lparr>fr_cols := fr_cols ?st @ [(labels ! k, data ! k)]\<rparr>)"
      using nochg len' notin names unfolding set_column_def Let_def by (simp only: if_False if_True) simp
    moreover have "?st\<lparr>fr_cols := fr_cols ?st @ [(labels ! k, data ! k)]\<rparr> = cd_state labels data n (Suc k)"
      using False zip by (auto simp: cd_state_def)
    ultimately show ?thesis by simp
  qed
qed

lemma create_dataframe_prefix:
  assumes "distinct labels" "j \<le> length data" "length data \<le> length labels"
    "\<forall>i < j. length (data ! i) = n"
  shows "create_dataframe_loop labels data [0..<j] empty_frame = Inr (cd_state labels data n j)"
proof -
  have "empty_frame = cd_state labels data n 0" by (simp add: cd_state_def empty_frame_def)
  moreover have "create_dataframe_loop labels data [0..<j] (cd_state labels data n 0) = Inr (cd_state labels data n j)"
    using assms by (intro create_dataframe_loop_upt) (auto intro: cd_state_step)
  ultimately show ?thesis by simp
qed

lemma nrows_cd_state: "nrows (cd_state labels data n k) = (if k = 0 then 0 else n)"
  by (simp add: cd_state_def nrows_def)

lemma wf_cd_state:
  assumes "distinct labels" "k \<le> length data" "length data \<le> length labels" "\<forall>i < k. length (data ! i) = n"
  shows "wf_frame (cd_state labels data n k)"
proof -
  have "\<forall>(c, vs) \<in> set (zip (take k labels) (take k data)). length vs = (if k = 0 then 0 else n)"
    using assms(2,4) by (auto simp: set_zip)
  moreover have "distinct (map fst (zip (take k labels) (take k data)))"
    using assms by simp
  ultimately show ?thesis
    by (auto simp: wf_frame_def nrows_def col_names_def cd_state_def)
qed

lemma create_dataframe_eq_cd_state:
  assumes "distinct labels" "length data \<le> length labels" "\<forall>col \<in> set data. length col = n"
  shows "create_dataframe labels data = Inr (cd_state labels data n (length data))
         \<and> wf_frame (cd_state labels data n (length data))
         \<and> fr_cols (cd_state labels data n (length data)) = zip labels data"
proof -
  have n: "\<forall>i < length data. length (data ! i) = n" using assms(3) by simp
  have "create_dataframe labels data = Inr (cd_state labels data n (length data))"
    unfolding create_dataframe_def using create_dataframe_prefix[OF assms(1) _ assms(2) n] by simp
  moreover have "wf_frame (cd_state labels data n (length data))"
    using wf_cd_state[OF assms(1) _ assms(2) n] by simp
  moreover have "zip (take (length data) labels) data = zip labels data"
  proof -
    have "zip (take (length data) labels) data = take (length data) (zip labels data)"
      by (simp add: take_zip)
    also have "\<dots> = zip labels data" by simp
    finally show ?thesis .
  qed
  ultimately show ?thesis by (simp add: cd_state_def)
qed

text \<open>C25: on lists of one common length and distinct labels, \<open>create_dataframe\<close> succeeds and its
  columns are the labels zipped with the lists, in order.\<close>

theorem create_dataframe_ok:
  assumes "distinct labels" "length data \<le> length labels" "\<forall>col \<in> set data. length col = n"
  shows "\<exists>df. create_dataframe labels data = Inr df \<and> wf_frame df \<and> fr_cols df = zip labels data
          \<and> nrows df = (if data = [] then 0 else n)"
  using create_dataframe_eq_cd_state[OF assms] nrows_cd_state[of labels data n "length data"] by auto

theorem create_dataframe_ok_witness:
  "\<exists>df. create_dataframe [''a'', ''b''] [[PInt 1], [PInt 2]] = Inr df \<and> wf_frame df
     \<and> fr_cols df = [(''a'', [PInt 1]), (''b'', [PInt 2])] \<and> nrows df = 1"
  using create_dataframe_ok[of "[''a'', ''b'']" "[[PInt 1], [PInt 2]]" 1] by simp

text \<open>The first list whose length differs from the first list's is where the loop raises.\<close>

lemma create_dataframe_len_mismatch:
  assumes "distinct labels" "length data \<le> length labels" "data \<noteq> []" "hd data \<noteq> []"
    "\<exists>col \<in> set data. length col \<noteq> length (hd data)"
  shows "create_dataframe labels data = Inl (ValueError ''Length of values does not match length of index'')"
proof -
  let ?n = "length (hd data)"
  have "\<exists>j. j < length data \<and> length (data ! j) \<noteq> ?n"
    using assms(5) by (auto simp: in_set_conv_nth)
  note ex = this
  define j where "j = (LEAST j. j < length data \<and> length (data ! j) \<noteq> ?n)"
  have j12: "j < length data \<and> length (data ! j) \<noteq> ?n"
    unfolding j_def by (rule LeastI_ex[OF ex])
  have j3: "\<forall>i < j. length (data ! i) = ?n"
  proof (intro allI impI)
    fix i assume "i < j"
    then have "\<not> (i < length data \<and> length (data ! i) \<noteq> ?n)"
      unfolding j_def by (rule not_less_Least)
    with \<open>i < j\<close> j12 show "length (data ! i) = ?n" by simp
  qed
  note j = j12[THEN conjunct1] j12[THEN conjunct2] j3
  have j0: "0 < j" using j(2) assms(3) by (cases j) (auto simp: hd_conv_nth)
  have n0: "?n \<noteq> 0" using assms(4) by simp
  have pre: "create_dataframe_loop labels data [0..<j] empty_frame = Inr (cd_state labels data ?n j)"
    using create_dataframe_prefix[OF assms(1) _ assms(2) j(3)] j(1) by simp
  have "[0..<j + (length data - j)] = [0..<j] @ [j..<j + (length data - j)]"
    by (rule upt_add_eq_append) simp
  then have split: "[0..<length data] = [0..<j] @ j # [Suc j..<length data]"
    using j(1) by (simp add: upt_conv_Cons)
  have lab: "py_index labels j = Inr (labels ! j)" using j(1) assms(2) by (simp add: py_index_def)
  have "set_column (cd_state labels data ?n j) (labels ! j) (data ! j) =
      Inl (ValueError ''Length of values does not match length of index'')"
    using j0 n0 j(2) by (simp add: set_column_def cd_state_def Let_def)
  then show ?thesis
    unfolding create_dataframe_def split create_dataframe_loop_append pre using lab by simp
qed

text \<open>C26: when the first list is non-empty and another list has a different length,
  \<open>create_dataframe\<close> raises pandas' \<open>ValueError\<close> (the spec's "column length mismatch").\<close>

theorem create_dataframe_mismatch:
  assumes "distinct labels" "length data \<le> length labels" "data \<noteq> []" "hd data \<noteq> []"
    "\<exists>col \<in> set data. length col \<noteq> length (hd data)"
  shows "create_dataframe labels data = Inl (ValueError ''Length of values does not match length of index'')"
  using assms by (rule create_dataframe_len_mismatch)

theorem create_dataframe_mismatch_witness:
  "create_dataframe [''a'', ''b''] [[PInt 1], [PInt 2, PInt 3]] =
     Inl (ValueError ''Length of values does not match length of index'')"
  using create_dataframe_mismatch[of "[''a'', ''b'']" "[[PInt 1], [PInt 2, PInt 3]]"] by simp

lemma zip_take_length: "zip (take (length ys) xs) ys = zip xs ys"
proof (induction ys arbitrary: xs)
  case (Cons y ys)
  then show ?case by (cases xs) simp_all
qed simp

text \<open>The first two assignments when the first list is empty: the frame keeps an empty
  index through the first one, and the second re-indexes it, filling the first column with NaN.\<close>

lemma create_dataframe_first_two:
  assumes "l0 \<noteq> l1" "length d0 = n" "0 < n"
  shows "create_dataframe_loop (l0 # l1 # ls) ([] # d0 # ds) [0..<2] empty_frame =
           Inr (cd_state (l0 # l1 # ls) (replicate n PNaN # d0 # ds) n 2)"
proof -
  have s0: "set_column empty_frame l0 [] = Inr \<lparr>fr_index = [], fr_cols = [(l0, [])]\<rparr>"
    by (simp add: set_column_def empty_frame_def col_names_def)
  have "d0 \<noteq> []" using assms(2,3) by auto
  then have s1: "set_column \<lparr>fr_index = [], fr_cols = [(l0, [])]\<rparr> l1 d0 =
      Inr \<lparr>fr_index = range_index n, fr_cols = [(l0, replicate n PNaN), (l1, d0)]\<rparr>"
    using assms(1,2) by (simp add: set_column_def Let_def col_names_def)
  have "[0..<2] = [0, Suc 0]" by (simp add: numeral_2_eq_2)
  then have "create_dataframe_loop (l0 # l1 # ls) ([] # d0 # ds) [0..<2] empty_frame =
      Inr \<lparr>fr_index = range_index n, fr_cols = [(l0, replicate n PNaN), (l1, d0)]\<rparr>"
    by (simp add: py_index_def s0 s1)
  moreover have "cd_state (l0 # l1 # ls) (replicate n PNaN # d0 # ds) n 2 =
      \<lparr>fr_index = range_index n, fr_cols = [(l0, replicate n PNaN), (l1, d0)]\<rparr>"
    using assms(3) by (simp add: cd_state_def numeral_2_eq_2)
  ultimately show ?thesis by simp
qed

text \<open>C27: a length mismatch is not always an error: for all distinct labels and every non-empty
  run of lists of one positive length \<open>n\<close> after an empty first list, \<open>create_dataframe\<close>
  succeeds, and the first column is \<open>n\<close> NaN values (pandas re-indexes the empty frame on the
  second assignment), where spec section 4.4 asks for a column length mismatch error.\<close>

theorem create_dataframe_nan_fill:
  assumes "distinct labels" "Suc (length ds) \<le> length labels" "ds \<noteq> []"
    "\<forall>d \<in> set ds. length d = n" "0 < n"
  shows "create_dataframe labels ([] # ds) =
           Inr \<lparr>fr_index = range_index n, fr_cols = zip labels (replicate n PNaN # ds)\<rparr>"
proof -
  obtain d0 ds' where ds: "ds = d0 # ds'" using assms(3) by (cases ds) auto
  obtain l0 l1 ls where lab: "labels = l0 # l1 # ls"
    using assms(2) ds by (cases labels; cases "tl labels") auto
  let ?m = "Suc (length ds)" and ?data' = "replicate n PNaN # ds"
  have two: "create_dataframe_loop labels ([] # ds) [0..<2] empty_frame = Inr (cd_state labels ?data' n 2)"
    using create_dataframe_first_two[of l0 l1 d0 n ls ds'] assms(1,4,5) by (simp add: lab ds)
  have rest: "create_dataframe_loop labels ([] # ds) [2..<?m] (cd_state labels ?data' n 2) =
      Inr (cd_state labels ?data' n ?m)"
  proof (rule create_dataframe_loop_upt)
    show "2 \<le> ?m" using ds by simp
    show "?m \<le> length labels" using assms(2) .
    fix j assume j: "2 \<le> j" "j < ?m"
    then have "([] # ds) ! j = ?data' ! j" by (cases j) simp_all
    moreover have "length (?data' ! j) = n" using j assms(4) by (cases j) (simp_all add: nth_mem)
    ultimately show "set_column (cd_state labels ?data' n j) (labels ! j) (([] # ds) ! j) =
        Inr (cd_state labels ?data' n (Suc j))"
      using cd_state_step[OF assms(1), of j ?data' n] j assms(2) by simp
  qed
  have "[0..<?m] = [0..<2] @ [2..<?m]"
    using upt_add_eq_append[of 0 2 "?m - 2"] ds by simp
  then have "create_dataframe labels ([] # ds) = Inr (cd_state labels ?data' n ?m)"
    unfolding create_dataframe_def using two rest by (simp add: create_dataframe_loop_append)
  moreover have "cd_state labels ?data' n ?m = \<lparr>fr_index = range_index n, fr_cols = zip labels ?data'\<rparr>"
    using assms(5) zip_take_length[of ?data' labels] by (simp add: cd_state_def)
  ultimately show ?thesis by simp
qed

lemma accumulate_snoc: "accumulate (obs @ [ob]) = append_observation (accumulate obs) ob"
  by (simp add: accumulate_def)

lemma length_obs_values [simp]: "length (obs_values ob) = 11"
  by (simp add: obs_values_def)

lemma accumulate_eq: "accumulate obs = map (\<lambda>k. map (\<lambda>ob. obs_values ob ! k) obs) [0..<11]"
proof (induction obs rule: rev_induct)
  case Nil
  then show ?case by (simp add: accumulate_def initialize_variables_def map_replicate_const)
next
  case (snoc ob obs)
  show ?case
    by (rule nth_equalityI) (simp_all add: accumulate_snoc snoc append_observation_def)
qed

lemma aligned_accumulate: "aligned (accumulate obs) \<and> (\<forall>col \<in> set (accumulate obs). length col = length obs)"
  by (simp add: accumulate_eq aligned_def upt_conv_Cons)

lemma length_accumulate [simp]: "length (accumulate obs) = 11"
  using aligned_accumulate[of obs] by (simp add: aligned_def)

lemma distinct_features_labels: "distinct establishments_features_labels"
  by (simp add: establishments_features_labels_def)

text \<open>C24: accumulating observations field by field and assembling the frame with the
  eleven labels gives one row per observation, whose cells are that observation's fields
  in schema order: the alignment invariant of the accumulator made concrete.\<close>

theorem accumulate_create_dataframe:
  "\<exists>df. create_dataframe establishments_features_labels (accumulate obs) = Inr df \<and> wf_frame df
     \<and> col_names df = establishments_features_labels \<and> nrows df = length obs
     \<and> (\<forall>i < length obs. frame_row df i = obs_values (obs ! i))"
proof -
  let ?data = "accumulate obs"
  have len: "length ?data = 11" "length establishments_features_labels = 11"
    by (simp_all add: accumulate_eq establishments_features_labels_def)
  have "length ?data \<le> length establishments_features_labels" using len by simp
  note eq = create_dataframe_eq_cd_state[OF distinct_features_labels this aligned_accumulate[of obs, THEN conjunct2]]
  define df where "df = cd_state establishments_features_labels ?data (length obs) (length ?data)"
  have df: "create_dataframe establishments_features_labels ?data = Inr df" "wf_frame df"
      "fr_cols df = zip establishments_features_labels ?data" "nrows df = length obs"
    using eq len nrows_cd_state[of establishments_features_labels ?data "length obs" "length ?data"]
    by (simp_all add: df_def)
  have names: "col_names df = establishments_features_labels"
    using df(3) len by (simp add: col_names_def)
  have rows: "frame_row df i = obs_values (obs ! i)" if "i < length obs" for i
  proof -
    have "frame_row df i = map (\<lambda>vs. vs ! i) ?data"
      using df(3) len by (auto simp: frame_row_def intro!: nth_equalityI)
    also have "\<dots> = obs_values (obs ! i)"
      using that by (intro nth_equalityI) (simp_all add: accumulate_eq)
    finally show ?thesis .
  qed
  from df names rows len show ?thesis by auto
qed

theorem accumulate_create_dataframe_witness:
  "\<exists>df. create_dataframe establishments_features_labels (accumulate [example_obs]) = Inr df
     \<and> nrows df = 1 \<and> frame_row df 0 = obs_values example_obs"
  using accumulate_create_dataframe[of "[example_obs]"] by auto

theorem create_dataframe_nan_fill_witness:
  "create_dataframe [''a'', ''b''] [[], [PInt 1]] =
     Inr \<lparr>fr_index = range_index 1, fr_cols = zip [''a'', ''b''] [replicate 1 PNaN, [PInt 1]]\<rparr>"
  using create_dataframe_nan_fill[of "[''a'', ''b'']" "[[PInt 1]]" 1] by simp

end
