(* ===== verification/TreatData.thy ===== *)
theory TreatData
  imports GroupMerge NumScan Features
begin

text \<open>
  \<open>treat_data\<close> (\<open>src/src/utils.py\<close>, lines 173-213), the reshaping engine: from one
  row per (place, searched category) to one row per place. Each statement of the source
  is one step below, in the source's order, each step a call of the pandas model of
  theories \<open>Frame\<close> and \<open>GroupMerge\<close>:
  \<^enum> line 193: group by \<open>place_id\<close>, the unique geometries and categories per place;
  \<^enum> lines 195-200: for each place, \<open>str\<close> of its array of geometries, the numbers
    found in it by \<open>re.findall\<close>, converted by \<open>float\<close>; the first is the latitude,
    the second the longitude (Python's \<open>IndexError\<close> when there are fewer);
  \<^enum> lines 201-206: the two new columns, the flattened two-level column names
    (\<open>'_'.join(col)\<close>), \<open>reset_index\<close>, \<open>rename\<close>;
  \<^enum> lines 208-209: the first row of each place, without geometry, opening hours and
    category;
  \<^enum> line 210: the left merge on \<open>place_id\<close>;
  \<^enum> line 211: dropping \<open>geometry_unique\<close> and \<open>index\<close>, both of which must exist.
\<close>

section \<open>Coordinates\<close>

text \<open>Lines 198-200 for one place: the first two numbers of \<open>str(coordinates)\<close>.\<close>

definition coords_of :: "pyval \<Rightarrow> (decimal \<times> decimal) py" where
  "coords_of v =
     bind_res (map_res float_of_token (findall_num (py_str v))) (\<lambda>ns.
     bind_res (py_index ns 0) (\<lambda>la.
     bind_res (py_index ns 1) (\<lambda>lo. Inr (la, lo))))"

text \<open>The loop of lines 197-200, building the lists \<open>lat\<close> and \<open>lon\<close>.\<close>

definition coords_loop :: "pyval list \<Rightarrow> (pyval list \<times> pyval list) py" where
  "coords_loop geoms =
     bind_res (map_res coords_of geoms) (\<lambda>cs. Inr (map (PFloat \<circ> fst) cs, map (PFloat \<circ> snd) cs))"

section \<open>treat_data\<close>

text \<open>The two-level column labels after line 202 and their flattening (line 204).\<close>

definition estab_cat_labels :: "(string \<times> string) list" where
  "estab_cat_labels = [(''geometry'', ''unique''), (''category'', ''unique''), (''lat'', []), (''lon'', [])]"

definition join_col :: "string \<times> string \<Rightarrow> string" where
  "join_col col = join_str ''_'' [fst col, snd col]"

definition treat_data_renames :: "(string \<times> string) list" where
  "treat_data_renames =
     [(''category_unique'', ''categories''), (''lat_'', ''lat''), (''lon_'', ''lon''), (''place_id_'', ''place_id'')]"

text \<open>Lines 193-206: the table of places with their unique categories and coordinates.\<close>

definition estab_categories :: "frame \<Rightarrow> frame py" where
  "estab_categories df =
     bind_res (groupby_unique df ''place_id'' [''geometry'', ''category'']) (\<lambda>est.
     bind_res (get_column est ''geometry'') (\<lambda>geoms.
     bind_res (coords_loop geoms) (\<lambda>(lat, lon).
     bind_res (set_column est ''lat'' lat) (\<lambda>est.
     bind_res (set_column est ''lon'' lon) (\<lambda>est.
     bind_res (set_col_names est (map join_col estab_cat_labels)) (\<lambda>est.
     bind_res (reset_index ''place_id'' est) (\<lambda>est.
       Inr (rename_columns est treat_data_renames))))))))"

text \<open>Lines 208-209: the first row of each place, without the superseded columns.\<close>

definition place_details :: "frame \<Rightarrow> frame py" where
  "place_details df =
     bind_res (drop_duplicates df ''place_id'') (\<lambda>dp.
       drop_columns dp [''geometry'', ''opening_hours'', ''category''])"

text \<open>Lines 210-213: the merge and the final drop.\<close>

definition treat_data :: "frame \<Rightarrow> frame py" where
  "treat_data df =
     bind_res (estab_categories df) (\<lambda>est.
     bind_res (place_details df) (\<lambda>dp.
     bind_res (merge_left est dp ''place_id'') (\<lambda>res.
       drop_columns res [''geometry_unique'', ''index''])))"

section \<open>Closed forms\<close>

text \<open>What each stage returns when it succeeds, written without the pandas calls.\<close>

definition est_frame :: "pyval list \<Rightarrow> pyval list \<Rightarrow> pyval list \<Rightarrow> (decimal \<times> decimal) list \<Rightarrow> frame" where
  "est_frame ks geo cats cs =
     \<lparr>fr_index = range_index (length (place_keys ks)),
      fr_cols = [(''place_id'', map PStr (place_keys ks)), (''geometry_unique'', unique_per_place ks geo),
                 (''categories'', unique_per_place ks cats),
                 (''lat'', map (PFloat \<circ> fst) cs), (''lon'', map (PFloat \<circ> snd) cs)]\<rparr>"

definition detail_rows :: "pyval list \<Rightarrow> (string \<times> pyval list) list \<Rightarrow> (string \<times> pyval list) list" where
  "detail_rows ks cols = map (\<lambda>(c, vs). (c, map (\<lambda>i. vs ! i) (first_rows ks)))
     (filter (\<lambda>(c, _). c \<notin> set [''geometry'', ''opening_hours'', ''category'']) cols)"

definition place_columns :: "pyval list \<Rightarrow> (string \<times> pyval list) list \<Rightarrow> (string \<times> pyval list) list" where
  "place_columns ks cols =
     map (\<lambda>(c, vs). (c, map (\<lambda>g. vs ! first_pos ks (PStr g)) (place_keys ks)))
       (filter (\<lambda>(c, _). c \<notin> set [''place_id'', ''geometry'', ''opening_hours'', ''category'', ''index'']) cols)"

definition treat_data_result :: "frame \<Rightarrow> pyval list \<Rightarrow> pyval list \<Rightarrow> (decimal \<times> decimal) list \<Rightarrow> frame" where
  "treat_data_result df ks cats cs =
     \<lparr>fr_index = range_index (length (place_keys ks)),
      fr_cols = [(''place_id'', map PStr (place_keys ks)), (''categories'', unique_per_place ks cats),
                 (''lat'', map (PFloat \<circ> fst) cs), (''lon'', map (PFloat \<circ> snd) cs)]
                @ place_columns ks (fr_cols df)\<rparr>"

text \<open>The cells of column \<open>vs\<close> in the rows whose key is \<open>p\<close>, in row order.\<close>

definition place_rows :: "pyval list \<Rightarrow> pyval list \<Rightarrow> pyval \<Rightarrow> pyval list" where
  "place_rows ks vs p = map (\<lambda>j. vs ! j) (filter (\<lambda>j. ks ! j = p) [0..<length ks])"

section \<open>The stages of treat_data\<close>

lemma estab_categories_ok:
  assumes cols: "get_column df ''place_id'' = Inr ks" "get_column df ''geometry'' = Inr geo"
      "get_column df ''category'' = Inr cats"
    and keys: "\<forall>k \<in> set ks. py_isna k \<or> is_pstr k"
    and hash: "list_all py_hashable (keyed_vals ks geo)" "list_all py_hashable (keyed_vals ks cats)"
  shows "estab_categories df =
           bind_res (map_res coords_of (unique_per_place ks geo)) (\<lambda>cs. Inr (est_frame ks geo cats cs))"
proof -
  have "map_res (get_column df) [''geometry'', ''category''] = Inr [geo, cats]"
    using cols by simp
  from groupby_unique_ok[OF cols(1) this keys] hash
  have g: "groupby_unique df ''place_id'' [''geometry'', ''category''] =
     Inr \<lparr>fr_index = map PStr (place_keys ks),
          fr_cols = [(''geometry'', unique_per_place ks geo), (''category'', unique_per_place ks cats)]\<rparr>"
    by (simp add: unique_per_place_def)
  show ?thesis
  proof (cases "map_res coords_of (unique_per_place ks geo)")
    case (Inl e)
    then show ?thesis by (simp add: estab_categories_def g get_column_def coords_loop_def)
  next
    case (Inr cs)
    then have "length cs = length (place_keys ks)"
      by (simp add: map_res_Inr_length unique_per_place_def)
    with Inr show ?thesis
      by (simp add: estab_categories_def g get_column_def coords_loop_def set_column_new col_names_def
          nrows_def set_col_names_def estab_cat_labels_def join_col_def reset_index_def
          rename_columns_def treat_data_renames_def est_frame_def)
  qed
qed

lemma place_details_ok:
  assumes wf: "wf_frame df" and key: "get_column df ''place_id'' = Inr ks"
    and has: "set [''geometry'', ''opening_hours'', ''category''] \<subseteq> set (col_names df)"
  shows "\<exists>dp. place_details df = Inr dp \<and> wf_frame dp \<and> get_column dp ''place_id'' = Inr (unique_first ks)
           \<and> fr_cols dp = detail_rows ks (fr_cols df)"
proof -
  let ?t = "take_rows df (first_rows ks)"
  have dd: "drop_duplicates df ''place_id'' = Inr ?t" by (simp add: drop_duplicates_def key)
  from drop_duplicates_Inr[OF wf key dd]
  have t: "wf_frame ?t" "get_column ?t ''place_id'' = Inr (unique_first ks)" "col_names ?t = col_names df"
    by auto
  let ?cs = "[''geometry'', ''opening_hours'', ''category'']"
  have dc: "drop_columns ?t ?cs = Inr (?t\<lparr>fr_cols := filter (\<lambda>(k, _). k \<notin> set ?cs) (fr_cols ?t)\<rparr>)"
    using has t(3) by (simp add: drop_columns_def)
  from drop_columns_Inr[OF t(1) dc] t(2)
  have "wf_frame (?t\<lparr>fr_cols := filter (\<lambda>(k, _). k \<notin> set ?cs) (fr_cols ?t)\<rparr>)"
    "get_column (?t\<lparr>fr_cols := filter (\<lambda>(k, _). k \<notin> set ?cs) (fr_cols ?t)\<rparr>) ''place_id'' = Inr (unique_first ks)"
    by auto
  moreover have "filter (\<lambda>(k, _). k \<notin> set ?cs) (fr_cols ?t) = detail_rows ks (fr_cols df)"
    by (simp add: take_rows_def detail_rows_def filter_map comp_def split_def)
  ultimately show ?thesis using dc by (simp add: place_details_def dd)
qed

lemma detail_rows_names:
  "map fst (detail_rows ks xs) = filter (\<lambda>c. c \<notin> set [''geometry'', ''opening_hours'', ''category'']) (map fst xs)"
  by (induction xs) (auto simp: detail_rows_def)

lemma merged_details:
  assumes "\<forall>(c, _) \<in> set xs. c \<noteq> ''geometry_unique''"
  shows "filter (\<lambda>(k, _). k \<notin> set [''geometry_unique'', ''index''])
           (map (\<lambda>(c, vs). (c, map (\<lambda>k. vs ! first_pos (unique_first ks) k) (map PStr (place_keys ks))))
             (filter (\<lambda>(c, _). c \<noteq> ''place_id'') (detail_rows ks xs)))
         = place_columns ks xs"
  using assms
proof (induction xs)
  case Nil
  then show ?case by (simp add: detail_rows_def place_columns_def)
next
  case (Cons x xs)
  obtain c vs where x: "x = (c, vs)" by fastforce
  have "map (\<lambda>k. map (\<lambda>i. vs ! i) (first_rows ks) ! first_pos (unique_first ks) k) (map PStr (place_keys ks))
        = map (\<lambda>g. vs ! first_pos ks (PStr g)) (place_keys ks)"
    by (simp add: first_rows_value place_keys_in)
  with Cons x show ?case by (auto simp: detail_rows_def place_columns_def)
qed

lemma treat_data_ok:
  assumes wf: "wf_frame df"
    and cols: "get_column df ''place_id'' = Inr ks" "get_column df ''geometry'' = Inr geo"
      "get_column df ''category'' = Inr cats"
    and keys: "\<forall>k \<in> set ks. py_isna k \<or> is_pstr k"
    and hash: "list_all py_hashable (keyed_vals ks geo)" "list_all py_hashable (keyed_vals ks cats)"
    and has: "''opening_hours'' \<in> set (col_names df)" "''index'' \<in> set (col_names df)"
    and fresh: "set [''geometry_unique'', ''categories'', ''lat'', ''lon''] \<inter> set (col_names df) = {}"
  shows "treat_data df =
           bind_res (map_res coords_of (unique_per_place ks geo)) (\<lambda>cs. Inr (treat_data_result df ks cats cs))"
proof -
  have "set [''geometry'', ''opening_hours'', ''category''] \<subseteq> set (col_names df)"
    using has(1) get_column_in[OF cols(2)] get_column_in[OF cols(3)] by simp
  from place_details_ok[OF wf cols(1) this] obtain dp where
    dp: "place_details df = Inr dp" "wf_frame dp" "get_column dp ''place_id'' = Inr (unique_first ks)"
        "fr_cols dp = detail_rows ks (fr_cols df)"
    by blast
  have dp_names: "col_names dp = filter (\<lambda>c. c \<notin> set [''geometry'', ''opening_hours'', ''category'']) (col_names df)"
    using dp(4) by (simp add: col_names_def detail_rows_names)
  show ?thesis
  proof (cases "map_res coords_of (unique_per_place ks geo)")
    case (Inl e)
    then show ?thesis
      by (simp add: treat_data_def estab_categories_ok[OF cols keys hash])
  next
    case (Inr cs)
    let ?est = "est_frame ks geo cats cs"
    have len: "length cs = length (place_keys ks)"
      using Inr by (simp add: map_res_Inr_length unique_per_place_def)
    have est: "wf_frame ?est" "get_column ?est ''place_id'' = Inr (map PStr (place_keys ks))"
      using len by (simp_all add: est_frame_def wf_frame_def nrows_def col_names_def unique_per_place_def
                                  get_column_def)
    have kin: "\<forall>k \<in> set (map PStr (place_keys ks)). \<not> py_isna k \<and> k \<in> set (unique_first ks)"
      by (auto simp: place_keys_in)
    have "col_names ?est = [''place_id'', ''geometry_unique'', ''categories'', ''lat'', ''lon'']"
      by (simp add: est_frame_def col_names_def)
    then have fr: "\<forall>c \<in> set (col_names ?est). c \<noteq> ''place_id'' \<longrightarrow> c \<notin> set (col_names dp)"
      using fresh by (simp add: dp_names)
    have dist: "distinct (col_names dp)" using dp(2) by (simp add: wf_frame_def)
    note m = merge_left_unique[OF est dp(3) distinct_unique_first dist kin fr]
    have gu: "\<forall>(c, _) \<in> set (fr_cols df). c \<noteq> ''geometry_unique''"
    proof (intro ballI, clarify)
      fix vs assume "(''geometry_unique'', vs) \<in> set (fr_cols df)"
      then have "''geometry_unique'' \<in> set (col_names df)" by (force simp: col_names_def)
      with fresh show False by simp
    qed
    have "''index'' \<in> set (map fst (filter (\<lambda>(c, _). c \<noteq> ''place_id'') (detail_rows ks (fr_cols df))))"
      unfolding map_fst_filter detail_rows_names using has(2) by (simp add: col_names_def)
    then have idx': "''index'' \<in> fst ` set (filter (\<lambda>(c, _). c \<noteq> ''place_id'') (detail_rows ks (fr_cols df)))"
      by (simp only: set_map)
    let ?rc = "map (\<lambda>(c, vs). (c, map (\<lambda>k. vs ! first_pos (unique_first ks) k) (map PStr (place_keys ks))))
                 (filter (\<lambda>(c, _). c \<noteq> ''place_id'') (fr_cols dp))"
    have td: "treat_data df = bind_res (merge_left ?est dp ''place_id'')
                                 (\<lambda>res. drop_columns res [''geometry_unique'', ''index''])"
      using Inr by (simp add: treat_data_def estab_categories_ok[OF cols keys hash] dp(1))
    have miss: "filter (\<lambda>c. c \<notin> set (map fst (fr_cols ?est @ ?rc))) [''geometry_unique'', ''index''] = []"
      using idx' by (simp add: est_frame_def dp(4) image_image case_prod_beta)
    have "filter (\<lambda>(k, _). k \<notin> set [''geometry_unique'', ''index'']) (fr_cols ?est @ ?rc) =
          fr_cols (treat_data_result df ks cats cs)"
      unfolding filter_append dp(4) using merged_details[OF gu]
      by (simp add: est_frame_def treat_data_result_def)
    then show ?thesis
      unfolding td m bind_res_Inr drop_columns_def Let_def col_names_def
      using miss by (simp add: treat_data_result_def Inr)
  qed
qed

section \<open>Coordinates of one place\<close>

lemma coords_of_tokens:
  obtains ds where "map_res float_of_token (findall_num (py_str v)) = Inr ds"
    "length ds = length (findall_num (py_str v))"
    "\<forall>i < length ds. float_of_token (findall_num (py_str v) ! i) = Inr (ds ! i)"
proof -
  from map_res_total[of "findall_num (py_str v)" float_of_token] findall_num_float
  obtain ds where "map_res float_of_token (findall_num (py_str v)) = Inr ds" by blast
  with that show ?thesis by (auto simp: map_res_Inr_iff)
qed

lemma coords_of_Inr:
  "coords_of v = Inr (la, lo) \<longleftrightarrow>
     (\<exists>a b r. findall_num (py_str v) = a # b # r \<and> float_of_token a = Inr la \<and> float_of_token b = Inr lo)"
proof -
  obtain ds where ds: "map_res float_of_token (findall_num (py_str v)) = Inr ds"
    "length ds = length (findall_num (py_str v))"
    "\<forall>i < length ds. float_of_token (findall_num (py_str v) ! i) = Inr (ds ! i)"
    by (rule coords_of_tokens)
  show ?thesis
  proof
    assume c: "coords_of v = Inr (la, lo)"
    then have "1 < length ds" "ds ! 0 = la" "ds ! 1 = lo"
      by (auto simp: coords_of_def ds(1) py_index_def split: if_splits)
    with ds(2,3) show "\<exists>a b r. findall_num (py_str v) = a # b # r \<and> float_of_token a = Inr la \<and> float_of_token b = Inr lo"
      by (cases "findall_num (py_str v)" rule: remdups_adj.cases) force+
  next
    assume "\<exists>a b r. findall_num (py_str v) = a # b # r \<and> float_of_token a = Inr la \<and> float_of_token b = Inr lo"
    then obtain a b r where t: "findall_num (py_str v) = a # b # r" "float_of_token a = Inr la" "float_of_token b = Inr lo"
      by blast
    with ds(2,3) have "1 < length ds" "ds ! 0 = la" "ds ! 1 = lo"
      by (metis Suc_less_eq length_Cons less_Suc_eq_0_disj nth_Cons_0 nth_Cons_Suc One_nat_def Inr_inject)+
    then show "coords_of v = Inr (la, lo)"
      by (auto simp: coords_of_def ds(1) py_index_def)
  qed
qed

lemma coords_of_Inl:
  "coords_of v = Inl e \<longleftrightarrow> length (findall_num (py_str v)) < 2 \<and> e = IndexError ''list index out of range''"
proof -
  obtain ds where ds: "map_res float_of_token (findall_num (py_str v)) = Inr ds"
    "length ds = length (findall_num (py_str v))"
    by (rule coords_of_tokens)
  then show ?thesis
    by (auto simp: coords_of_def py_index_def)
qed

section \<open>The result frame\<close>

lemma map_of_place_columns:
  "c \<notin> set [''place_id'', ''geometry'', ''opening_hours'', ''category'', ''index''] \<Longrightarrow>
   map_of (place_columns ks xs) c = map_option (\<lambda>vs. map (\<lambda>g. vs ! first_pos ks (PStr g)) (place_keys ks)) (map_of xs c)"
  by (induction xs) (auto simp: place_columns_def)

lemma names_place_columns:
  "map fst (place_columns ks xs) =
     filter (\<lambda>c. c \<notin> set [''place_id'', ''geometry'', ''opening_hours'', ''category'', ''index'']) (map fst xs)"
  by (induction xs) (auto simp: place_columns_def)

lemma treat_data_result_cols:
  assumes fresh: "set [''geometry_unique'', ''categories'', ''lat'', ''lon''] \<inter> set (col_names df) = {}"
  shows "get_column (treat_data_result df ks cats cs) ''place_id'' = Inr (map PStr (place_keys ks))"
    "get_column (treat_data_result df ks cats cs) ''categories'' = Inr (unique_per_place ks cats)"
    "get_column (treat_data_result df ks cats cs) ''lat'' = Inr (map (PFloat \<circ> fst) cs)"
    "get_column (treat_data_result df ks cats cs) ''lon'' = Inr (map (PFloat \<circ> snd) cs)"
    "col_names (treat_data_result df ks cats cs) = [''place_id'', ''categories'', ''lat'', ''lon''] @
       filter (\<lambda>c. c \<notin> set [''place_id'', ''geometry'', ''opening_hours'', ''category'', ''index'']) (col_names df)"
  by (simp_all add: treat_data_result_def get_column_def col_names_def names_place_columns)

lemma treat_data_result_detail:
  assumes fresh: "set [''geometry_unique'', ''categories'', ''lat'', ''lon''] \<inter> set (col_names df) = {}"
    and c: "c \<notin> set [''place_id'', ''geometry'', ''opening_hours'', ''category'', ''index'']"
    and vs: "get_column df c = Inr vs"
  shows "get_column (treat_data_result df ks cats cs) c = Inr (map (\<lambda>g. vs ! first_pos ks (PStr g)) (place_keys ks))"
proof -
  have "c \<in> set (col_names df)" using vs by (rule get_column_in)
  with fresh have "c \<notin> set [''categories'', ''lat'', ''lon'']" by auto
  with c vs show ?thesis
    by (simp add: treat_data_result_def get_column_def map_of_place_columns split: option.splits)
qed

lemma treat_data_result_wf:
  assumes "wf_frame df" "length cs = length (place_keys ks)"
    "set [''geometry_unique'', ''categories'', ''lat'', ''lon''] \<inter> set (col_names df) = {}"
  shows "wf_frame (treat_data_result df ks cats cs)"
proof -
  have "distinct (map fst (place_columns ks (fr_cols df)))"
    using assms(1) by (simp add: names_place_columns wf_frame_def col_names_def)
  moreover have "\<forall>(c, vs) \<in> set (place_columns ks (fr_cols df)). length vs = length (place_keys ks)"
    by (auto simp: place_columns_def)
  moreover have "set (map fst (place_columns ks (fr_cols df))) \<subseteq> set (col_names df) - {''place_id''}"
    by (auto simp: names_place_columns col_names_def)
  ultimately show ?thesis using assms(2,3)
    by (auto simp: wf_frame_def treat_data_result_def nrows_def col_names_def unique_per_place_def)
qed

lemma unique_per_place_nth:
  "length vs = length ks \<Longrightarrow> i < length (place_keys ks) \<Longrightarrow>
   unique_per_place ks vs ! i = PArray (unique_first (place_rows ks vs (PStr (place_keys ks ! i))))"
  by (simp add: unique_per_place_def group_vals_nth place_rows_def)

lemma set_place_rows: "set (place_rows ks vs p) = {vs ! j |j. j < length ks \<and> ks ! j = p}"
  by (auto simp: place_rows_def)

lemma coords_loop_Inl:
  assumes "length geo = length ks"
  shows "map_res coords_of (unique_per_place ks geo) = Inl e \<longleftrightarrow>
     (\<exists>g. PStr g \<in> set ks \<and> length (findall_num (py_str (PArray (unique_first (place_rows ks geo (PStr g)))))) < 2)
     \<and> e = IndexError ''list index out of range''"
proof
  assume "map_res coords_of (unique_per_place ks geo) = Inl e"
  then obtain x where "x \<in> set (unique_per_place ks geo)" "coords_of x = Inl e" by (blast dest: map_res_Inl_ex)
  with assms show "(\<exists>g. PStr g \<in> set ks \<and> length (findall_num (py_str (PArray (unique_first (place_rows ks geo (PStr g)))))) < 2)
     \<and> e = IndexError ''list index out of range''"
    by (auto simp: unique_per_place_def coords_of_Inl group_vals_nth place_rows_def place_keys_set)
next
  assume "(\<exists>g. PStr g \<in> set ks \<and> length (findall_num (py_str (PArray (unique_first (place_rows ks geo (PStr g)))))) < 2)
     \<and> e = IndexError ''list index out of range''"
  then obtain g where g: "PStr g \<in> set ks" "length (findall_num (py_str (PArray (unique_first (place_rows ks geo (PStr g)))))) < 2"
    and e: "e = IndexError ''list index out of range''" by blast
  let ?x = "PArray (unique_first (place_rows ks geo (PStr g)))"
  have x: "?x \<in> set (unique_per_place ks geo)"
    using g(1) assms by (auto simp: unique_per_place_def group_vals_nth place_rows_def place_keys_set)
  have cx: "coords_of ?x = Inl e" using g(2) e by (simp add: coords_of_Inl)
  from map_res_Inl_intro[OF x, of coords_of] cx obtain e' where e': "map_res coords_of (unique_per_place ks geo) = Inl e'"
    by blast
  then obtain y where "coords_of y = Inl e'" by (blast dest: map_res_Inl_ex)
  with e e' show "map_res coords_of (unique_per_place ks geo) = Inl e" by (simp add: coords_of_Inl)
qed

text \<open>The facts that evaluate \<open>coords_of\<close> on a concrete geometry by \<open>simp\<close>.\<close>

lemmas coords_eval = coords_of_def np_array_str_def str_repr_def is_digit_def num_body_def float_of_token_def
  digit_val_def py_index_def Let_def

section \<open>Column names of each stage\<close>

lemma estab_categories_names:
  assumes "estab_categories df = Inr est"
  shows "col_names est = [''place_id'', ''geometry_unique'', ''categories'', ''lat'', ''lon'']"
proof -
  from assms obtain e1 e2 e3 where s: "set_col_names e1 (map join_col estab_cat_labels) = Inr e2"
    and r: "reset_index ''place_id'' e2 = Inr e3" and est: "est = rename_columns e3 treat_data_renames"
    by (auto simp: estab_categories_def split: prod.splits)
  have "col_names e3 = [''place_id'', ''geometry_unique'', ''category_unique'', ''lat_'', ''lon_'']"
    using reset_index_names[OF r] set_col_names_names[OF s]
    by (simp add: estab_cat_labels_def join_col_def)
  then show ?thesis by (simp add: est rename_columns_names treat_data_renames_def)
qed

lemma place_details_names: "place_details df = Inr dp \<Longrightarrow> set (col_names dp) \<subseteq> set (col_names df)"
  by (auto simp: place_details_def drop_duplicates_def drop_columns_def take_rows_def col_names_def Let_def
      split: if_splits) force

text \<open>Line 211 needs an \<open>index\<close> column, and only the input can supply one.\<close>

lemma treat_data_no_index: "''index'' \<notin> set (col_names df) \<Longrightarrow> \<exists>e. treat_data df = Inl e"
proof (cases "treat_data df")
  case (Inr out)
  assume ni: "''index'' \<notin> set (col_names df)"
  from Inr obtain est dp res where est: "estab_categories df = Inr est" and dp: "place_details df = Inr dp"
    and m: "merge_left est dp ''place_id'' = Inr res"
    and d: "drop_columns res [''geometry_unique'', ''index''] = Inr out"
    by (auto simp: treat_data_def)
  from d have "''index'' \<in> set (col_names res)"
    by (auto simp: drop_columns_def Let_def filter_empty_conv split: if_splits)
  from merge_left_names[OF m this] obtain c' where
    c': "c' \<in> set (col_names est) \<union> set (col_names dp)"
    "''index'' = c' \<or> ''index'' = c' @ ''_x'' \<or> ''index'' = c' @ ''_y''" by blast
  have "''index'' \<noteq> c' @ [CHR ''_'', s]" for s
  proof
    assume "''index'' = c' @ [CHR ''_'', s]"
    then have "rev ''index'' = s # CHR ''_'' # rev c'" by simp
    then show False by simp
  qed
  with c' estab_categories_names[OF est] place_details_names[OF dp] ni show ?thesis by auto
qed simp

text \<open>The coordinates read by \<open>coords_of\<close> are floats in normal form.\<close>

lemma coords_of_normal: "coords_of v = Inr p \<Longrightarrow> dec_normal (fst p) \<and> dec_normal (snd p)"
proof -
  assume "coords_of v = Inr p"
  then obtain a b r where t: "findall_num (py_str v) = a # b # r"
    "float_of_token a = Inr (fst p)" "float_of_token b = Inr (snd p)"
    by (cases p) (auto simp: coords_of_Inr)
  have "a \<in> set (findall_num (py_str v))" "b \<in> set (findall_num (py_str v))" using t(1) by simp_all
  with t(2,3) show ?thesis by (blast intro: findall_float_normal)
qed

lemma map_res_coords_normal:
  assumes "map_res coords_of xs = Inr cs"
  shows "\<forall>p \<in> set cs. dec_normal (fst p) \<and> dec_normal (snd p)"
proof
  fix p assume "p \<in> set cs"
  then obtain i where i: "i < length cs" "p = cs ! i" by (auto simp: in_set_conv_nth)
  with assms have "coords_of (xs ! i) = Inr p" by (simp add: map_res_Inr_iff)
  then show "dec_normal (fst p) \<and> dec_normal (snd p)" by (rule coords_of_normal)
qed

end
