(* ===== verification/TreatSpec.thy ===== *)
theory TreatSpec
  imports TreatData
begin

text \<open>
  What \<open>treat_data\<close> (\<open>src/src/utils.py\<close>, lines 173-213) guarantees, stated over its
  input table and not over the pandas calls: one row per place, the place's categories,
  its coordinates, its other fields from its first row, the result's columns, and when it
  raises. \<open>observation_table\<close> is the input contract under which the code runs: the
  observation table of the spec (section 3) together with the positional \<open>index\<close> column
  that line 211 drops, identifiers that are strings or missing, and hashable geometries and
  categories. Each property comes with a witness on a three-row table.
\<close>

section \<open>The input contract\<close>

definition observation_table :: "frame \<Rightarrow> bool" where
  "observation_table df \<longleftrightarrow> wf_frame df
     \<and> list_all (\<lambda>c. c \<in> set (col_names df)) [''place_id'', ''geometry'', ''category'', ''opening_hours'', ''index'']
     \<and> list_all (\<lambda>c. c \<notin> set (col_names df)) [''geometry_unique'', ''categories'', ''lat'', ''lon'']
     \<and> (case get_column df ''place_id'' of
          Inl _ \<Rightarrow> False
        | Inr ks \<Rightarrow> list_all (\<lambda>k. py_isna k \<or> is_pstr k) ks
            \<and> list_all (\<lambda>c. case get_column df c of Inl _ \<Rightarrow> False
                                | Inr vs \<Rightarrow> list_all py_hashable (keyed_vals ks vs)) [''geometry'', ''category''])"

section \<open>The abstract specification\<close>

text \<open>
  Spec section 4.4 as a list of records, one per place in identifier order: its identifier,
  the set of its categories, the first two floats of its geometry text (stringified set of
  its geometries), and the fields of its first row other than the superseded columns.
  \<open>frame_places\<close> reads the same records off an output frame.
\<close>

record place_rec =
  place :: string
  place_categories :: "pyval set"
  location :: "(decimal \<times> decimal) option"
  details :: "(string \<times> pyval) list"

definition first_two_floats :: "string \<Rightarrow> (decimal \<times> decimal) option" where
  "first_two_floats s = (case findall_num s of
      a # b # _ \<Rightarrow> (case (float_of_token a, float_of_token b) of (Inr x, Inr y) \<Rightarrow> Some (x, y) | _ \<Rightarrow> None)
    | _ \<Rightarrow> None)"

definition dropped_cols :: "string list" where
  "dropped_cols = [''place_id'', ''geometry'', ''opening_hours'', ''category'', ''index'']"

definition spec_places :: "frame \<Rightarrow> pyval list \<Rightarrow> pyval list \<Rightarrow> pyval list \<Rightarrow> place_rec list" where
  "spec_places df ks geo cats =
     map (\<lambda>g. \<lparr>place = g, place_categories = set (place_rows ks cats (PStr g)),
               location = first_two_floats (py_str (PArray (unique_first (place_rows ks geo (PStr g))))),
               details = map (\<lambda>(c, vs). (c, vs ! first_pos ks (PStr g)))
                           (filter (\<lambda>(c, _). c \<notin> set dropped_cols) (fr_cols df))\<rparr>)
       (sorted_list_of_set {s. PStr s \<in> set ks})"

fun array_elems :: "pyval \<Rightarrow> pyval list" where
  "array_elems (PArray us) = us"
| "array_elems _ = []"

fun float_pair :: "pyval \<Rightarrow> pyval \<Rightarrow> (decimal \<times> decimal) option" where
  "float_pair (PFloat a) (PFloat b) = Some (a, b)"
| "float_pair _ _ = None"

definition frame_places :: "frame \<Rightarrow> place_rec list" where
  "frame_places out =
     (case (get_column out ''place_id'', get_column out ''categories'', get_column out ''lat'', get_column out ''lon'') of
        (Inr pids, Inr cs, Inr las, Inr los) \<Rightarrow>
          map (\<lambda>i. \<lparr>place = py_str (pids ! i), place_categories = set (array_elems (cs ! i)),
                     location = float_pair (las ! i) (los ! i),
                     details = map (\<lambda>(c, vs). (c, vs ! i))
                       (filter (\<lambda>(c, _). c \<notin> set [''place_id'', ''categories'', ''lat'', ''lon'']) (fr_cols out))\<rparr>)
            [0..<length pids]
      | _ \<Rightarrow> [])"

section \<open>Example tables\<close>

text \<open>Two observations of a bakery that is also a cafe, one of a bar; a positional index.\<close>

definition wit_frame :: frame where
  "wit_frame = \<lparr>fr_index = range_index 3,
     fr_cols = [(''index'', range_index 3),
       (''geometry'', [PStr ''lat: 37.4224, lng: -122.0841'', PStr ''lat: 37.4224, lng: -122.0841'', PStr ''lat: 1.5, lng: -2.25'']),
       (''name'', [PStr ''Bakery'', PStr ''Bakery'', PStr ''Bar'']),
       (''opening_hours'', [PNaN, PNaN, PNaN]),
       (''place_id'', [PStr ''p1'', PStr ''p1'', PStr ''p0'']),
       (''category'', [PStr ''bakery'', PStr ''cafe'', PStr ''bar''])]\<rparr>"

definition wit_out :: frame where
  "wit_out = \<lparr>fr_index = range_index 2,
     fr_cols = [(''place_id'', [PStr ''p0'', PStr ''p1'']),
       (''categories'', [PArray [PStr ''bar''], PArray [PStr ''bakery'', PStr ''cafe'']]),
       (''lat'', [PFloat (Dec 15 1), PFloat (Dec 374224 4)]),
       (''lon'', [PFloat (Dec (-225) 2), PFloat (Dec (-1220841) 4)]),
       (''name'', [PStr ''Bar'', PStr ''Bakery''])]\<rparr>"

text \<open>The same table where the bar's geometry holds no number.\<close>

definition wit_bad :: frame where
  "wit_bad = wit_frame\<lparr>fr_cols := map (\<lambda>(c, vs). (c, if c = ''geometry'' then
      [PStr ''lat: 37.4224, lng: -122.0841'', PStr ''lat: 37.4224, lng: -122.0841'', PStr ''unknown''] else vs))
     (fr_cols wit_frame)\<rparr>"

text \<open>The geometry text \<open>lat: <lat>, lng: <lon>\<close> of the spec's example, for two floats.\<close>

definition geo_text :: "decimal \<Rightarrow> decimal \<Rightarrow> string" where
  "geo_text la lo = ''lat: '' @ float_repr la @ '', lng: '' @ float_repr lo"

text \<open>The three-row table with the geometry as the Places API returns it, a dict.\<close>

definition wit_dict :: frame where
  "wit_dict = wit_frame\<lparr>fr_cols := map (\<lambda>(c, vs). (c, if c = ''geometry'' then
      replicate 3 (PDict [(''location'', PDict [(''lat'', PFloat (Dec 374224 4)), (''lng'', PFloat (Dec (-1220841) 4))])])
      else vs)) (fr_cols wit_frame)\<rparr>"

section \<open>Lemmas\<close>

lemma observation_table_D:
  assumes "observation_table df" "get_column df ''place_id'' = Inr ks"
    "get_column df ''geometry'' = Inr geo" "get_column df ''category'' = Inr cats"
  shows "wf_frame df" "\<forall>k \<in> set ks. py_isna k \<or> is_pstr k"
    "list_all py_hashable (keyed_vals ks geo)" "list_all py_hashable (keyed_vals ks cats)"
    "''opening_hours'' \<in> set (col_names df)" "''index'' \<in> set (col_names df)"
    "set [''geometry_unique'', ''categories'', ''lat'', ''lon''] \<inter> set (col_names df) = {}"
  using assms by (auto simp: observation_table_def list_all_iff)

lemma observation_table_cols:
  assumes "observation_table df"
  obtains ks geo cats where "get_column df ''place_id'' = Inr ks"
    "get_column df ''geometry'' = Inr geo" "get_column df ''category'' = Inr cats"
  using assms get_column_exists[of "''place_id''" df] get_column_exists[of "''geometry''" df]
    get_column_exists[of "''category''" df]
  by (auto simp: observation_table_def)

lemma observation_table_len:
  "observation_table df \<Longrightarrow> get_column df ''place_id'' = Inr ks \<Longrightarrow> get_column df c = Inr vs \<Longrightarrow>
   length vs = length ks"
  using get_column_wf[of df] by (auto simp: observation_table_def)

lemma treat_data_eq:
  assumes "observation_table df" "get_column df ''place_id'' = Inr ks"
    "get_column df ''geometry'' = Inr geo" "get_column df ''category'' = Inr cats"
  shows "treat_data df =
           bind_res (map_res coords_of (unique_per_place ks geo)) (\<lambda>cs. Inr (treat_data_result df ks cats cs))"
  using observation_table_D[OF assms] by (intro treat_data_ok) (simp_all add: assms(2-4))

lemma treat_data_Inr:
  assumes "observation_table df" "get_column df ''place_id'' = Inr ks" "get_column df ''geometry'' = Inr geo"
    "get_column df ''category'' = Inr cats" "treat_data df = Inr out"
  obtains cs where "map_res coords_of (unique_per_place ks geo) = Inr cs" "out = treat_data_result df ks cats cs"
    "length cs = length (place_keys ks)"
  using assms treat_data_eq[OF assms(1-4)]
  by (auto simp: map_res_Inr_length unique_per_place_def)

lemma wit_obs: "observation_table wit_frame"
  by (simp add: observation_table_def wit_frame_def get_column_def col_names_def wf_frame_def nrows_def
      keyed_vals_def range_index_def)

lemma wit_keys: "place_keys [PStr ''p1'', PStr ''p1'', PStr ''p0''] = [''p0'', ''p1'']"
  by (simp add: place_keys_def)

lemma wit_cols:
  "get_column wit_frame ''place_id'' = Inr [PStr ''p1'', PStr ''p1'', PStr ''p0'']"
  "get_column wit_frame ''geometry'' =
     Inr [PStr ''lat: 37.4224, lng: -122.0841'', PStr ''lat: 37.4224, lng: -122.0841'', PStr ''lat: 1.5, lng: -2.25'']"
  "get_column wit_frame ''category'' = Inr [PStr ''bakery'', PStr ''cafe'', PStr ''bar'']"
  by (simp_all add: wit_frame_def get_column_def)

lemma wit_td: "treat_data wit_frame = Inr wit_out"
proof -
  have u: "unique_per_place [PStr ''p1'', PStr ''p1'', PStr ''p0'']
     [PStr ''lat: 37.4224, lng: -122.0841'', PStr ''lat: 37.4224, lng: -122.0841'', PStr ''lat: 1.5, lng: -2.25'']
     = [PArray [PStr ''lat: 1.5, lng: -2.25''], PArray [PStr ''lat: 37.4224, lng: -122.0841'']]"
    by (simp add: unique_per_place_def wit_keys group_vals_def unique_first_def)
  have c: "map_res coords_of [PArray [PStr ''lat: 1.5, lng: -2.25''], PArray [PStr ''lat: 37.4224, lng: -122.0841'']]
     = Inr [(Dec 15 1, Dec (-225) 2), (Dec 374224 4, Dec (-1220841) 4)]"
    by (simp add: coords_eval)
  show ?thesis
    unfolding treat_data_eq[OF wit_obs wit_cols] u c bind_res_Inr
    by (simp add: treat_data_result_def place_columns_def wit_keys wit_frame_def wit_out_def first_pos_def
        unique_per_place_def group_vals_def unique_first_def numeral_2_eq_2)
qed

lemma wit_out_cols:
  "get_column wit_out ''place_id'' = Inr [PStr ''p0'', PStr ''p1'']"
  "get_column wit_out ''categories'' = Inr [PArray [PStr ''bar''], PArray [PStr ''bakery'', PStr ''cafe'']]"
  "get_column wit_out ''lat'' = Inr [PFloat (Dec 15 1), PFloat (Dec 374224 4)]"
  "get_column wit_out ''lon'' = Inr [PFloat (Dec (-225) 2), PFloat (Dec (-1220841) 4)]"
  by (simp_all add: wit_out_def get_column_def)

lemma py_str_geo_text:
  assumes "dec_normal la" "float_positional la" "dec_normal lo" "float_positional lo"
  shows "py_str (PArray [PStr (geo_text la lo)]) =
           [CHR ''['', CHR 0x27] @ ''lat: '' @ float_repr la @ '', lng: '' @ float_repr lo @ [CHR 0x27, CHR '']'']"
  using str_repr_float_repr[OF assms(1,2)] str_repr_float_repr[OF assms(3,4)]
    float_repr_no_quote[OF assms(1,2)] float_repr_no_quote[OF assms(3,4)]
  by (simp add: geo_text_def np_array_str_def str_repr_def Let_def)

lemma findall_geo_text:
  assumes "dec_normal la" "float_positional la" "dec_normal lo" "float_positional lo"
  shows "findall_num (py_str (PArray [PStr (geo_text la lo)])) = [float_repr la, float_repr lo]"
proof -
  have tail: "findall_num [CHR 0x27, CHR '']''] = []" by (simp add: is_digit_def)
  have "findall_num (float_repr lo @ [CHR 0x27, CHR '']'']) = [float_repr lo]"
    using findall_num_float_repr[OF assms(3,4), of "[CHR 0x27, CHR '']'']"] tail by (simp add: is_digit_def)
  then have "findall_num ('', lng: '' @ float_repr lo @ [CHR 0x27, CHR '']'']) = [float_repr lo]"
    using findall_num_skip[of "'', lng: ''" "float_repr lo @ [CHR 0x27, CHR '']'']"] by (simp add: is_digit_def)
  then have "findall_num (float_repr la @ '', lng: '' @ float_repr lo @ [CHR 0x27, CHR '']'']) = [float_repr la, float_repr lo]"
    using findall_num_float_repr[OF assms(1,2), of "'', lng: '' @ float_repr lo @ [CHR 0x27, CHR '']'']"]
    by (simp add: is_digit_def)
  then show ?thesis
    unfolding py_str_geo_text[OF assms]
    using findall_num_skip[of "[CHR ''['', CHR 0x27] @ ''lat: ''" "float_repr la @ '', lng: '' @ float_repr lo @ [CHR 0x27, CHR '']'']"]
    by (simp add: is_digit_def)
qed

lemma place_keys_sorted_list: "place_keys ks = sorted_list_of_set {s. PStr s \<in> set ks}"
proof -
  have "{s. PStr s \<in> set ks} = set (str_keys (filter (\<lambda>k. \<not> py_isna k) ks))"
    by (auto simp: PStr_str_keys)
  then show ?thesis by (simp add: place_keys_def sorted_list_of_set_sort_remdups)
qed

lemma coords_first_two: "coords_of v = Inr p \<Longrightarrow> first_two_floats (py_str v) = Some p"
  by (cases p) (auto simp: coords_of_Inr first_two_floats_def)

lemma map_place_columns_row:
  "i < length (place_keys ks) \<Longrightarrow>
   map (\<lambda>(c, vs). (c, vs ! i)) (place_columns ks xs) =
   map (\<lambda>(c, vs). (c, vs ! first_pos ks (PStr (place_keys ks ! i)))) (filter (\<lambda>(c, _). c \<notin> set dropped_cols) xs)"
  by (simp add: place_columns_def dropped_cols_def case_prod_beta)

lemma filter_result_cols:
  assumes "set [''geometry_unique'', ''categories'', ''lat'', ''lon''] \<inter> set (col_names df) = {}"
  shows "filter (\<lambda>(c, _). c \<notin> set [''place_id'', ''categories'', ''lat'', ''lon''])
           (fr_cols (treat_data_result df ks cats cs)) = place_columns ks (fr_cols df)"
proof -
  have "\<forall>x \<in> set (place_columns ks (fr_cols df)). fst x \<notin> set [''place_id'', ''categories'', ''lat'', ''lon'']"
  proof
    fix x assume "x \<in> set (place_columns ks (fr_cols df))"
    then have "fst x \<in> set (map fst (place_columns ks (fr_cols df)))" by simp
    then have "fst x \<in> set (col_names df)" "fst x \<noteq> ''place_id''"
      by (simp_all add: names_place_columns col_names_def)
    with assms show "fst x \<notin> set [''place_id'', ''categories'', ''lat'', ''lon'']" by auto
  qed
  then show ?thesis by (simp add: treat_data_result_def filter_id_conv case_prod_beta)
qed

lemma place_record_row:
  assumes cs: "map_res coords_of (unique_per_place ks geo) = Inr cs"
    and lg: "length geo = length ks" and lc: "length cats = length ks"
    and len: "length cs = length (place_keys ks)"
    and fresh: "set [''geometry_unique'', ''categories'', ''lat'', ''lon''] \<inter> set (col_names df) = {}"
    and i: "i < length (place_keys ks)"
  shows "\<lparr>place = py_str (map PStr (place_keys ks) ! i),
          place_categories = set (array_elems (unique_per_place ks cats ! i)),
          location = float_pair (map (PFloat \<circ> fst) cs ! i) (map (PFloat \<circ> snd) cs ! i),
          details = map (\<lambda>(c, vs). (c, vs ! i))
            (filter (\<lambda>(c, _). c \<notin> set [''place_id'', ''categories'', ''lat'', ''lon''])
              (fr_cols (treat_data_result df ks cats cs)))\<rparr>
       = \<lparr>place = place_keys ks ! i, place_categories = set (place_rows ks cats (PStr (place_keys ks ! i))),
          location = first_two_floats (py_str (PArray (unique_first (place_rows ks geo (PStr (place_keys ks ! i)))))),
          details = map (\<lambda>(c, vs). (c, vs ! first_pos ks (PStr (place_keys ks ! i))))
                      (filter (\<lambda>(c, _). c \<notin> set dropped_cols) (fr_cols df))\<rparr>"
proof -
  have "coords_of (unique_per_place ks geo ! i) = Inr (cs ! i)"
    using map_res_Inr_nth[OF cs] i by (simp add: unique_per_place_def)
  then have "coords_of (PArray (unique_first (place_rows ks geo (PStr (place_keys ks ! i))))) = Inr (cs ! i)"
    by (simp only: unique_per_place_nth[OF lg i])
  then have loc: "first_two_floats (py_str (PArray (unique_first (place_rows ks geo (PStr (place_keys ks ! i))))))
                  = Some (cs ! i)"
    by (rule coords_first_two)
  have fp: "float_pair (map (PFloat \<circ> fst) cs ! i) (map (PFloat \<circ> snd) cs ! i) = Some (cs ! i)"
    using i len by simp
  have cat: "set (array_elems (unique_per_place ks cats ! i)) = set (place_rows ks cats (PStr (place_keys ks ! i)))"
    by (simp add: unique_per_place_nth[OF lc i])
  have pl: "py_str (map PStr (place_keys ks) ! i) = place_keys ks ! i" using i by simp
  show ?thesis
    by (simp only: loc fp cat pl filter_result_cols[OF fresh] map_place_columns_row[OF i])
qed

section \<open>Properties\<close>

text \<open>C2: on an observation table, a successful \<open>treat_data\<close> returns a well-formed frame
  with one row per place: its \<open>place_id\<close> column holds each identifier of the input once, in
  sorted order, and no other (rows with a missing identifier are dropped).\<close>

theorem treat_data_rows:
  assumes "observation_table df" "get_column df ''place_id'' = Inr ks" "treat_data df = Inr out"
  shows "wf_frame out \<and> (\<exists>gs. get_column out ''place_id'' = Inr (map PStr gs) \<and> sorted gs \<and> distinct gs
           \<and> set gs = {s. PStr s \<in> set ks})"
proof -
  obtain ks' geo cats where c: "get_column df ''place_id'' = Inr ks'" "get_column df ''geometry'' = Inr geo"
    "get_column df ''category'' = Inr cats" using assms(1) by (rule observation_table_cols)
  with assms(2) have c': "get_column df ''place_id'' = Inr ks" by simp
  from treat_data_Inr[OF assms(1) c' c(2,3) assms(3)] obtain cs where
    out: "out = treat_data_result df ks cats cs" "length cs = length (place_keys ks)" by blast
  note obs = observation_table_D[OF assms(1) c' c(2,3)]
  show ?thesis
    using treat_data_result_wf[OF obs(1) out(2) obs(7)] treat_data_result_cols(1)[OF obs(7)]
      place_keys_distinct_sorted place_keys_set out(1) by blast
qed

text \<open>C3: the \<open>categories\<close> cell of a place is an array of the categories of its input rows,
  each once: exactly the set of categories observed for that place.\<close>

theorem treat_data_categories:
  assumes "observation_table df" "get_column df ''place_id'' = Inr ks" "get_column df ''category'' = Inr cats"
    "treat_data df = Inr out" "get_column out ''place_id'' = Inr pids" "get_column out ''categories'' = Inr cs"
    "i < length pids"
  shows "\<exists>us. cs ! i = PArray us \<and> distinct us \<and> set us = {cats ! j |j. j < length ks \<and> ks ! j = pids ! i}"
proof -
  obtain geo where g: "get_column df ''geometry'' = Inr geo"
    using assms(1) by (rule observation_table_cols) (use assms(2,3) in simp)
  from treat_data_Inr[OF assms(1,2) g assms(3,4)] obtain ds where
    out: "out = treat_data_result df ks cats ds" by blast
  note obs = observation_table_D[OF assms(1,2) g assms(3)]
  have "pids = map PStr (place_keys ks)" "cs = unique_per_place ks cats"
    using assms(5,6) treat_data_result_cols(1,2)[OF obs(7)] out by simp_all
  with assms(7) observation_table_len[OF assms(1,2,3)] show ?thesis
    by (simp add: unique_per_place_nth set_place_rows)
qed

text \<open>C4: the \<open>lat\<close> and \<open>lon\<close> cells of a place are the first two numbers that the scanner
  finds in \<open>str\<close> of the array of the place's distinct geometries, converted by \<open>float\<close>.\<close>

theorem treat_data_coords:
  assumes "observation_table df" "get_column df ''place_id'' = Inr ks" "get_column df ''geometry'' = Inr geo"
    "treat_data df = Inr out" "get_column out ''place_id'' = Inr pids"
    "get_column out ''lat'' = Inr las" "get_column out ''lon'' = Inr los" "i < length pids"
  shows "\<exists>a b r la lo. findall_num (py_str (PArray (unique_first (place_rows ks geo (pids ! i))))) = a # b # r
           \<and> float_of_token a = Inr la \<and> float_of_token b = Inr lo \<and> las ! i = PFloat la \<and> los ! i = PFloat lo"
proof -
  obtain cats where c: "get_column df ''category'' = Inr cats"
    using assms(1) by (rule observation_table_cols) (use assms(2,3) in simp)
  from treat_data_Inr[OF assms(1-3) c assms(4)] obtain cs where
    out: "map_res coords_of (unique_per_place ks geo) = Inr cs" "out = treat_data_result df ks cats cs"
         "length cs = length (place_keys ks)" by blast
  note obs = observation_table_D[OF assms(1,2,3) c]
  have p: "pids = map PStr (place_keys ks)" "las = map (PFloat \<circ> fst) cs" "los = map (PFloat \<circ> snd) cs"
    using assms(5-7) treat_data_result_cols(1,3,4)[OF obs(7)] out(2) by simp_all
  with assms(8) have i: "i < length (place_keys ks)" by simp
  have "coords_of (unique_per_place ks geo ! i) = Inr (cs ! i)"
    using map_res_Inr_nth[OF out(1)] i by (simp add: unique_per_place_def)
  then have "coords_of (PArray (unique_first (place_rows ks geo (pids ! i)))) = Inr (fst (cs ! i), snd (cs ! i))"
    using i p(1) observation_table_len[OF assms(1,2,3)] by (simp add: unique_per_place_nth)
  then show ?thesis
    using i p out(3) unfolding coords_of_Inr by fastforce
qed

text \<open>C5: every other column of the input (not \<open>place_id\<close>, \<open>geometry\<close>, \<open>opening_hours\<close>,
  \<open>category\<close>, \<open>index\<close>) is carried over from the first input row of each place.\<close>

theorem treat_data_details:
  assumes "observation_table df" "get_column df ''place_id'' = Inr ks" "treat_data df = Inr out"
    "get_column out ''place_id'' = Inr pids"
    "c \<notin> set [''place_id'', ''geometry'', ''opening_hours'', ''category'', ''index'']" "get_column df c = Inr vs"
  shows "get_column out c = Inr (map (\<lambda>p. vs ! first_pos ks p) pids)"
proof -
  obtain geo cats where g: "get_column df ''geometry'' = Inr geo" "get_column df ''category'' = Inr cats"
    using assms(1) by (rule observation_table_cols) (use assms(2) in simp)
  from treat_data_Inr[OF assms(1,2) g assms(3)] obtain cs where
    out: "out = treat_data_result df ks cats cs" by blast
  note obs = observation_table_D[OF assms(1,2) g]
  have "pids = map PStr (place_keys ks)"
    using assms(4) treat_data_result_cols(1)[OF obs(7)] out by simp
  with treat_data_result_detail[OF obs(7) assms(5,6)] out show ?thesis by simp
qed

text \<open>C6: the columns of the result are \<open>place_id\<close>, \<open>categories\<close>, \<open>lat\<close>, \<open>lon\<close>, then the
  input's remaining columns in their input order.\<close>

theorem treat_data_columns:
  assumes "observation_table df" "treat_data df = Inr out"
  shows "col_names out = [''place_id'', ''categories'', ''lat'', ''lon''] @
           filter (\<lambda>c. c \<notin> set [''place_id'', ''geometry'', ''opening_hours'', ''category'', ''index'']) (col_names df)"
proof -
  obtain ks geo cats where g: "get_column df ''place_id'' = Inr ks" "get_column df ''geometry'' = Inr geo"
    "get_column df ''category'' = Inr cats" using assms(1) by (rule observation_table_cols)
  from treat_data_Inr[OF assms(1) g assms(2)] obtain cs where
    out: "out = treat_data_result df ks cats cs" by blast
  show ?thesis using treat_data_result_cols(5)[OF observation_table_D(7)[OF assms(1) g]] out by simp
qed

text \<open>C7: a place whose geometry text holds fewer than two numbers makes \<open>treat_data\<close> raise
  \<open>IndexError\<close> (the spec's malformed-geometry error), whatever the other places hold.\<close>

theorem treat_data_malformed:
  assumes "observation_table df" "get_column df ''place_id'' = Inr ks" "get_column df ''geometry'' = Inr geo"
    "PStr g \<in> set ks" "length (findall_num (py_str (PArray (unique_first (place_rows ks geo (PStr g)))))) < 2"
  shows "treat_data df = Inl (IndexError ''list index out of range'')"
proof -
  obtain cats where c: "get_column df ''category'' = Inr cats"
    using assms(1) by (rule observation_table_cols) (use assms(2,3) in simp)
  have "map_res coords_of (unique_per_place ks geo) = Inl (IndexError ''list index out of range'')"
    using assms(4,5) coords_loop_Inl[OF observation_table_len[OF assms(1-3)]] by blast
  then show ?thesis by (simp add: treat_data_eq[OF assms(1-3) c])
qed

text \<open>C12: on an observation table, \<open>treat_data\<close> succeeds exactly when the geometry text of every
  place holds at least two numbers.\<close>

theorem treat_data_succeeds:
  assumes "observation_table df" "get_column df ''place_id'' = Inr ks" "get_column df ''geometry'' = Inr geo"
  shows "(\<exists>out. treat_data df = Inr out) \<longleftrightarrow>
           (\<forall>g. PStr g \<in> set ks \<longrightarrow> 2 \<le> length (findall_num (py_str (PArray (unique_first (place_rows ks geo (PStr g)))))))"
proof -
  obtain cats where c: "get_column df ''category'' = Inr cats"
    using assms(1) by (rule observation_table_cols) (use assms(2,3) in simp)
  note l = coords_loop_Inl[OF observation_table_len[OF assms(1-3)]]
  show ?thesis
  proof (cases "map_res coords_of (unique_per_place ks geo)")
    case (Inl e)
    then show ?thesis using l[of e] by (auto simp: treat_data_eq[OF assms(1-3) c])
  next
    case (Inr cs)
    then have "\<not> (\<exists>g. PStr g \<in> set ks \<and> length (findall_num (py_str (PArray (unique_first (place_rows ks geo (PStr g)))))) < 2)"
      using l by (metis Inl_Inr_False)
    with Inr show ?thesis by (auto simp: treat_data_eq[OF assms(1-3) c])
  qed
qed

text \<open>C14: round trip of the coordinates: for two floats that \<open>repr\<close> prints positionally, the
  array holding their geometry text \<open>lat: <lat>, lng: <lon>\<close> is read back by lines 198-200 as
  exactly those two floats.\<close>

theorem coords_roundtrip:
  assumes "dec_normal la" "float_positional la" "dec_normal lo" "float_positional lo"
  shows "coords_of (PArray [PStr (geo_text la lo)]) = Inr (la, lo)"
  using findall_geo_text[OF assms] float_repr_roundtrip[OF assms(1,2)] float_repr_roundtrip[OF assms(3,4)]
  by (simp add: coords_of_Inr)

text \<open>\<open>str\<close> of the array holding a geometry text quotes it and changes nothing inside, for
  every pair of floats.\<close>

lemma str_repr_char_float_repr:
  assumes "c \<in> set (float_repr d)"
  shows "str_repr_char (CHR 0x27) c = [c] \<and> c \<noteq> CHR 0x27"
proof -
  have q: "\<not> is_digit (CHR 0x27)" by (simp add: is_digit_def less_eq_char_def)
  from float_repr_chars_all[of d] assms
  have "is_digit c \<or> c \<in> {CHR ''-'', CHR ''.'', CHR ''e'', CHR ''+''}" by blast
  then show ?thesis
  proof
    assume d: "is_digit c"
    then have "c \<noteq> CHR 0x27" using q by auto
    with str_repr_char_digit[OF d] show ?thesis by blast
  next
    assume "c \<in> {CHR ''-'', CHR ''.'', CHR ''e'', CHR ''+''}"
    then show ?thesis by (elim insertE emptyE) simp_all
  qed
qed

lemma py_str_geo_text_all:
  "py_str (PArray [PStr (geo_text la lo)]) = [CHR ''['', CHR 0x27] @ geo_text la lo @ [CHR 0x27, CHR '']'']"
proof -
  have lit: "\<forall>c \<in> set ''lat: '' \<union> set '', lng: ''. str_repr_char (CHR 0x27) c = [c] \<and> c \<noteq> CHR 0x27"
    by simp
  have "set (geo_text la lo) \<subseteq> set ''lat: '' \<union> set '', lng: '' \<union> set (float_repr la) \<union> set (float_repr lo)"
    by (auto simp del: str_repr_char.simps simp: geo_text_def)
  then have all: "\<forall>c \<in> set (geo_text la lo). str_repr_char (CHR 0x27) c = [c] \<and> c \<noteq> CHR 0x27"
    using lit str_repr_char_float_repr[of _ la] str_repr_char_float_repr[of _ lo] by blast
  then have "concat (map (str_repr_char (CHR 0x27)) (geo_text la lo)) = geo_text la lo"
    by (intro concat_map_singleton) blast
  moreover have "CHR 0x27 \<notin> set (geo_text la lo)" using all by blast
  ultimately show ?thesis by (simp add: np_array_str_def str_repr_def Let_def)
qed

text \<open>C16: a latitude that \<open>repr\<close> prints in exponent notation (magnitude below \<open>1e-4\<close> or at
  least \<open>1e16\<close>) is split by the pattern of line 198 into its mantissa and its exponent, so
  for every longitude the longitude read by lines 198-200 is the latitude's decimal
  exponent (\<open>5e-05\<close> gives \<open>-5.0\<close>): the true longitude is never read.\<close>

theorem coords_exponent_lon:
  assumes "\<not> float_positional la"
  shows "\<exists>a. coords_of (PArray [PStr (geo_text la lo)]) = Inr (a, Dec (dec_exp la) 0)"
proof -
  let ?r = "'', lng: '' @ float_repr lo @ [CHR 0x27, CHR '']'']"
  let ?tok = "(if dec_exp la < 0 then ''-'' else []) @ pad2 (nat_str (nat \<bar>dec_exp la\<bar>))"
  have "py_str (PArray [PStr (geo_text la lo)]) = ''['' @ [CHR 0x27] @ ''lat: '' @ (float_repr la @ ?r)"
    unfolding py_str_geo_text_all by (simp add: geo_text_def)
  moreover have "findall_num (''['' @ [CHR 0x27] @ ''lat: '' @ s) = findall_num s" for s
    using findall_num_skip[of "''['' @ [CHR 0x27] @ ''lat: ''" s] by (simp add: is_digit_def)
  moreover obtain t where "findall_num (float_repr la @ ?r) = t # ?tok # findall_num ?r"
    using findall_num_exponent[OF assms, of ?r] by (auto simp: is_digit_def)
  ultimately have f: "findall_num (py_str (PArray [PStr (geo_text la lo)])) = t # ?tok # findall_num ?r"
    by simp
  have "t \<in> set (findall_num (py_str (PArray [PStr (geo_text la lo)])))" unfolding f by simp
  then obtain a where "float_of_token t = Inr a" using findall_num_float by blast
  then show ?thesis using f float_of_token_exponent[of "dec_exp la"] coords_of_Inr by blast
qed

text \<open>C17: a geometry that is not hashable (a dict or list, as the Places API returns the geometry)
  in a row with a place identifier makes the grouping of line 193 raise \<open>TypeError\<close>.\<close>

theorem treat_data_unhashable:
  assumes wf: "wf_frame df"
    and cols: "get_column df ''place_id'' = Inr ks" "get_column df ''geometry'' = Inr geo"
      "get_column df ''category'' = Inr cats"
    and keys: "\<forall>k \<in> set ks. py_isna k \<or> is_pstr k"
    and j: "j < length ks" "\<not> py_isna (ks ! j)" "\<not> py_hashable (geo ! j)"
  shows "treat_data df = Inl (TypeError ''unhashable type'')"
proof -
  have "length geo = length ks" using get_column_wf[OF wf cols(2)] get_column_wf[OF wf cols(1)] by simp
  with j have "\<not> list_all py_hashable (keyed_vals ks geo)"
    by (auto simp: list_all_iff dest: keyed_vals_nth)
  then have "groupby_unique df ''place_id'' [''geometry'', ''category''] = Inl (TypeError ''unhashable type'')"
    using cols keys by (simp add: groupby_unique_def group_keys_ok)
  then show ?thesis by (simp add: treat_data_def estab_categories_def)
qed

text \<open>C1: refinement: on an observation table, the output of a successful \<open>treat_data\<close>,
  read as place records, is exactly the abstract specification of spec section 4.4.\<close>

theorem treat_data_refines:
  assumes obs: "observation_table df" and cols: "get_column df ''place_id'' = Inr ks"
    "get_column df ''geometry'' = Inr geo" "get_column df ''category'' = Inr cats"
    and td: "treat_data df = Inr out"
  shows "frame_places out = spec_places df ks geo cats"
proof -
  from treat_data_Inr[OF obs cols td] obtain cs where
    cs: "map_res coords_of (unique_per_place ks geo) = Inr cs" and out: "out = treat_data_result df ks cats cs"
    and len: "length cs = length (place_keys ks)" by blast
  note o = observation_table_D[OF obs cols]
  note r = treat_data_result_cols[OF o(7), of ks cats cs]
  have lg: "length geo = length ks" using observation_table_len[OF obs cols(1) cols(2)] .
  have lc: "length cats = length ks" using observation_table_len[OF obs cols(1) cols(3)] .
  note row = place_record_row[OF cs lg lc len o(7)]
  have "frame_places out = map (\<lambda>i. \<lparr>place = py_str (map PStr (place_keys ks) ! i),
              place_categories = set (array_elems (unique_per_place ks cats ! i)),
              location = float_pair (map (PFloat \<circ> fst) cs ! i) (map (PFloat \<circ> snd) cs ! i),
              details = map (\<lambda>(c, vs). (c, vs ! i))
                (filter (\<lambda>(c, _). c \<notin> set [''place_id'', ''categories'', ''lat'', ''lon''])
                  (fr_cols (treat_data_result df ks cats cs)))\<rparr>) [0..<length (place_keys ks)]"
    unfolding frame_places_def out r(1-4) by simp
  also have "\<dots> = map (\<lambda>g. \<lparr>place = g, place_categories = set (place_rows ks cats (PStr g)),
           location = first_two_floats (py_str (PArray (unique_first (place_rows ks geo (PStr g))))),
           details = map (\<lambda>(c, vs). (c, vs ! first_pos ks (PStr g)))
                       (filter (\<lambda>(c, _). c \<notin> set dropped_cols) (fr_cols df))\<rparr>) (place_keys ks)"
    by (subst map_as_upt, rule map_cong[OF refl], rule row) simp
  finally show ?thesis by (simp only: spec_places_def place_keys_sorted_list)
qed

section \<open>Witnesses\<close>

theorem treat_data_rows_witness:
  "wf_frame wit_out \<and> (\<exists>gs. get_column wit_out ''place_id'' = Inr (map PStr gs) \<and> sorted gs \<and> distinct gs
     \<and> set gs = {s. PStr s \<in> set [PStr ''p1'', PStr ''p1'', PStr ''p0'']})"
  by (rule treat_data_rows[OF wit_obs wit_cols(1) wit_td])

theorem treat_data_categories_witness:
  "\<exists>us. PArray [PStr ''bakery'', PStr ''cafe''] = PArray us \<and> distinct us
     \<and> set us = {[PStr ''bakery'', PStr ''cafe'', PStr ''bar''] ! j |j. j < 3 \<and> [PStr ''p1'', PStr ''p1'', PStr ''p0''] ! j = PStr ''p1''}"
  using treat_data_categories[OF wit_obs wit_cols(1,3) wit_td wit_out_cols(1,2), of 1] by (simp add: numeral_3_eq_3)

theorem treat_data_coords_witness:
  "\<exists>a b r la lo. findall_num (py_str (PArray (unique_first (place_rows [PStr ''p1'', PStr ''p1'', PStr ''p0'']
        [PStr ''lat: 37.4224, lng: -122.0841'', PStr ''lat: 37.4224, lng: -122.0841'', PStr ''lat: 1.5, lng: -2.25'']
        (PStr ''p1''))))) = a # b # r
     \<and> float_of_token a = Inr la \<and> float_of_token b = Inr lo \<and> PFloat (Dec 374224 4) = PFloat la
     \<and> PFloat (Dec (-1220841) 4) = PFloat lo"
  using treat_data_coords[OF wit_obs wit_cols(1,2) wit_td wit_out_cols(1,3,4), of 1] by simp

theorem treat_data_details_witness:
  "get_column wit_out ''name'' = Inr [PStr ''Bar'', PStr ''Bakery'']"
proof -
  have "get_column wit_frame ''name'' = Inr [PStr ''Bakery'', PStr ''Bakery'', PStr ''Bar'']"
    by (simp add: wit_frame_def get_column_def)
  from treat_data_details[OF wit_obs wit_cols(1) wit_td wit_out_cols(1) _ this] show ?thesis
    by (simp add: first_pos_def)
qed

theorem treat_data_columns_witness:
  "col_names wit_out = [''place_id'', ''categories'', ''lat'', ''lon'', ''name'']"
  using treat_data_columns[OF wit_obs wit_td] by (simp add: wit_frame_def col_names_def)

theorem treat_data_malformed_witness:
  "treat_data wit_bad = Inl (IndexError ''list index out of range'')"
proof -
  have o: "observation_table wit_bad"
    by (simp add: observation_table_def wit_bad_def wit_frame_def get_column_def col_names_def wf_frame_def
        nrows_def keyed_vals_def range_index_def)
  have g: "get_column wit_bad ''place_id'' = Inr [PStr ''p1'', PStr ''p1'', PStr ''p0'']"
    "get_column wit_bad ''geometry'' =
       Inr [PStr ''lat: 37.4224, lng: -122.0841'', PStr ''lat: 37.4224, lng: -122.0841'', PStr ''unknown'']"
    by (simp_all add: wit_bad_def wit_frame_def get_column_def)
  have "length (findall_num (py_str (PArray (unique_first (place_rows [PStr ''p1'', PStr ''p1'', PStr ''p0'']
     [PStr ''lat: 37.4224, lng: -122.0841'', PStr ''lat: 37.4224, lng: -122.0841'', PStr ''unknown''] (PStr ''p0'')))))) < 2"
    by (simp add: place_rows_def unique_first_def coords_eval)
  from treat_data_malformed[OF o g _ this] show ?thesis by simp
qed

theorem treat_data_succeeds_witness:
  "(\<exists>out. treat_data wit_frame = Inr out) \<longleftrightarrow>
     (\<forall>g. PStr g \<in> set [PStr ''p1'', PStr ''p1'', PStr ''p0''] \<longrightarrow> 2 \<le> length (findall_num (py_str (PArray (unique_first
        (place_rows [PStr ''p1'', PStr ''p1'', PStr ''p0'']
          [PStr ''lat: 37.4224, lng: -122.0841'', PStr ''lat: 37.4224, lng: -122.0841'', PStr ''lat: 1.5, lng: -2.25'']
          (PStr g)))))))"
  by (rule treat_data_succeeds[OF wit_obs wit_cols(1,2)])

theorem coords_roundtrip_witness: "coords_of (PArray [PStr (geo_text (Dec 374224 4) (Dec (-1220841) 4))]) = Inr (Dec 374224 4, Dec (-1220841) 4)"
  by (rule coords_roundtrip) (simp_all add: float_positional_def nat_str.simps digit_char_def)

theorem treat_data_unhashable_witness: "treat_data wit_dict = Inl (TypeError ''unhashable type'')"
proof -
  have "wf_frame wit_dict"
    by (simp add: wit_dict_def wit_frame_def wf_frame_def nrows_def col_names_def range_index_def)
  moreover have "get_column wit_dict ''place_id'' = Inr [PStr ''p1'', PStr ''p1'', PStr ''p0'']"
    "get_column wit_dict ''geometry'' =
       Inr (replicate 3 (PDict [(''location'', PDict [(''lat'', PFloat (Dec 374224 4)), (''lng'', PFloat (Dec (-1220841) 4))])]))"
    "get_column wit_dict ''category'' = Inr [PStr ''bakery'', PStr ''cafe'', PStr ''bar'']"
    by (simp_all add: wit_dict_def wit_frame_def get_column_def)
  ultimately show ?thesis
    using treat_data_unhashable[of wit_dict _ _ _ 0] by simp
qed

theorem treat_data_refines_witness:
  "frame_places wit_out = spec_places wit_frame [PStr ''p1'', PStr ''p1'', PStr ''p0'']
     [PStr ''lat: 37.4224, lng: -122.0841'', PStr ''lat: 37.4224, lng: -122.0841'', PStr ''lat: 1.5, lng: -2.25'']
     [PStr ''bakery'', PStr ''cafe'', PStr ''bar'']"
  by (rule treat_data_refines[OF wit_obs wit_cols wit_td])

theorem coords_exponent_lon_witness:
  "\<exists>a. coords_of (PArray [PStr (geo_text (Dec 5 5) (Dec 1 0))]) = Inr (a, Dec (-5) 0)"
proof -
  have n5: "nat_str 5 = ''5''" by (subst nat_str.simps) (simp add: digit_char_def)
  have "\<not> float_positional (Dec 5 5)" "dec_exp (Dec 5 5) = -5"
    by (simp_all add: float_positional_def dec_exp_def n5)
  then show ?thesis using coords_exponent_lon[of "Dec 5 5" "Dec 1 0"] by simp
qed

end
