(* ===== verification/TreatRef.thy ===== *)
theory TreatRef
  imports TreatSpec
begin

text \<open>
  Spec section 9 suggests re-implementing \<open>treat_data\<close> as three explicit stages: a grouping
  pass keyed by \<open>place_id\<close>, a first-occurrence de-duplication pass, and an explicit
  left join. \<open>treat_data_ref\<close> is that re-implementation over plain lists (sorted distinct
  keys, \<open>remdups\<close> on the reversed rows for first occurrences, \<open>map_of\<close> on the
  (key, row) pairs for the join, and the first two floats of each geometry text); on every
  observation table the pandas pipeline \<open>treat_data\<close> equals it, errors included. The theory
  also holds the boundary case of a table in which no row has a place identifier.
\<close>

definition treat_data_ref :: "frame \<Rightarrow> frame py" where
  "treat_data_ref df =
     (case (get_column df ''place_id'', get_column df ''geometry'', get_column df ''category'') of
        (Inr ks, Inr geo, Inr cats) \<Rightarrow>
          let gs = sorted_list_of_set (set (str_keys ks));
              groups = map (\<lambda>g. (rev (remdups (rev (place_rows ks geo (PStr g)))),
                                  rev (remdups (rev (place_rows ks cats (PStr g)))))) gs;
              first_row = map_of (zip ks [0..<length ks])
          in bind_res (map_res (\<lambda>(geos, _). case first_two_floats (py_str (PArray geos)) of
                                   Some p \<Rightarrow> Inr p | None \<Rightarrow> Inl (IndexError ''list index out of range'')) groups)
               (\<lambda>cs. Inr \<lparr>fr_index = range_index (length gs),
                  fr_cols = [(''place_id'', map PStr gs), (''categories'', map (\<lambda>(_, us). PArray us) groups),
                             (''lat'', map (PFloat \<circ> fst) cs), (''lon'', map (PFloat \<circ> snd) cs)]
                            @ map (\<lambda>(c, vs). (c, map (\<lambda>g. case first_row (PStr g) of Some j \<Rightarrow> vs ! j | None \<Rightarrow> PNaN) gs))
                                (filter (\<lambda>(c, _). c \<notin> set dropped_cols) (fr_cols df))\<rparr>)
      | _ \<Rightarrow> Inl (KeyError ''place_id''))"

text \<open>A one-row table whose only place identifier is missing, with a geometry that holds no number.\<close>

definition wit_nan :: frame where
  "wit_nan = \<lparr>fr_index = range_index 1,
     fr_cols = [(''index'', range_index 1), (''geometry'', [PStr ''unknown'']), (''opening_hours'', [PNaN]),
       (''place_id'', [PNaN]), (''category'', [PStr ''bar''])]\<rparr>"

lemma str_keys_filter_na: "str_keys (filter (\<lambda>k. \<not> py_isna k) ks) = str_keys ks"
  by (induction ks rule: str_keys.induct) auto

lemma sorted_str_keys: "sorted_list_of_set (set (str_keys ks)) = place_keys ks"
  by (simp add: place_keys_def str_keys_filter_na sorted_list_of_set_sort_remdups)

lemma map_of_zip_upt:
  "map_of (zip ks [m..<m + length ks]) v = map_option (\<lambda>i. m + i) (find_idx (\<lambda>x. x = v) ks)"
proof (induction ks arbitrary: m)
  case (Cons k ks)
  have "[m..<m + length (k # ks)] = m # [Suc m..<Suc m + length ks]"
    using upt_conv_Cons[of m "m + Suc (length ks)"] by simp
  with Cons[of "Suc m"] show ?case by (auto simp: option.map_comp comp_def)
qed simp

lemma map_of_first_row: "v \<in> set ks \<Longrightarrow> map_of (zip ks [0..<length ks]) v = Some (first_pos ks v)"
  using map_of_zip_upt[of ks 0 v] first_pos_in[of v ks]
  by (cases "find_idx (\<lambda>x. x = v) ks") (auto simp: first_pos_def find_idx_None)

lemma coords_of_first_two:
  "coords_of v = (case first_two_floats (py_str v) of
                    Some p \<Rightarrow> Inr p | None \<Rightarrow> Inl (IndexError ''list index out of range''))"
proof (cases "coords_of v")
  case (Inl e)
  then have "length (findall_num (py_str v)) < 2" "e = IndexError ''list index out of range''"
    by (simp_all add: coords_of_Inl)
  moreover from this(1) have "first_two_floats (py_str v) = None"
    by (auto simp: first_two_floats_def split: list.splits)
  ultimately show ?thesis using Inl by simp
next
  case (Inr p)
  then show ?thesis by (simp add: coords_first_two)
qed

lemma map_res_cong: "(\<And>x. x \<in> set xs \<Longrightarrow> f x = g x) \<Longrightarrow> map_res f xs = map_res g xs"
  by (induction xs) auto

lemma group_vals_place_rows: "length vs = length ks \<Longrightarrow> group_vals ks vs g = place_rows ks vs (PStr g)"
  by (simp add: group_vals_nth place_rows_def)

lemma map_res_map: "map_res f (map h xs) = map_res (f \<circ> h) xs"
  by (induction xs) auto

text \<open>C8: equivalence: on every observation table, the pandas pipeline \<open>treat_data\<close> and the
  three-stage list re-implementation \<open>treat_data_ref\<close> of spec section 9 give the same
  result: the same frame when one succeeds, the same exception when one raises.\<close>

theorem treat_data_ref_eq:
  assumes obs: "observation_table df"
  shows "treat_data df = treat_data_ref df"
proof -
  obtain ks geo cats where cols: "get_column df ''place_id'' = Inr ks"
    "get_column df ''geometry'' = Inr geo" "get_column df ''category'' = Inr cats"
    using observation_table_cols[OF obs] .
  have lg: "length geo = length ks" using observation_table_len[OF obs cols(1) cols(2)] .
  have lc: "length cats = length ks" using observation_table_len[OF obs cols(1) cols(3)] .
  define groups where "groups = map (\<lambda>g. (rev (remdups (rev (place_rows ks geo (PStr g)))),
                                  rev (remdups (rev (place_rows ks cats (PStr g)))))) (place_keys ks)"
  have coords: "map_res (\<lambda>(geos, _). case first_two_floats (py_str (PArray geos)) of
      Some p \<Rightarrow> Inr p | None \<Rightarrow> Inl (IndexError ''list index out of range'')) groups
      = map_res coords_of (unique_per_place ks geo)"
    unfolding groups_def unique_per_place_def map_res_map
    by (rule map_res_cong) (simp add: coords_of_first_two group_vals_place_rows lg unique_first_eq_ref unique_first_ref_def)
  have cat: "map (\<lambda>(_, us). PArray us) groups = unique_per_place ks cats"
    by (simp add: groups_def unique_per_place_def group_vals_place_rows lc unique_first_eq_ref unique_first_ref_def)
  have det: "map (\<lambda>(c, vs). (c, map (\<lambda>g. case map_of (zip ks [0..<length ks]) (PStr g) of
        Some j \<Rightarrow> vs ! j | None \<Rightarrow> PNaN) (place_keys ks))) (filter (\<lambda>(c, _). c \<notin> set dropped_cols) (fr_cols df))
      = place_columns ks (fr_cols df)"
    unfolding place_columns_def dropped_cols_def
    by (rule map_cong[OF refl]) (auto simp: map_of_first_row place_keys_in)
  have "treat_data_ref df = bind_res (map_res coords_of (unique_per_place ks geo))
                              (\<lambda>cs. Inr (treat_data_result df ks cats cs))"
    unfolding treat_data_ref_def cols sorted_str_keys Let_def sum.case prod.case
    unfolding groups_def[symmetric]
    unfolding coords cat det treat_data_result_def
    by (rule refl)
  then show ?thesis by (simp add: treat_data_eq[OF obs cols])
qed

lemma place_keys_all_na: "list_all py_isna ks \<Longrightarrow> place_keys ks = []"
proof -
  assume "list_all py_isna ks"
  then have "PStr g \<notin> set ks" for g by (auto simp: list_all_iff)
  then have "set (place_keys ks) = {}" by (simp add: place_keys_set)
  then show ?thesis by simp
qed

text \<open>C13: boundary: a table in which no row has a place identifier (in particular a table with no
  rows) gives an empty result with the output columns and no error, whatever its geometry
  texts hold: the rows without a key are dropped by the grouping before any text is parsed.\<close>

theorem treat_data_no_places:
  assumes obs: "observation_table df" and ks: "get_column df ''place_id'' = Inr ks" "list_all py_isna ks"
  shows "\<exists>out. treat_data df = Inr out \<and> nrows out = 0 \<and> wf_frame out
           \<and> col_names out = [''place_id'', ''categories'', ''lat'', ''lon''] @
               filter (\<lambda>c. c \<notin> set dropped_cols) (col_names df)"
proof -
  obtain ks' geo cats where cols: "get_column df ''place_id'' = Inr ks'"
    "get_column df ''geometry'' = Inr geo" "get_column df ''category'' = Inr cats"
    using observation_table_cols[OF obs] .
  have k: "ks' = ks" using cols(1) ks(1) by simp
  note o = observation_table_D[OF obs cols]
  have none: "place_keys ks = []" using ks(2) by (rule place_keys_all_na)
  have "treat_data df = Inr (treat_data_result df ks cats [])"
    using treat_data_eq[OF obs cols] by (simp add: k unique_per_place_def none)
  moreover have "nrows (treat_data_result df ks cats []) = 0"
    by (simp add: treat_data_result_def nrows_def none range_index_def)
  moreover have "wf_frame (treat_data_result df ks cats [])"
    using treat_data_result_wf[OF o(1) _ o(7)] by (simp add: none)
  ultimately show ?thesis using treat_data_result_cols(5)[OF o(7)] by (simp add: dropped_cols_def)
qed

lemma wit_nan_obs: "observation_table wit_nan"
  by (simp add: observation_table_def wit_nan_def get_column_def col_names_def wf_frame_def nrows_def
      keyed_vals_def range_index_def)

lemma wit_nan_col: "get_column wit_nan ''place_id'' = Inr [PNaN]"
  by (simp add: wit_nan_def get_column_def)

theorem treat_data_no_places_witness:
  "\<exists>out. treat_data wit_nan = Inr out \<and> nrows out = 0 \<and> wf_frame out
     \<and> col_names out = [''place_id'', ''categories'', ''lat'', ''lon'']"
  using treat_data_no_places[OF wit_nan_obs wit_nan_col] by (simp add: wit_nan_def col_names_def dropped_cols_def)

theorem treat_data_ref_eq_witness:
  "observation_table wit_frame \<and> treat_data_ref wit_frame = Inr wit_out"
  using treat_data_ref_eq[OF wit_obs] wit_obs wit_td by simp

end
