(* ===== verification/Pipeline.thy ===== *)
theory Pipeline
  imports TreatRef
begin

text \<open>
  The data flow of spec section 2, which the repository leaves to its caller: the
  observations of the API results are accumulated (\<open>accumulate\<close>), assembled by
  \<open>create_dataframe\<close>, given the positional \<open>index\<close> column by the caller's
  \<open>reset_index()\<close> (\<open>assemble\<close>), and reshaped by \<open>treat_data\<close> (\<open>enrich\<close>). The
  composition is modelled from the spec, since the code that performs it is not in the
  repository.
\<close>

text \<open>What an observation must hold for the engine: a string identifier or a missing one,
  and, when it has an identifier, hashable geometry and category values.\<close>

definition obs_ok :: "observation \<Rightarrow> bool" where
  "obs_ok ob \<longleftrightarrow> py_isna (ob_place_id ob)
     \<or> (is_pstr (ob_place_id ob) \<and> py_hashable (ob_geometry ob) \<and> py_hashable (ob_category ob))"

definition assemble :: "observation list \<Rightarrow> frame py" where
  "assemble obs = bind_res (create_dataframe establishments_features_labels (accumulate obs)) (reset_index ''index'')"

definition enrich :: "observation list \<Rightarrow> frame py" where
  "enrich obs = bind_res (assemble obs) treat_data"

text \<open>Two observations of one bakery, found under the keywords \<open>bakery\<close> and \<open>cafe\<close>.\<close>

definition wit_pipe :: "observation list" where
  "wit_pipe = [example_obs, example_obs\<lparr>ob_category := PStr ''cafe''\<rparr>]"

section \<open>The assembled table\<close>

lemma accumulate_cols:
  "map_of (zip establishments_features_labels (accumulate obs)) ''place_id'' = Some (map ob_place_id obs)"
  "map_of (zip establishments_features_labels (accumulate obs)) ''geometry'' = Some (map ob_geometry obs)"
  "map_of (zip establishments_features_labels (accumulate obs)) ''category'' = Some (map ob_category obs)"
  by (simp_all add: establishments_features_labels_def accumulate_eq obs_values_def upt_conv_Cons)

lemma keyed_vals_map:
  "keyed_vals (map f obs) (map g obs) = map g (filter (\<lambda>ob. \<not> py_isna (f ob)) obs)"
  by (induction obs) (auto simp: keyed_vals_def)

lemma assemble_eq:
  "\<exists>n. assemble obs = Inr \<lparr>fr_index = range_index n,
         fr_cols = (''index'', range_index n) # zip establishments_features_labels (accumulate obs)\<rparr>
       \<and> n = length obs"
proof -
  have "length (accumulate obs) \<le> length establishments_features_labels"
    by (simp add: establishments_features_labels_def)
  from create_dataframe_eq_cd_state[OF distinct_features_labels this, of "length obs"]
  have cd: "create_dataframe establishments_features_labels (accumulate obs) =
      Inr (cd_state establishments_features_labels (accumulate obs) (length obs) 11)"
    "fr_cols (cd_state establishments_features_labels (accumulate obs) (length obs) 11) =
      zip establishments_features_labels (accumulate obs)"
    using aligned_accumulate[of obs] by auto
  have "''index'' \<notin> set (col_names (cd_state establishments_features_labels (accumulate obs) (length obs) 11))"
    using cd(2) by (simp add: col_names_def establishments_features_labels_def)
  moreover have "fr_index (cd_state establishments_features_labels (accumulate obs) (length obs) 11) =
      range_index (length obs)" by (simp add: cd_state_def range_index_def)
  ultimately show ?thesis
    by (simp add: assemble_def cd reset_index_def nrows_def)
qed

lemma assembled_cols:
  fixes n obs
  defines "df \<equiv> \<lparr>fr_index = range_index n,
         fr_cols = (''index'', range_index n) # zip establishments_features_labels (accumulate obs)\<rparr>"
  shows "get_column df ''place_id'' = Inr (map ob_place_id obs)"
    "get_column df ''geometry'' = Inr (map ob_geometry obs)"
    "get_column df ''category'' = Inr (map ob_category obs)"
    "col_names df = ''index'' # establishments_features_labels"
proof -
  have "length establishments_features_labels = length (accumulate obs)"
    by (simp add: establishments_features_labels_def)
  then show "col_names df = ''index'' # establishments_features_labels"
    by (simp add: df_def col_names_def)
qed (simp_all add: df_def get_column_def accumulate_cols)

lemma assembled_wf:
  "wf_frame \<lparr>fr_index = range_index (length obs),
      fr_cols = (''index'', range_index (length obs)) # zip establishments_features_labels (accumulate obs)\<rparr>"
  using aligned_accumulate[of obs]
  by (auto simp: wf_frame_def nrows_def col_names_def establishments_features_labels_def set_zip)

lemma assembled_observation_table:
  assumes ok: "list_all obs_ok obs"
  shows "observation_table \<lparr>fr_index = range_index (length obs),
      fr_cols = (''index'', range_index (length obs)) # zip establishments_features_labels (accumulate obs)\<rparr>"
proof -
  note c = assembled_cols[of "length obs" obs]
  have keys: "list_all (\<lambda>k. py_isna k \<or> is_pstr k) (map ob_place_id obs)"
    using ok by (auto simp: list_all_iff obs_ok_def)
  have hash: "list_all py_hashable (keyed_vals (map ob_place_id obs) (map ob_geometry obs))"
    "list_all py_hashable (keyed_vals (map ob_place_id obs) (map ob_category obs))"
    using ok by (auto simp: keyed_vals_map list_all_iff obs_ok_def)
  show ?thesis
    unfolding observation_table_def
    using assembled_wf[of obs] keys hash c by (simp add: establishments_features_labels_def)
qed

lemma assemble_ok:
  assumes "list_all obs_ok obs"
  obtains df where "assemble obs = Inr df" "observation_table df"
    "get_column df ''place_id'' = Inr (map ob_place_id obs)"
    "get_column df ''geometry'' = Inr (map ob_geometry obs)"
    "get_column df ''category'' = Inr (map ob_category obs)"
  using assemble_eq[of obs] assembled_cols[of "length obs" obs] assembled_observation_table[OF assms]
  by auto

lemma set_place_rows_obs:
  "set (place_rows (map ob_place_id obs) (map f obs) p) = {f ob |ob. ob \<in> set obs \<and> ob_place_id ob = p}"
  by (auto simp: set_place_rows in_set_conv_nth) (metis nth_map)

text \<open>C11: composition: the table that the caller assembles from accumulated observations
  (\<open>create_dataframe\<close>, then \<open>reset_index()\<close>) meets the input contract of \<open>treat_data\<close>
  whenever every observation has a string or missing identifier and hashable values:
  its key, geometry and category columns are the observations' fields in order.\<close>

theorem assemble_observation_table:
  assumes ok: "list_all obs_ok obs"
  shows "\<exists>df. assemble obs = Inr df \<and> observation_table df
           \<and> get_column df ''place_id'' = Inr (map ob_place_id obs)
           \<and> get_column df ''geometry'' = Inr (map ob_geometry obs)
           \<and> get_column df ''category'' = Inr (map ob_category obs)"
  using assemble_ok[OF ok] by blast

text \<open>C9: end to end: when the pipeline from the accumulated observations to the reshaped table
  succeeds, it has one row per distinct identifier among the observations, sorted, and the
  categories of a place are exactly the categories it was found under, each once
  (spec section 8, over the observations themselves).\<close>

theorem enrich_places:
  assumes ok: "list_all obs_ok obs" and out: "enrich obs = Inr out"
  shows "\<exists>pids cs. get_column out ''place_id'' = Inr (map PStr pids) \<and> sorted pids \<and> distinct pids
           \<and> set pids = {s. \<exists>ob \<in> set obs. ob_place_id ob = PStr s}
           \<and> get_column out ''categories'' = Inr cs \<and> length cs = length pids
           \<and> (\<forall>i < length pids. \<exists>us. cs ! i = PArray us \<and> distinct us
                 \<and> set us = {ob_category ob |ob. ob \<in> set obs \<and> ob_place_id ob = PStr (pids ! i)})"
proof -
  obtain df where df: "assemble obs = Inr df" "observation_table df"
    "get_column df ''place_id'' = Inr (map ob_place_id obs)"
    "get_column df ''geometry'' = Inr (map ob_geometry obs)"
    "get_column df ''category'' = Inr (map ob_category obs)"
    using assemble_ok[OF ok] .
  let ?ks = "map ob_place_id obs" and ?cats = "map ob_category obs"
  have td: "treat_data df = Inr out" using out df(1) by (simp add: enrich_def)
  from treat_data_Inr[OF df(2-5) td] obtain cs where
    r: "out = treat_data_result df ?ks ?cats cs" by blast
  note cols = treat_data_result_cols[OF observation_table_D(7)[OF df(2-5)], of ?ks ?cats cs]
  have cat: "\<exists>us. unique_per_place ?ks ?cats ! i = PArray us \<and> distinct us
      \<and> set us = {ob_category ob |ob. ob \<in> set obs \<and> ob_place_id ob = PStr (place_keys ?ks ! i)}"
    if "i < length (place_keys ?ks)" for i
    using unique_per_place_nth[of ?cats ?ks i] that by (simp add: set_place_rows_obs)
  have "set (place_keys ?ks) = {s. \<exists>ob \<in> set obs. ob_place_id ob = PStr s}"
    by (auto simp: place_keys_set rev_image_eqI)
  then show ?thesis
    using cols(1,2) cat place_keys_distinct_sorted[of ?ks] unfolding r
    by (intro exI[of _ "place_keys ?ks"] exI[of _ "unique_per_place ?ks ?cats"])
       (simp add: unique_per_place_def)
qed

lemma filter_upt_map:
  "map (\<lambda>j. g (xs ! j)) (filter (\<lambda>j. P (xs ! j)) [0..<length xs]) = map g (filter P xs)"
proof (induction xs rule: rev_induct)
  case (snoc x xs)
  have "filter (\<lambda>j. P ((xs @ [x]) ! j)) [0..<length xs] = filter (\<lambda>j. P (xs ! j)) [0..<length xs]"
    by (rule filter_cong) (simp_all add: nth_append)
  moreover have "map (\<lambda>j. g ((xs @ [x]) ! j)) (filter (\<lambda>j. P (xs ! j)) [0..<length xs]) =
      map (\<lambda>j. g (xs ! j)) (filter (\<lambda>j. P (xs ! j)) [0..<length xs])"
    by (rule map_cong) (simp_all add: nth_append)
  ultimately show ?case using snoc by simp
qed simp

lemma place_rows_obs:
  "place_rows (map ob_place_id obs) (map f obs) p = map f (filter (\<lambda>ob. ob_place_id ob = p) obs)"
proof -
  have "map ((!) (map f obs)) (filter (\<lambda>j. map ob_place_id obs ! j = p) [0..<length obs]) =
      map (\<lambda>j. f (obs ! j)) (filter (\<lambda>j. ob_place_id (obs ! j) = p) [0..<length obs])"
    by (intro map_cong filter_cong) auto
  then show ?thesis using filter_upt_map[of f obs "\<lambda>ob. ob_place_id ob = p"] by (simp add: place_rows_def)
qed

text \<open>C10: liveness of the pipeline: on observations with string or missing identifiers and
  hashable values, assembling and reshaping succeeds exactly when, for every place, the
  text of the array of its distinct geometries holds at least two numbers.\<close>

theorem enrich_succeeds:
  assumes ok: "list_all obs_ok obs"
  shows "(\<exists>out. enrich obs = Inr out) \<longleftrightarrow>
           (\<forall>g. PStr g \<in> ob_place_id ` set obs \<longrightarrow>
              2 \<le> length (findall_num (py_str (PArray (unique_first
                     (map ob_geometry (filter (\<lambda>ob. ob_place_id ob = PStr g) obs)))))))"
proof -
  obtain df where df: "assemble obs = Inr df" "observation_table df"
    "get_column df ''place_id'' = Inr (map ob_place_id obs)"
    "get_column df ''geometry'' = Inr (map ob_geometry obs)"
    "get_column df ''category'' = Inr (map ob_category obs)"
    using assemble_ok[OF ok] .
  let ?m = "map_res coords_of (unique_per_place (map ob_place_id obs) (map ob_geometry obs))"
  have "(\<exists>out. enrich obs = Inr out) \<longleftrightarrow> \<not> (\<exists>e. ?m = Inl e)"
    using treat_data_eq[OF df(2-5)] df(1) by (cases ?m) (simp_all add: enrich_def)
  also have "\<dots> \<longleftrightarrow> \<not> (\<exists>g. PStr g \<in> set (map ob_place_id obs) \<and>
      length (findall_num (py_str (PArray (unique_first (place_rows (map ob_place_id obs) (map ob_geometry obs) (PStr g)))))) < 2)"
    using coords_loop_Inl[of "map ob_geometry obs" "map ob_place_id obs"] by auto
  finally show ?thesis by (auto simp: place_rows_obs not_less)
qed

section \<open>The engine applied to its own output\<close>

lemma treat_data_no_geometry:
  assumes "''place_id'' \<in> set (col_names df)" "''geometry'' \<notin> set (col_names df)"
  shows "treat_data df = Inl (KeyError ''geometry'')"
proof -
  obtain ks where "get_column df ''place_id'' = Inr ks" using get_column_exists[OF assms(1)] by blast
  moreover have "get_column df ''geometry'' = Inl (KeyError ''geometry'')"
    using assms(2) by (simp add: get_column_Inl)
  ultimately show ?thesis
    by (simp add: treat_data_def estab_categories_def groupby_unique_def)
qed

text \<open>C18: the engine is not idempotent: its output lacks the \<open>geometry\<close> column, so
  reshaping the reshaped table again raises \<open>KeyError\<close> (spec section 8 asks for
  identical output when the engine runs twice).\<close>

theorem treat_data_twice:
  assumes obs: "observation_table df" and td: "treat_data df = Inr out"
  shows "treat_data out = Inl (KeyError ''geometry'')"
proof -
  obtain ks geo cats where c: "get_column df ''place_id'' = Inr ks"
    "get_column df ''geometry'' = Inr geo" "get_column df ''category'' = Inr cats"
    using observation_table_cols[OF obs] .
  from treat_data_Inr[OF obs c td] obtain cs where r: "out = treat_data_result df ks cats cs" by blast
  have "col_names out = [''place_id'', ''categories'', ''lat'', ''lon''] @
       filter (\<lambda>c. c \<notin> set [''place_id'', ''geometry'', ''opening_hours'', ''category'', ''index'']) (col_names df)"
    using treat_data_result_cols(5)[OF observation_table_D(7)[OF obs c]] r by simp
  then show ?thesis by (intro treat_data_no_geometry) simp_all
qed

section \<open>Witnesses\<close>

lemma wit_pipe_ok: "list_all obs_ok wit_pipe"
  by (simp add: wit_pipe_def obs_ok_def example_obs_def)

lemma wit_pipe_enrich: "\<exists>out. enrich wit_pipe = Inr out"
proof -
  obtain df where df: "assemble wit_pipe = Inr df" "observation_table df"
    "get_column df ''place_id'' = Inr (map ob_place_id wit_pipe)"
    "get_column df ''geometry'' = Inr (map ob_geometry wit_pipe)"
    "get_column df ''category'' = Inr (map ob_category wit_pipe)"
    using assemble_ok[OF wit_pipe_ok] .
  define geo where "geo = PStr ''{'location': {'lat': 37.4224, 'lng': -122.0841}}''"
  have u: "unique_per_place (map ob_place_id wit_pipe) (map ob_geometry wit_pipe) = [PArray [geo]]"
    by (simp add: unique_per_place_def place_keys_def group_vals_def unique_first_def wit_pipe_def
        example_obs_def geo_def)
  have "coords_of (PArray [geo]) = Inr (Dec 374224 4, Dec (-1220841) 4)"
    by (simp add: geo_def coords_eval)
  then have "map_res coords_of (unique_per_place (map ob_place_id wit_pipe) (map ob_geometry wit_pipe)) =
      Inr [(Dec 374224 4, Dec (-1220841) 4)]" by (simp add: u)
  then show ?thesis using treat_data_eq[OF df(2-5)] df(1) by (simp add: enrich_def)
qed

theorem assemble_observation_table_witness:
  "\<exists>df. assemble wit_pipe = Inr df \<and> observation_table df
     \<and> get_column df ''place_id'' = Inr (map ob_place_id wit_pipe)
     \<and> get_column df ''geometry'' = Inr (map ob_geometry wit_pipe)
     \<and> get_column df ''category'' = Inr (map ob_category wit_pipe)"
  by (rule assemble_observation_table[OF wit_pipe_ok])

theorem enrich_places_witness:
  "\<exists>out. enrich wit_pipe = Inr out \<and>
     (\<exists>pids cs. get_column out ''place_id'' = Inr (map PStr pids) \<and> sorted pids \<and> distinct pids
       \<and> set pids = {s. \<exists>ob \<in> set wit_pipe. ob_place_id ob = PStr s}
       \<and> get_column out ''categories'' = Inr cs \<and> length cs = length pids
       \<and> (\<forall>i < length pids. \<exists>us. cs ! i = PArray us \<and> distinct us
             \<and> set us = {ob_category ob |ob. ob \<in> set wit_pipe \<and> ob_place_id ob = PStr (pids ! i)}))"
  using wit_pipe_enrich enrich_places[OF wit_pipe_ok] by blast

theorem enrich_succeeds_witness: "\<exists>out. enrich wit_pipe = Inr out"
  using wit_pipe_enrich enrich_succeeds[OF wit_pipe_ok] by blast

theorem treat_data_twice_witness: "treat_data wit_out = Inl (KeyError ''geometry'')"
  by (rule treat_data_twice[OF wit_obs wit_td])

end
