(* ===== verification/Request.thy ===== *)
theory Request
  imports PyValue Frame
begin

text \<open>
  The I/O glue of \<open>src/src/utils.py\<close>: \<open>read_file\<close> (lines 8-39), \<open>create_url\<close>
  (lines 90-118) and \<open>make_request\<close> (lines 120-143). The outside world enters as
  parameters: \<open>pd.read_csv\<close>, \<open>requests.get\<close> and \<open>json.loads\<close> are functions
  returning a result or the exception they raise, and the process environment read by
  \<open>os.getenv\<close> is a partial map. The constants of \<open>config.py\<close>, which the repository does
  not contain, are a record. \<open>'{:s}'.format(x)\<close> is modelled exactly: it raises
  \<open>TypeError\<close> unless \<open>x\<close> is a string.
\<close>

section \<open>read_file\<close>

text \<open>What \<open>read_file\<close> returns: the table, or the message string of its bare \<open>except\<close>.\<close>

datatype read_result = Table frame | Message string

definition read_file ::
  "(string \<Rightarrow> string \<Rightarrow> frame py) \<Rightarrow> string \<Rightarrow> string \<Rightarrow> string \<Rightarrow> read_result" where
  "read_file read_csv name path_file sep =
     (case read_csv path_file sep of
        Inl _ \<Rightarrow> Message (''[ERROR] '' @ name @ '' file not found.'')
      | Inr df \<Rightarrow> Table df)"

section \<open>create_url\<close>

record config =
  GOOGLE_MAPS_API :: string
  API :: string
  SEARCH_COMPONENT :: string
  OUTPUT_TYPE :: string
  RADIUS :: pyval

text \<open>\<open>'{:s}'.format(x)\<close>: only a string has the format \<open>s\<close>. Numbers reject the format
  code with \<open>ValueError\<close> (its message is written here without Python's quotes); objects
  without a \<open>__format__\<close> of their own (\<open>None\<close>, lists, dicts, arrays) reject a non-empty
  format string with \<open>TypeError\<close>.\<close>

fun format_s :: "pyval \<Rightarrow> string py" where
  "format_s (PStr s) = Inr s"
| "format_s (PBool b) = Inl (ValueError ''Unknown format code s for object of type bool'')"
| "format_s (PInt i) = Inl (ValueError ''Unknown format code s for object of type int'')"
| "format_s (PFloat d) = Inl (ValueError ''Unknown format code s for object of type float'')"
| "format_s PNaN = Inl (ValueError ''Unknown format code s for object of type float'')"
| "format_s v = Inl (TypeError ''unsupported format string passed to __format__'')"

text \<open>\<open>os.getenv(name)\<close>: \<open>None\<close> when the variable is unset.\<close>

definition getenv :: "(string \<Rightarrow> string option) \<Rightarrow> string \<Rightarrow> pyval" where
  "getenv env name = (case env name of None \<Rightarrow> PNone | Some v \<Rightarrow> PStr v)"

definition create_url ::
  "config \<Rightarrow> (string \<Rightarrow> string option) \<Rightarrow> pyval \<Rightarrow> pyval \<Rightarrow> pyval \<Rightarrow> string py" where
  "create_url cfg env lat lon cat =
     bind_res (format_s (PStr (py_str lat))) (\<lambda>la.
     bind_res (format_s (PStr (py_str lon))) (\<lambda>lo.
     bind_res (format_s (PStr (py_str (RADIUS cfg)))) (\<lambda>r.
     bind_res (format_s cat) (\<lambda>c.
     bind_res (format_s (getenv env ''KEY'')) (\<lambda>k.
       let location = ''&location='' @ la @ '','' @ lo;
           radius = ''&radius='' @ r;
           establishment_keyword = ''&keyword='' @ c;
           api_key = ''&key='' @ k
       in Inr (GOOGLE_MAPS_API cfg @ API cfg @ SEARCH_COMPONENT cfg @ OUTPUT_TYPE cfg
               @ api_key @ location @ radius @ establishment_keyword))))))"

section \<open>make_request\<close>

text \<open>\<open>requests.get(url, params=params)\<close> returns the body or raises (a transport error);
  \<open>json.loads\<close> decodes it or raises \<open>JSONDecodeError\<close>. Nothing is caught.\<close>

definition make_request ::
  "(string \<Rightarrow> (string \<times> string) list \<Rightarrow> string py) \<Rightarrow> (string \<Rightarrow> pyval py) \<Rightarrow>
   string \<Rightarrow> (string \<times> string) list \<Rightarrow> pyval py" where
  "make_request get json_loads url params =
     bind_res (get url params) (\<lambda>content. json_loads content)"

section \<open>Reading a URL's query string back\<close>

text \<open>Splitting at a separator, and the \<open>name=value\<close> pairs after the first \<open>&\<close>.\<close>

fun split_on :: "char \<Rightarrow> string \<Rightarrow> string list" where
  "split_on c [] = [[]]"
| "split_on c (x # xs) =
     (if x = c then [] # split_on c xs
      else (case split_on c xs of w # ws \<Rightarrow> (x # w) # ws | [] \<Rightarrow> [[x]]))"

definition url_params :: "string \<Rightarrow> (string \<times> string) list" where
  "url_params u =
     map (\<lambda>s. (takeWhile (\<lambda>x. x \<noteq> CHR ''='') s, drop 1 (dropWhile (\<lambda>x. x \<noteq> CHR ''='') s)))
       (tl (split_on CHR ''&'' u))"

definition url_base :: "config \<Rightarrow> string" where
  "url_base cfg = GOOGLE_MAPS_API cfg @ API cfg @ SEARCH_COMPONENT cfg @ OUTPUT_TYPE cfg"

text \<open>A configuration of the shape \<open>config.py\<close> has, and an environment holding a key.\<close>

definition example_config :: config where
  "example_config = \<lparr>GOOGLE_MAPS_API = ''https://maps.googleapis.com/maps/api/'', API = ''place/'',
     SEARCH_COMPONENT = ''nearbysearch/'', OUTPUT_TYPE = ''json?'', RADIUS = PInt 1000\<rparr>"

definition example_env :: "string \<Rightarrow> string option" where
  "example_env = (\<lambda>v. if v = ''KEY'' then Some ''k3y'' else None)"

section \<open>Lemmas\<close>

lemma split_on_free: "c \<notin> set xs \<Longrightarrow> split_on c xs = [xs]"
  by (induction xs) auto

lemma split_on_nonempty: "split_on c xs \<noteq> []"
  by (induction xs) (auto split: list.splits)

lemma split_on_prefix:
  "c \<notin> set xs \<Longrightarrow> split_on c (xs @ ys) = (case split_on c ys of w # ws \<Rightarrow> (xs @ w) # ws | [] \<Rightarrow> [xs])"
  by (induction xs) (auto simp: split_on_nonempty split: list.splits)

lemma create_url_eq:
  assumes "env ''KEY'' = Some k"
  shows "create_url cfg env lat lon (PStr c) =
           Inr (url_base cfg @ ''&key='' @ k @ ''&location='' @ py_str lat @ '','' @ py_str lon
                @ ''&radius='' @ py_str (RADIUS cfg) @ ''&keyword='' @ c)"
  using assms by (simp add: create_url_def getenv_def url_base_def Let_def)

lemma split_on_url:
  assumes "CHR ''&'' \<notin> set b" "CHR ''&'' \<notin> set k" "CHR ''&'' \<notin> set la" "CHR ''&'' \<notin> set lo"
    "CHR ''&'' \<notin> set r" "CHR ''&'' \<notin> set c"
  shows "split_on CHR ''&'' (b @ ''&key='' @ k @ ''&location='' @ la @ '','' @ lo @ ''&radius='' @ r @ ''&keyword='' @ c)
         = [b, ''key='' @ k, ''location='' @ la @ '','' @ lo, ''radius='' @ r, ''keyword='' @ c]"
  using assms by (simp add: split_on_prefix split_on_free)

lemma float_repr_1_0: "float_repr (Dec 1 0) = ''1.0''"
  by (simp add: float_repr_def nat_str.simps digit_char_def Let_def)

lemma float_repr_2_0: "float_repr (Dec 2 0) = ''2.0''"
  by (simp add: float_repr_def nat_str.simps digit_char_def Let_def)

text \<open>C19: round trip of the URL: when none of its parts contains \<open>&\<close>, the query string of the
  URL that \<open>create_url\<close> builds reads back as exactly the key, the location \<open>lat,lon\<close>, the
  radius and the keyword, in that order.\<close>

theorem create_url_roundtrip:
  assumes "env ''KEY'' = Some k" "CHR ''&'' \<notin> set (url_base cfg)" "CHR ''&'' \<notin> set k"
    "CHR ''&'' \<notin> set (py_str lat)" "CHR ''&'' \<notin> set (py_str lon)" "CHR ''&'' \<notin> set (py_str (RADIUS cfg))"
    "CHR ''&'' \<notin> set c"
  shows "\<exists>u. create_url cfg env lat lon (PStr c) = Inr u \<and>
           url_params u = [(''key'', k), (''location'', py_str lat @ '','' @ py_str lon),
                           (''radius'', py_str (RADIUS cfg)), (''keyword'', c)]"
  using split_on_url[OF assms(2-7)] by (simp add: create_url_eq[of env k, OF assms(1)] url_params_def)

text \<open>C20: the spec's URL example: for \<open>lat = 1.0\<close>, \<open>lon = 2.0\<close> and \<open>cat = "bar"\<close>, the URL
  contains \<open>location=1.0,2.0\<close>, \<open>radius=<RADIUS>\<close>, \<open>keyword=bar\<close> and the key from the
  environment.\<close>

theorem create_url_spec_example:
  assumes "env ''KEY'' = Some k"
  shows "\<exists>u. create_url cfg env (PFloat (Dec 1 0)) (PFloat (Dec 2 0)) (PStr ''bar'') = Inr u
           \<and> sublist ''location=1.0,2.0'' u \<and> sublist (''radius='' @ py_str (RADIUS cfg)) u
           \<and> sublist ''keyword=bar'' u \<and> sublist k u"
proof -
  let ?u = "url_base cfg @ ''&key='' @ k @ ''&location=1.0,2.0&radius='' @ py_str (RADIUS cfg) @ ''&keyword=bar''"
  have u: "create_url cfg env (PFloat (Dec 1 0)) (PFloat (Dec 2 0)) (PStr ''bar'') = Inr ?u"
    by (simp add: create_url_eq[of env k, OF assms] float_repr_1_0 float_repr_2_0)
  have "sublist ''location=1.0,2.0'' ?u"
    using sublist_appendI[of "''location=1.0,2.0''" "url_base cfg @ ''&key='' @ k @ ''&''"
        "''&radius='' @ py_str (RADIUS cfg) @ ''&keyword=bar''"] by simp
  moreover have "sublist (''radius='' @ py_str (RADIUS cfg)) ?u"
    using sublist_appendI[of "''radius='' @ py_str (RADIUS cfg)" "url_base cfg @ ''&key='' @ k @ ''&location=1.0,2.0&''"
        "''&keyword=bar''"] by simp
  moreover have "sublist ''keyword=bar'' ?u"
    using sublist_append_leftI[of "''keyword=bar''"
        "url_base cfg @ ''&key='' @ k @ ''&location=1.0,2.0&radius='' @ py_str (RADIUS cfg) @ ''&''"] by simp
  moreover have "sublist k ?u"
    using sublist_appendI[of k "url_base cfg @ ''&key=''"
        "''&location=1.0,2.0&radius='' @ py_str (RADIUS cfg) @ ''&keyword=bar''"] by simp
  ultimately show ?thesis using u by blast
qed

text \<open>C21: with \<open>KEY\<close> unset, \<open>os.getenv\<close> gives \<open>None\<close> and \<open>create_url\<close> raises
  \<open>TypeError\<close> from \<open>'{:s}'.format(None)\<close>: the URL is never built.\<close>

theorem create_url_no_key:
  assumes "env ''KEY'' = None"
  shows "create_url cfg env lat lon (PStr c) = Inl (TypeError ''unsupported format string passed to __format__'')"
  using assms by (simp add: create_url_def getenv_def)

lemma split_on_url_amp:
  assumes "CHR ''&'' \<notin> set b" "CHR ''&'' \<notin> set k" "CHR ''&'' \<notin> set la" "CHR ''&'' \<notin> set lo"
    "CHR ''&'' \<notin> set r" "CHR ''&'' \<notin> set c"
  shows "split_on CHR ''&'' (b @ ''&key='' @ k @ ''&location='' @ la @ '','' @ lo @ ''&radius='' @ r @ ''&keyword='' @ c
           @ CHR ''&'' # c')
         = [b, ''key='' @ k, ''location='' @ la @ '','' @ lo, ''radius='' @ r, ''keyword='' @ c] @ split_on CHR ''&'' c'"
  using assms by (simp add: split_on_prefix split_on_nonempty split: list.splits)

text \<open>C22: the category is concatenated unescaped (spec section 4.2): for every category
  \<open>c @ ''&'' @ c'\<close>, the URL's query ends with the keyword \<open>c\<close> followed by every
  \<open>name=value\<close> piece of \<open>c'\<close> as parameters of their own, which can repeat or override
  the key, location and radius.\<close>

theorem create_url_keyword_injection:
  assumes "env ''KEY'' = Some k" "CHR ''&'' \<notin> set (url_base cfg)" "CHR ''&'' \<notin> set k"
    "CHR ''&'' \<notin> set (py_str lat)" "CHR ''&'' \<notin> set (py_str lon)" "CHR ''&'' \<notin> set (py_str (RADIUS cfg))"
    "CHR ''&'' \<notin> set c"
  shows "\<exists>u. create_url cfg env lat lon (PStr (c @ CHR ''&'' # c')) = Inr u \<and>
           url_params u = [(''key'', k), (''location'', py_str lat @ '','' @ py_str lon),
                           (''radius'', py_str (RADIUS cfg)), (''keyword'', c)] @ url_params (CHR ''&'' # c')"
  using split_on_url_amp[OF assms(2-7), of c']
  by (simp add: create_url_eq[of env k, OF assms(1)] url_params_def)

text \<open>C23: \<open>read_file\<close> never raises: it returns the table exactly when \<open>read_csv\<close> succeeds,
  and otherwise a message that names the file and starts with \<open>[ERROR]\<close>.\<close>

theorem read_file_contract:
  "(read_file read_csv name p sep = Table df \<longleftrightarrow> read_csv p sep = Inr df) \<and>
   ((\<exists>e. read_csv p sep = Inl e) \<longrightarrow>
      (\<exists>m. read_file read_csv name p sep = Message m \<and> prefix ''[ERROR]'' m \<and> sublist name m))"
  using sublist_appendI[of name "''[ERROR] ''" "'' file not found.''"]
  by (cases "read_csv p sep") (auto simp: read_file_def)

theorem create_url_roundtrip_witness:
  "\<exists>u. create_url example_config example_env (PFloat (Dec 1 0)) (PFloat (Dec 2 0)) (PStr ''bar'') = Inr u \<and>
     url_params u = [(''key'', ''k3y''), (''location'', ''1.0,2.0''), (''radius'', ''1000''), (''keyword'', ''bar'')]"
  using create_url_roundtrip[of example_env "''k3y''" example_config "PFloat (Dec 1 0)" "PFloat (Dec 2 0)" "''bar''"]
  by (simp add: example_config_def example_env_def url_base_def float_repr_1_0 float_repr_2_0 int_str_def
      nat_str.simps digit_char_def)

theorem create_url_spec_example_witness:
  "\<exists>u. create_url example_config example_env (PFloat (Dec 1 0)) (PFloat (Dec 2 0)) (PStr ''bar'') = Inr u
     \<and> sublist ''location=1.0,2.0'' u \<and> sublist ''radius=1000'' u \<and> sublist ''keyword=bar'' u \<and> sublist ''k3y'' u"
  using create_url_spec_example[of example_env "''k3y''" example_config]
  by (simp add: example_config_def example_env_def int_str_def nat_str.simps digit_char_def)

theorem create_url_no_key_witness:
  "create_url example_config Map.empty (PFloat (Dec 1 0)) (PFloat (Dec 2 0)) (PStr ''bar'')
     = Inl (TypeError ''unsupported format string passed to __format__'')"
  using create_url_no_key[of Map.empty] by simp

theorem read_file_contract_witness:
  "\<exists>m. read_file (\<lambda>p s. Inl (Unmodelled ''FileNotFoundError'')) ''stores'' ''stores.csv'' '';'' = Message m
     \<and> prefix ''[ERROR]'' m \<and> sublist ''stores'' m"
  using read_file_contract[of "\<lambda>p s. Inl (Unmodelled ''FileNotFoundError'')" "''stores''" "''stores.csv''" "'';''"]
  by auto

theorem create_url_keyword_injection_witness:
  "\<exists>u. create_url example_config example_env (PFloat (Dec 1 0)) (PFloat (Dec 2 0)) (PStr ''bar&radius=50000'') = Inr u
     \<and> url_params u = [(''key'', ''k3y''), (''location'', ''1.0,2.0''), (''radius'', ''1000''),
                       (''keyword'', ''bar''), (''radius'', ''50000'')]"
proof -
  have "py_str (RADIUS example_config) = ''1000''"
    by (simp add: example_config_def int_str_def nat_str.simps digit_char_def)
  moreover have "url_params ''&radius=50000'' = [(''radius'', ''50000'')]"
    by (simp add: url_params_def)
  ultimately show ?thesis
    using create_url_keyword_injection[of example_env "''k3y''" example_config "PFloat (Dec 1 0)" "PFloat (Dec 2 0)"
        "''bar''" "''radius=50000''"]
    by (simp add: example_env_def example_config_def url_base_def float_repr_1_0 float_repr_2_0)
qed

end
