(* ===== verification/Spec2Isabelle.thy ===== *)
theory Spec2Isabelle
  imports Pipeline Request
begin

text \<open>
  \<^bold>\<open>A verification library for google_places_categorizer.\<close>

  The repository has one implementation file, \<open>src/src/utils.py\<close>: the helpers of a
  pipeline that enriches a table of establishments with the results of the Google Places
  \<open>nearbysearch\<close> API. Data flows from the reader and the request builder, through the
  field accumulator and the table assembler, into the reshaping engine \<open>treat_data\<close>.

  \<^bold>\<open>Theories and what they model.\<close>
  \<^item> \<open>Prelude\<close>: the result type \<open>py_exc + 'a\<close> (\<open>Inl\<close> is a raised exception) with
    \<open>bind_res\<close> and the fallible loop \<open>map_res\<close>; \<open>unique_first\<close> (first-occurrence
    de-duplication, implemented as a scan and proved equal to \<open>rev (remdups (rev xs))\<close>);
    \<open>first_pos\<close>, \<open>join_str\<close> and the list and association-list lemmas the components share.
  \<^item> \<open>PyValue\<close>: Python values (\<open>pyval\<close>: None, bool, int, float as an exact decimal
    \<open>Dec m e\<close> = m/10^e, NaN, str, list, dict, numpy object array), the exceptions
    (\<open>py_exc\<close>), and \<open>repr\<close>/\<open>str\<close> as CPython prints them (\<open>float_repr\<close> switches to
    exponent notation outside [1e-4, 1e16); \<open>str_repr\<close> quotes and escapes).
  \<^item> \<open>Frame\<close>: a pandas DataFrame as its index and its named columns (\<open>frame\<close>), with the
    invariant \<open>wf_frame\<close>; \<open>df[c]\<close>, \<open>df[c] = list\<close>, \<open>drop(columns=...)\<close>,
    \<open>columns = ...\<close>, \<open>rename\<close>, \<open>reset_index\<close>, \<open>drop_duplicates(subset=...)\<close>.
  \<^item> \<open>GroupMerge\<close>: \<open>groupby(key)[cols].agg(['unique'])\<close> (sorted keys, missing keys
    dropped, \<open>TypeError\<close> on unhashable values, as pandas 2 does) and
    \<open>merge(how='left')\<close> with the \<open>_x\<close>/\<open>_y\<close> suffixes.
  \<^item> \<open>NumScan\<close>: \<open>re.findall(r'-?\d+\.?\d*', s)\<close> as a greedy scanner \<open>findall_num\<close>
    (a \<open>function\<close> terminating by the measure \<open>length\<close>), \<open>float\<close> on its tokens, and how the
    scanner splits a float printed in exponent notation (\<open>dec_exp\<close> is its exponent).
  \<^item> \<open>Features\<close>: \<open>initialize_variables\<close> (lines 41-88), the caller's per-observation
    append (modelled from spec section 4.3, the caller is not in the repository) and
    \<open>create_dataframe\<close> (lines 145-171) as the loop of column assignments.
  \<^item> \<open>TreatData\<close>: \<open>treat_data\<close> (lines 173-213) statement by statement:
    \<open>estab_categories\<close> (lines 193-206, with \<open>coords_loop\<close>/\<open>coords_of\<close> for lines 195-200),
    \<open>place_details\<close> (lines 208-209), the merge and the final drop (lines 210-213); and the
    closed form \<open>treat_data_result\<close> that the pipeline computes on a valid input.
  \<^item> \<open>TreatSpec\<close>: the input contract \<open>observation_table\<close> and what \<open>treat_data\<close>
    guarantees under it; example tables.
  \<^item> \<open>TreatRef\<close>: \<open>treat_data_ref\<close>, the three-stage list re-implementation of spec
    section 9 (explicit grouping, first-occurrence de-duplication, explicit left join), and
    the boundary of inputs without any place identifier.
  \<^item> \<open>Pipeline\<close>: the compositions the repository leaves to its caller, modelled from
    spec section 2: \<open>assemble\<close> (\<open>create_dataframe\<close> of the accumulated lists, then
    \<open>reset_index()\<close>) and \<open>enrich\<close> (\<open>assemble\<close>, then \<open>treat_data\<close>); \<open>obs_ok\<close> is what
    an observation must hold for the engine.
  \<^item> \<open>Request\<close>: \<open>read_file\<close> (lines 8-39), \<open>create_url\<close> (lines 90-118) and
    \<open>make_request\<close> (lines 120-143); \<open>read_csv\<close>, \<open>requests.get\<close>, \<open>json.loads\<close> are
    parameters, the environment a partial map, \<open>config.py\<close> a record.

  \<^bold>\<open>What is proved.\<close>
  \<^item> Refinement: on an observation table, the output of \<open>treat_data\<close> read as place records
    (\<open>frame_places\<close>) equals the abstract specification of spec section 4.4
    (\<open>spec_places\<close>: per place, its categories as a set, the first two floats of its
    geometry text, the fields of its first row).
  \<^item> \<open>treat_data\<close> on an observation table: one row per distinct place id in sorted order,
    a well-formed frame; the categories of a place as a set without repetition; its
    coordinates as the first two numbers of its geometry text; the other fields from its
    first row; the output columns; \<open>IndexError\<close> exactly when a geometry has fewer than two
    numbers; \<open>TypeError\<close> for unhashable geometries; an empty result (and no error) when no
    row has a place identifier; applied to its own output, \<open>KeyError\<close> (a finding).
  \<^item> Equivalence: on every observation table \<open>treat_data\<close> equals \<open>treat_data_ref\<close>, the
    same frame or the same exception.
  \<^item> The pipeline: the assembled table meets the engine's input contract; when it succeeds
    the result has one row per distinct identifier among the observations, with exactly
    the keywords each place was found under; it succeeds exactly when every place's
    geometries print with two numbers.
  \<^item> Coordinates: the geometry text of two positionally printed floats reads back as those
    floats; for a latitude printed in exponent notation, whatever the longitude, the
    longitude read is the latitude's exponent (a finding).
  \<^item> \<open>create_dataframe\<close> on the accumulated observations: one row per observation holding its
    fields; \<open>ValueError\<close> on a length mismatch after a non-empty first list (the docstring
    says \<open>No Raises\<close>, a finding); after an empty first list, success with a first column of
    NaN for every run of equal-length lists (a finding); composed with \<open>treat_data\<close>, always an exception,
    since only a caller's \<open>reset_index\<close> provides the \<open>index\<close> column (a finding).
  \<^item> \<open>create_url\<close>: its query string reads back as key, location, radius and keyword; the
    spec's example; \<open>TypeError\<close> without \<open>KEY\<close>; for every category with an \<open>&\<close>, the
    part after it becomes parameters of their own. \<open>read_file\<close> returns the table or the
    \<open>[ERROR]\<close> message naming the file and never raises (its docstring says it raises, a finding).

  \<^bold>\<open>Bounds and choices.\<close> No fuel is needed: every loop is structural recursion or, for
  the scanner, a \<open>function\<close> whose termination is proved by the measure \<open>length\<close> (each match
  consumes at least one character). Python's ints are \<open>int\<close>; floats are exact
  decimals, which is exact for the decimal literals the Places API returns and for their
  \<open>repr\<close>; binary rounding of floats is not modelled.

  \<^bold>\<open>Not modelled.\<close> The driver of the pipeline (not in the repository and not specified):
  its loop over (location, category) pairs, the caller of \<open>make_request\<close>, and the
  extraction of observations from the decoded JSON; only the data flow of spec section 2
  from the accumulated observations to the engine is modelled, in \<open>Pipeline\<close>. The
  values in \<open>config.py\<close> (not in the repository: a record of parameters); the internals of
  \<open>pd.read_csv\<close>, HTTP and JSON decoding (library calls, taken as parameters); \<open>float()\<close>
  on strings outside the scanner's token language (never reached from line 198); group keys
  that are not strings (the Places API's \<open>place_id\<close> is a string); the older pandas
  behaviour of dropping columns that fail to aggregate; the exact message texts of some
  pandas exceptions (the exception classes are modelled).
\<close>

section \<open>Properties across components\<close>

text \<open>C15: the frame that \<open>create_dataframe\<close> assembles from the accumulated observations has
  no \<open>index\<close> column, so handing it to \<open>treat_data\<close> as it is always raises: line 211 drops a
  column that only a caller's \<open>reset_index\<close> creates.\<close>

theorem create_then_treat_fails:
  "\<exists>e. bind_res (create_dataframe establishments_features_labels (accumulate obs)) treat_data = Inl e"
proof -
  have len: "length (accumulate obs) = length establishments_features_labels"
    using aligned_accumulate[of obs] by (simp add: aligned_def establishments_features_labels_def)
  have al: "length (accumulate obs) \<le> length establishments_features_labels"
    "\<forall>col \<in> set (accumulate obs). length col = length obs"
    using len aligned_accumulate[of obs] by simp_all
  from create_dataframe_eq_cd_state[OF distinct_features_labels al]
  obtain df where df: "create_dataframe establishments_features_labels (accumulate obs) = Inr df"
    "fr_cols df = zip establishments_features_labels (accumulate obs)" by blast
  have "col_names df = establishments_features_labels" using len by (simp add: col_names_def df(2))
  then have "''index'' \<notin> set (col_names df)" by (simp add: establishments_features_labels_def)
  then show ?thesis using treat_data_no_index df(1) by auto
qed

end
